theory Spec2Isabelle
  imports Complex_Main "HOL-Library.Word"
begin

unbundle bit_operations_syntax

section \<open>Strings, bytes and values of the host language\<close>

text \<open>
  A string of the host language is a sequence of 16-bit code units; a buffer is a sequence
  of bytes. String literals of the source are written \<open>str ''...''\<close>.
\<close>

type_synonym code_unit = "16 word"
type_synonym jsstring = "code_unit list"
type_synonym byte = "8 word"

definition str :: "string \<Rightarrow> jsstring" where
  "str s = map (\<lambda>c. of_nat (of_char c)) s"

text \<open>
  Numbers are carried around and tested for their type, never computed with: a finite
  number is kept as a rational.
\<close>

datatype number = Finite rat | PosInfinity | NegInfinity | NaN

datatype jsval =
    Undefined
  | Null
  | Bool bool
  | Num number
  | Str jsstring
  | Arr "jsval list"
  | Obj "(jsstring \<times> jsval) list"

text \<open>
  An object is the list of its own properties in insertion order (keys that are array indices,
  which the host enumerates first, do not occur in the statements below). \<open>obj_set\<close> is the assignment \<open>o[k] = v\<close>: an existing key keeps its place and
  takes the new value.
\<close>

fun obj_set ::
  "jsstring \<Rightarrow> jsval \<Rightarrow> (jsstring \<times> jsval) list \<Rightarrow> (jsstring \<times> jsval) list" where
  "obj_set k v [] = [(k, v)]"
| "obj_set k v ((k', v') # rest) =
     (if k = k' then (k, v) # rest else (k', v') # obj_set k v rest)"

fun js_typeof :: "jsval \<Rightarrow> string" where
  "js_typeof Undefined = ''undefined''"
| "js_typeof Null = ''object''"
| "js_typeof (Bool b) = ''boolean''"
| "js_typeof (Num n) = ''number''"
| "js_typeof (Str s) = ''string''"
| "js_typeof (Arr xs) = ''object''"
| "js_typeof (Obj kvs) = ''object''"

text \<open>\<open>falsy v\<close> is the truth value of \<open>!v\<close>.\<close>

fun falsy :: "jsval \<Rightarrow> bool" where
  "falsy Undefined = True"
| "falsy Null = True"
| "falsy (Bool b) = (\<not> b)"
| "falsy (Num n) = (n = Finite 0 \<or> n = NaN)"
| "falsy (Str s) = (s = [])"
| "falsy (Arr xs) = False"
| "falsy (Obj kvs) = False"

text \<open>
  The read \<open>v.k\<close> of an own property and the test \<open>k in v\<close>. The webhook code applies
  them to values it has tested to be objects or arrays, and to named keys only (none of them
  an index, \<open>length\<close>, or a property of the prototype): only an object has such a key, and
  a missing property reads as \<open>undefined\<close>.
\<close>

fun get_prop :: "jsval \<Rightarrow> jsstring \<Rightarrow> jsval" where
  "get_prop (Obj kvs) k = (case map_of kvs k of None \<Rightarrow> Undefined | Some v \<Rightarrow> v)"
| "get_prop _ k = Undefined"

fun has_prop :: "jsval \<Rightarrow> jsstring \<Rightarrow> bool" where
  "has_prop (Obj kvs) k = (map_of kvs k \<noteq> None)"
| "has_prop _ k = False"

fun show_nat :: "nat \<Rightarrow> jsstring" where
  "show_nat n =
     (if n < 10 then [of_nat (48 + n)] else show_nat (n div 10) @ [of_nat (48 + n mod 10)])"

text \<open>
  The own enumerable properties that a spread \<open>...v\<close> copies: those of an object, the
  indexed elements of an array or of a string, nothing for the other values.
\<close>

fun own_entries :: "jsval \<Rightarrow> (jsstring \<times> jsval) list" where
  "own_entries (Obj kvs) = kvs"
| "own_entries (Arr xs) = zip (map show_nat [0..<length xs]) xs"
| "own_entries (Str s) = zip (map show_nat [0..<length s]) (map (\<lambda>c. Str [c]) s)"
| "own_entries _ = []"

text \<open>
  The object literal \<open>{k1: v1, ..., kn: vn, ...src}\<close>: the listed properties first, then
  every own property of \<open>src\<close> assigned over them.
\<close>

definition object_literal :: "(jsstring \<times> jsval) list \<Rightarrow> jsval \<Rightarrow> jsval" where
  "object_literal props src =
     Obj (fold (\<lambda>(k, v) acc. obj_set k v acc) (own_entries src)
            (fold (\<lambda>(k, v) acc. obj_set k v acc) props []))"

section \<open>Errors and collaborators\<close>

text \<open>
  What a call can throw: an \<open>Error\<close> with its message, the \<open>SyntaxError\<close> of
  \<open>JSON.parse\<close>, the \<open>RangeError\<close> of \<open>crypto.timingSafeEqual\<close>, or whatever a
  user's handler threw.
\<close>

datatype 'x exn = Error string | SyntaxError | RangeError | HandlerError 'x

text \<open>
  The functions the webhook module calls and does not define: the HMAC-SHA256 digest of
  \<open>crypto.createHmac("sha256", secret).update(payload)\<close> (key first), \<open>JSON.parse\<close>
  (\<open>None\<close> when it throws its SyntaxError), \<open>Buffer.toString("utf8")\<close>, and
  \<open>toCamelCase\<close> of \<open>../utils\<close>. The webhook functions take them as a parameter.
\<close>

record collaborators =
  hmac_sha256 :: "jsstring \<Rightarrow> jsstring \<Rightarrow> byte list"
  JSON_parse :: "jsstring \<Rightarrow> jsval option"
  toString_utf8 :: "byte list \<Rightarrow> jsstring"
  toCamelCase :: "jsval \<Rightarrow> jsval"

section \<open>Signature verifier\<close>

text \<open>
  \<open>Buffer.from(string)\<close> encodes the string as UTF-8: a surrogate pair is one code point
  of four bytes, a lone surrogate becomes U+FFFD.
\<close>

definition replacement :: "byte list" where
  "replacement = [0xEF, 0xBF, 0xBD]"

definition code_point :: "code_unit \<Rightarrow> code_unit \<Rightarrow> 32 word" where
  "code_point hi lo = 0x10000 + push_bit 10 (ucast (hi - 0xD800)) + ucast (lo - 0xDC00)"

fun Buffer_from :: "jsstring \<Rightarrow> byte list" where
  "Buffer_from [] = []"
| "Buffer_from (c # cs) =
    (if c < 0x80 then ucast c # Buffer_from cs
     else if c < 0x800 then
       (0xC0 OR ucast (drop_bit 6 c)) # (0x80 OR ucast (c AND 0x3F)) # Buffer_from cs
     else if 0xD800 \<le> c \<and> c < 0xDC00 then
       (case cs of
          [] \<Rightarrow> replacement
        | d # ds \<Rightarrow>
            if 0xDC00 \<le> d \<and> d < 0xE000 then
              (let cp = code_point c d in
                 (0xF0 OR ucast (drop_bit 18 cp)) #
                 (0x80 OR ucast (drop_bit 12 cp AND 0x3F)) #
                 (0x80 OR ucast (drop_bit 6 cp AND 0x3F)) #
                 (0x80 OR ucast (cp AND 0x3F)) # Buffer_from ds)
            else replacement @ Buffer_from cs)
     else if 0xDC00 \<le> c \<and> c < 0xE000 then replacement @ Buffer_from cs
     else
       (0xE0 OR ucast (drop_bit 12 c)) #
       (0x80 OR ucast (drop_bit 6 c AND 0x3F)) #
       (0x80 OR ucast (c AND 0x3F)) # Buffer_from cs)"

text \<open>A string of code units below 128, which \<open>Buffer.from\<close> encodes unit by unit.\<close>

definition is_ascii :: "jsstring \<Rightarrow> bool" where
  "is_ascii s = list_all (\<lambda>c. c < 0x80) s"

text \<open>\<open>digest("hex")\<close>: two lowercase hexadecimal digits for each byte.\<close>

definition hex_digits :: jsstring where
  "hex_digits = str ''0123456789abcdef''"

definition hex :: "byte list \<Rightarrow> jsstring" where
  "hex bs =
     concat (map (\<lambda>b. [hex_digits ! unat (drop_bit 4 b), hex_digits ! unat (b AND 0xF)]) bs)"

definition generateSignature :: "collaborators \<Rightarrow> jsstring \<Rightarrow> jsstring \<Rightarrow> jsstring" where
  "generateSignature env payload secret = hex (hmac_sha256 env secret payload)"

text \<open>\<open>crypto.timingSafeEqual\<close> throws a RangeError when the buffers differ in length.\<close>

definition timingSafeEqual :: "byte list \<Rightarrow> byte list \<Rightarrow> 'x exn + bool" where
  "timingSafeEqual a b = (if length a \<noteq> length b then Inl RangeError else Inr (a = b))"

definition verifySignature ::
  "collaborators \<Rightarrow> jsstring \<Rightarrow> jsstring \<Rightarrow> jsstring \<Rightarrow> 'x exn + bool" where
  "verifySignature env payload signature secret =
     (let expectedSignature = generateSignature env payload secret;
          signatureBuffer = Buffer_from signature;
          expectedBuffer = Buffer_from expectedSignature
      in if length signatureBuffer \<noteq> length expectedBuffer then Inr False
         else timingSafeEqual signatureBuffer expectedBuffer)"

section \<open>Event parser\<close>

definition entity_types :: "jsstring list" where
  "entity_types =
     [str ''checkout'', str ''customer'', str ''order'', str ''product'',
      str ''subscription'', str ''refund'', str ''dispute'', str ''transaction'']"

definition isWebhookEntity :: "jsval \<Rightarrow> bool" where
  "isWebhookEntity obj =
     (if falsy obj \<or> js_typeof obj \<noteq> ''object'' then False
      else js_typeof (get_prop obj (str ''object'')) = ''string'' \<and>
           get_prop obj (str ''object'') \<in> set (map Str entity_types))"

definition isWebhookEvent :: "jsval \<Rightarrow> bool" where
  "isWebhookEvent obj =
     (if falsy obj \<or> js_typeof obj \<noteq> ''object'' then False
      else js_typeof (get_prop obj (str ''eventType'')) = ''string'' \<and>
           js_typeof (get_prop obj (str ''id'')) = ''string'' \<and>
           js_typeof (get_prop obj (str ''created_at'')) = ''number'' \<and>
           has_prop obj (str ''object'') \<and>
           isWebhookEntity (get_prop obj (str ''object'')))"

definition parseWebhookEvent :: "collaborators \<Rightarrow> jsstring \<Rightarrow> 'x exn + jsval" where
  "parseWebhookEvent env payload =
     (case JSON_parse env payload of
        None \<Rightarrow> Inl SyntaxError
      | Some event \<Rightarrow>
          if \<not> isWebhookEvent event then Inl (Error ''Invalid webhook event structure'')
          else Inr event)"

section \<open>Field normalizer\<close>

definition normalizeWebhookData :: "collaborators \<Rightarrow> jsval \<Rightarrow> jsval" where
  "normalizeWebhookData env data = toCamelCase env data"

text \<open>
  Modelled from the spec: the renaming of a key by \<open>toCamelCase\<close> of \<open>../utils\<close>, a
  module that the sources at hand import and do not contain. Section 4.3 of the
  specification: a key in the wire convention (lowercase words joined by underscores)
  becomes the key in the public convention (first word lowercase, subsequent words
  capitalized, no separators); every other key is left unchanged.
\<close>

fun split_words :: "jsstring \<Rightarrow> jsstring list" where
  "split_words [] = [[]]"
| "split_words (c # cs) =
     (if c = 0x5F then [] # split_words cs
      else (case split_words cs of
              [] \<Rightarrow> [[c]]
            | w # ws \<Rightarrow> (c # w) # ws))"

definition is_lower :: "code_unit \<Rightarrow> bool" where
  "is_lower c = (0x61 \<le> c \<and> c \<le> 0x7A)"

definition is_wire_key :: "jsstring \<Rightarrow> bool" where
  "is_wire_key k = list_all (\<lambda>w. w \<noteq> [] \<and> list_all is_lower w) (split_words k)"

fun capitalize :: "jsstring \<Rightarrow> jsstring" where
  "capitalize [] = []"
| "capitalize (c # cs) = (if is_lower c then c - 0x20 else c) # cs"

fun join_camel :: "jsstring list \<Rightarrow> jsstring" where
  "join_camel [] = []"
| "join_camel (w # ws) = w @ concat (map capitalize ws)"

definition rename_key :: "jsstring \<Rightarrow> jsstring" where
  "rename_key k = (if is_wire_key k then join_camel (split_words k) else k)"

text \<open>The object built from a list of entries by assigning them in turn.\<close>

definition from_entries :: "(jsstring \<times> jsval) list \<Rightarrow> (jsstring \<times> jsval) list" where
  "from_entries es = fold (\<lambda>(k, v) acc. obj_set k v acc) es []"

text \<open>
  Modelled from the spec: \<open>toCamelCase\<close> of \<open>../utils\<close> (section 4.3 of the
  specification). The transform renames the keys of a mapping, recurses into nested
  mappings and into every element of a sequence, and leaves scalars untouched. The result
  for a mapping is a mapping again: it is built by assigning each renamed key in turn, so
  that a key assigned twice is kept once.
\<close>

primrec toCamelCase_spec :: "jsval \<Rightarrow> jsval" where
  "toCamelCase_spec Undefined = Undefined"
| "toCamelCase_spec Null = Null"
| "toCamelCase_spec (Bool b) = Bool b"
| "toCamelCase_spec (Num n) = Num n"
| "toCamelCase_spec (Str s) = Str s"
| "toCamelCase_spec (Arr xs) = Arr (map toCamelCase_spec xs)"
| "toCamelCase_spec (Obj kvs) =
     Obj (from_entries (map (map_prod rename_key toCamelCase_spec) kvs))"

text \<open>
  The shape of a value: the value with every key erased, so that two values have the same
  shape when their mappings have as many entries, their sequences are as long, the
  corresponding elements have the same shape and the scalars are equal.
\<close>

primrec shape :: "jsval \<Rightarrow> jsval" where
  "shape Undefined = Undefined"
| "shape Null = Null"
| "shape (Bool b) = Bool b"
| "shape (Num n) = Num n"
| "shape (Str s) = Str s"
| "shape (Arr xs) = Arr (map shape xs)"
| "shape (Obj kvs) = Obj (map (map_prod (\<lambda>k. []) shape) kvs)"

text \<open>
  A decoded value is structurally valid when no mapping in it has the same key twice, and
  free of collisions when, moreover, no mapping in it has two keys with the same renamed
  key.
\<close>

primrec valid :: "jsval \<Rightarrow> bool" where
  "valid Undefined = True"
| "valid Null = True"
| "valid (Bool b) = True"
| "valid (Num n) = True"
| "valid (Str s) = True"
| "valid (Arr xs) = list_all id (map valid xs)"
| "valid (Obj kvs) =
     (distinct (map fst kvs) \<and> list_all snd (map (map_prod id valid) kvs))"

primrec collision_free :: "jsval \<Rightarrow> bool" where
  "collision_free Undefined = True"
| "collision_free Null = True"
| "collision_free (Bool b) = True"
| "collision_free (Num n) = True"
| "collision_free (Str s) = True"
| "collision_free (Arr xs) = list_all id (map collision_free xs)"
| "collision_free (Obj kvs) =
     (distinct (map (\<lambda>e. rename_key (fst e)) kvs) \<and>
      list_all snd (map (map_prod id collision_free) kvs))"

section \<open>Handler registry\<close>

text \<open>
  A callback is applied to its argument and either completes (\<open>None\<close>) or throws, which
  for an asynchronous callback is the rejection of the promise that is awaited.
\<close>

type_synonym 'x callback = "jsval \<Rightarrow> 'x option"

record 'x WebhookOptions =
  onCheckoutCompleted :: "'x callback option"
  onRefundCreated :: "'x callback option"
  onDisputeCreated :: "'x callback option"
  onSubscriptionActive :: "'x callback option"
  onSubscriptionTrialing :: "'x callback option"
  onSubscriptionCanceled :: "'x callback option"
  onSubscriptionPaid :: "'x callback option"
  onSubscriptionExpired :: "'x callback option"
  onSubscriptionUnpaid :: "'x callback option"
  onSubscriptionUpdate :: "'x callback option"
  onSubscriptionPastDue :: "'x callback option"
  onSubscriptionPaused :: "'x callback option"
  onSubscriptionScheduledCancel :: "'x callback option"
  onGrantAccess :: "'x callback option"
  onRevokeAccess :: "'x callback option"

datatype handler_name =
    OnCheckoutCompleted | OnRefundCreated | OnDisputeCreated
  | OnSubscriptionActive | OnSubscriptionTrialing | OnSubscriptionCanceled
  | OnSubscriptionPaid | OnSubscriptionExpired | OnSubscriptionUnpaid
  | OnSubscriptionUpdate | OnSubscriptionPastDue | OnSubscriptionPaused
  | OnSubscriptionScheduledCancel | OnGrantAccess | OnRevokeAccess

section \<open>Event router and entry point\<close>

text \<open>
  What a call of \<open>handleEvents\<close> does besides returning: the callbacks it invokes, each
  with its argument, and the warning it prints for an unknown event type (the value
  interpolated into the message is recorded).
\<close>

datatype effect = Call handler_name jsval | ConsoleWarn jsval

type_synonym 'x outcome = "effect list \<times> ('x exn + unit)"

text \<open>
  \<open>await handlers.h?.(arg)\<close> after the effects \<open>done\<close>, for the entry \<open>callback\<close> of
  the registry that the source names \<open>h\<close>: nothing happens when no handler is registered
  there; otherwise it is called, and what it throws is thrown on.
\<close>

definition invoke ::
  "handler_name \<Rightarrow> 'x callback option \<Rightarrow> jsval \<Rightarrow> effect list \<Rightarrow> 'x outcome" where
  "invoke h callback arg done =
     (case callback of
        None \<Rightarrow> (done, Inr ())
      | Some f \<Rightarrow>
          (case f arg of
             None \<Rightarrow> (done @ [Call h arg], Inr ())
           | Some e \<Rightarrow> (done @ [Call h arg], Inl (HandlerError e))))"

text \<open>Two awaited statements in sequence: the second runs only if the first returned.\<close>

definition and_then :: "'x outcome \<Rightarrow> (effect list \<Rightarrow> 'x outcome) \<Rightarrow> 'x outcome" where
  "and_then first second =
     (case first of
        (done, Inl e) \<Rightarrow> (done, Inl e)
      | (done, Inr u) \<Rightarrow> second done)"

text \<open>Step 6 of \<open>handleEvents\<close>: the switch over \<open>event.eventType\<close>.\<close>

definition route :: "'x WebhookOptions \<Rightarrow> jsval \<Rightarrow> jsval \<Rightarrow> 'x outcome" where
  "route handlers event normalizedObject =
     (let eventType = get_prop event (str ''eventType'');
          specific =
            object_literal
              [(str ''webhookEventType'', get_prop event (str ''eventType'')),
               (str ''webhookId'', get_prop event (str ''id'')),
               (str ''webhookCreatedAt'', get_prop event (str ''created_at''))]
              normalizedObject
      in
      if eventType = Str (str ''checkout.completed'') then
        invoke OnCheckoutCompleted (onCheckoutCompleted handlers) specific []
      else if eventType = Str (str ''refund.created'') then
        invoke OnRefundCreated (onRefundCreated handlers) specific []
      else if eventType = Str (str ''dispute.created'') then
        invoke OnDisputeCreated (onDisputeCreated handlers) specific []
      else if eventType = Str (str ''subscription.active'') then
        and_then
          (invoke OnGrantAccess (onGrantAccess handlers)
             (object_literal [(str ''reason'', Str (str ''subscription_active''))] normalizedObject) [])
          (invoke OnSubscriptionActive (onSubscriptionActive handlers) specific)
      else if eventType = Str (str ''subscription.trialing'') then
        and_then
          (invoke OnGrantAccess (onGrantAccess handlers)
             (object_literal [(str ''reason'', Str (str ''subscription_trialing''))] normalizedObject) [])
          (invoke OnSubscriptionTrialing (onSubscriptionTrialing handlers) specific)
      else if eventType = Str (str ''subscription.paid'') then
        and_then
          (invoke OnGrantAccess (onGrantAccess handlers)
             (object_literal [(str ''reason'', Str (str ''subscription_paid''))] normalizedObject) [])
          (invoke OnSubscriptionPaid (onSubscriptionPaid handlers) specific)
      else if eventType = Str (str ''subscription.paused'') then
        and_then
          (invoke OnRevokeAccess (onRevokeAccess handlers)
             (object_literal [(str ''reason'', Str (str ''subscription_paused''))] normalizedObject) [])
          (invoke OnSubscriptionPaused (onSubscriptionPaused handlers) specific)
      else if eventType = Str (str ''subscription.expired'') then
        and_then
          (invoke OnRevokeAccess (onRevokeAccess handlers)
             (object_literal [(str ''reason'', Str (str ''subscription_expired''))] normalizedObject) [])
          (invoke OnSubscriptionExpired (onSubscriptionExpired handlers) specific)
      else if eventType = Str (str ''subscription.canceled'') then
        invoke OnSubscriptionCanceled (onSubscriptionCanceled handlers) specific []
      else if eventType = Str (str ''subscription.unpaid'') then
        invoke OnSubscriptionUnpaid (onSubscriptionUnpaid handlers) specific []
      else if eventType = Str (str ''subscription.update'') then
        invoke OnSubscriptionUpdate (onSubscriptionUpdate handlers) specific []
      else if eventType = Str (str ''subscription.past_due'') then
        invoke OnSubscriptionPastDue (onSubscriptionPastDue handlers) specific []
      else if eventType = Str (str ''subscription.scheduled_cancel'') then
        invoke OnSubscriptionScheduledCancel (onSubscriptionScheduledCancel handlers)
          specific []
      else ([ConsoleWarn eventType], Inr ()))"

text \<open>The case labels of the switch.\<close>

definition event_types :: "jsstring list" where
  "event_types =
     [str ''checkout.completed'', str ''refund.created'', str ''dispute.created'',
      str ''subscription.active'', str ''subscription.trialing'', str ''subscription.paid'',
      str ''subscription.paused'', str ''subscription.expired'', str ''subscription.canceled'',
      str ''subscription.unpaid'', str ''subscription.update'', str ''subscription.past_due'',
      str ''subscription.scheduled_cancel'']"

datatype payload = Text jsstring | Buffer "byte list"

text \<open>Step 2 of \<open>handleEvents\<close>: the payload as a string.\<close>

definition payloadString :: "collaborators \<Rightarrow> payload \<Rightarrow> jsstring" where
  "payloadString env payload =
     (case payload of Text p \<Rightarrow> p | Buffer b \<Rightarrow> toString_utf8 env b)"

definition secret_missing_message :: string where
  "secret_missing_message =
     ''Webhook secret not configured. Pass `webhookSecret` to `createCreem`.''"

text \<open>
  \<open>webhooksResource(secret).handleEvents(payload, signature, handlers)\<close>; the optional
  secret is \<open>None\<close> when it was not given.
\<close>

definition handleEvents ::
  "collaborators \<Rightarrow> jsstring option \<Rightarrow> payload \<Rightarrow> jsstring \<Rightarrow> 'x WebhookOptions \<Rightarrow> 'x outcome" where
  "handleEvents env secret payload signature handlers =
     (case secret of
        None \<Rightarrow> ([], Inl (Error secret_missing_message))
      | Some s \<Rightarrow>
          if s = [] then ([], Inl (Error secret_missing_message))
          else
            (case verifySignature env (payloadString env payload) signature s of
               Inl e \<Rightarrow> ([], Inl e)
             | Inr ok \<Rightarrow>
                 if \<not> ok then ([], Inl (Error ''Invalid webhook signature''))
                 else
                   (case parseWebhookEvent env (payloadString env payload) of
                      Inl e \<Rightarrow> ([], Inl e)
                    | Inr event \<Rightarrow>
                        route handlers event
                          (normalizeWebhookData env (get_prop event (str ''object''))))))"


section \<open>The dispatch table of the specification\<close>

text \<open>
  Section 4.4 of the specification, row by row: for each event type the callbacks to
  invoke, in order; an access-control step carries its reason. Any other event type has no
  row. This table is written from the specification, to be compared with \<open>route\<close>.
\<close>

definition dispatch_table :: "jsstring \<Rightarrow> (handler_name \<times> string option) list" where
  "dispatch_table t =
     (if t = str ''checkout.completed'' then [(OnCheckoutCompleted, None)]
      else if t = str ''refund.created'' then [(OnRefundCreated, None)]
      else if t = str ''dispute.created'' then [(OnDisputeCreated, None)]
      else if t = str ''subscription.active'' then
        [(OnGrantAccess, Some ''subscription_active''), (OnSubscriptionActive, None)]
      else if t = str ''subscription.trialing'' then
        [(OnGrantAccess, Some ''subscription_trialing''), (OnSubscriptionTrialing, None)]
      else if t = str ''subscription.paid'' then
        [(OnGrantAccess, Some ''subscription_paid''), (OnSubscriptionPaid, None)]
      else if t = str ''subscription.paused'' then
        [(OnRevokeAccess, Some ''subscription_paused''), (OnSubscriptionPaused, None)]
      else if t = str ''subscription.expired'' then
        [(OnRevokeAccess, Some ''subscription_expired''), (OnSubscriptionExpired, None)]
      else if t = str ''subscription.canceled'' then [(OnSubscriptionCanceled, None)]
      else if t = str ''subscription.unpaid'' then [(OnSubscriptionUnpaid, None)]
      else if t = str ''subscription.update'' then [(OnSubscriptionUpdate, None)]
      else if t = str ''subscription.past_due'' then [(OnSubscriptionPastDue, None)]
      else if t = str ''subscription.scheduled_cancel'' then
        [(OnSubscriptionScheduledCancel, None)]
      else [])"

text \<open>The entry of the handler registry that a name of the table denotes.\<close>

fun handler_of :: "'x WebhookOptions \<Rightarrow> handler_name \<Rightarrow> 'x callback option" where
  "handler_of hs OnCheckoutCompleted = onCheckoutCompleted hs"
| "handler_of hs OnRefundCreated = onRefundCreated hs"
| "handler_of hs OnDisputeCreated = onDisputeCreated hs"
| "handler_of hs OnSubscriptionActive = onSubscriptionActive hs"
| "handler_of hs OnSubscriptionTrialing = onSubscriptionTrialing hs"
| "handler_of hs OnSubscriptionCanceled = onSubscriptionCanceled hs"
| "handler_of hs OnSubscriptionPaid = onSubscriptionPaid hs"
| "handler_of hs OnSubscriptionExpired = onSubscriptionExpired hs"
| "handler_of hs OnSubscriptionUnpaid = onSubscriptionUnpaid hs"
| "handler_of hs OnSubscriptionUpdate = onSubscriptionUpdate hs"
| "handler_of hs OnSubscriptionPastDue = onSubscriptionPastDue hs"
| "handler_of hs OnSubscriptionPaused = onSubscriptionPaused hs"
| "handler_of hs OnSubscriptionScheduledCancel = onSubscriptionScheduledCancel hs"
| "handler_of hs OnGrantAccess = onGrantAccess hs"
| "handler_of hs OnRevokeAccess = onRevokeAccess hs"

text \<open>
  The wrapper fields of the specification: the event type, the id and the creation time of
  the envelope for a specific-event handler, the reason for an access-control context.
\<close>

definition event_fields :: "jsval \<Rightarrow> (jsstring \<times> jsval) list" where
  "event_fields event =
     [(str ''webhookEventType'', get_prop event (str ''eventType'')),
      (str ''webhookId'', get_prop event (str ''id'')),
      (str ''webhookCreatedAt'', get_prop event (str ''created_at''))]"

definition reason_field :: "string \<Rightarrow> (jsstring \<times> jsval) list" where
  "reason_field r = [(str ''reason'', Str (str r))]"

text \<open>
  The argument of a step of the table: the access-control context for a step with a
  reason, the event with its three wrapper fields otherwise, in both cases with the fields
  of the normalized entity at the top level.
\<close>

fun step_argument :: "jsval \<Rightarrow> jsval \<Rightarrow> string option \<Rightarrow> jsval" where
  "step_argument event normalizedObject (Some r) =
     object_literal (reason_field r) normalizedObject"
| "step_argument event normalizedObject None =
     object_literal (event_fields event) normalizedObject"

definition table_calls :: "'x WebhookOptions \<Rightarrow> jsval \<Rightarrow> jsval \<Rightarrow> jsstring \<Rightarrow> effect list" where
  "table_calls handlers event normalizedObject t =
     map (\<lambda>(h, r). Call h (step_argument event normalizedObject r))
       (filter (\<lambda>(h, r). handler_of handlers h \<noteq> None) (dispatch_table t))"

text \<open>
  The contract of the dispatcher in the specification: the steps of the row are executed
  one after the other, each awaited before the next begins; a step whose handler is not
  registered is skipped; the first handler that throws ends the dispatch with what it
  threw. An event type without a row invokes nothing and prints the warning.
\<close>

fun run_steps ::
  "'x WebhookOptions \<Rightarrow> jsval \<Rightarrow> jsval \<Rightarrow> (handler_name \<times> string option) list \<Rightarrow>
   effect list \<Rightarrow> 'x outcome" where
  "run_steps handlers event normalizedObject [] done = (done, Inr ())"
| "run_steps handlers event normalizedObject ((h, r) # rest) done =
     and_then
       (invoke h (handler_of handlers h) (step_argument event normalizedObject r) done)
              (run_steps handlers event normalizedObject rest)"

definition dispatch_spec :: "'x WebhookOptions \<Rightarrow> jsval \<Rightarrow> jsval \<Rightarrow> jsstring \<Rightarrow> 'x outcome" where
  "dispatch_spec handlers event normalizedObject t =
     (if dispatch_table t = [] then ([ConsoleWarn (Str t)], Inr ())
      else run_steps handlers event normalizedObject (dispatch_table t) [])"

text \<open>A registered handler that throws \<open>e\<close> on the argument \<open>a\<close>.\<close>

definition raises :: "'x WebhookOptions \<Rightarrow> handler_name \<Rightarrow> jsval \<Rightarrow> 'x \<Rightarrow> bool" where
  "raises handlers h a e =
     (case handler_of handlers h of None \<Rightarrow> False | Some f \<Rightarrow> f a = Some e)"

section \<open>Sample deliveries\<close>

text \<open>
  Concrete deliveries on which the statements below are evaluated. The collaborators are
  tabulated at these inputs: \<open>JSON.parse\<close> at each text with the value it decodes to
  (it throws on the text \<open>not json\<close>), HMAC-SHA256 at each text under the sample secret
  with its digest. Outside the tables the entries are placeholders (no decoded value, a
  digest of zeros). \<open>Buffer.toString\<close> is given for buffers of ASCII bytes, and
  \<open>toCamelCase\<close> is the model of section 4.3 above.
\<close>

definition sample_secret :: jsstring where
  "sample_secret = str ''whsec_test''"

definition checkout_text :: jsstring where
  \<open>checkout_text =
     str ''{"id":"evt_1","eventType":"checkout.completed","created_at":1700000000,"object":{"object":"checkout","request_id":"req_1"}}''\<close>

definition active_text :: jsstring where
  \<open>active_text =
     str ''{"id":"evt_2","eventType":"subscription.active","created_at":1700000001,"object":{"object":"subscription","status":"active"}}''\<close>

definition future_text :: jsstring where
  \<open>future_text =
     str ''{"id":"evt_3","eventType":"future.event","created_at":1700000002,"object":{"object":"order"}}''\<close>

definition override_text :: jsstring where
  \<open>override_text =
     str ''{"id":"evt_4","eventType":"checkout.completed","created_at":1700000003,"object":{"object":"checkout","webhookEventType":"forged"}}''\<close>

definition reason_text :: jsstring where
  \<open>reason_text =
     str ''{"id":"evt_5","eventType":"subscription.active","created_at":1700000004,"object":{"object":"subscription","reason":"forged"}}''\<close>

definition snake_text :: jsstring where
  \<open>snake_text =
     str ''{"id":"evt_6","event_type":"checkout.completed","created_at":1700000005,"object":{"object":"checkout"}}''\<close>

definition camel_text :: jsstring where
  \<open>camel_text =
     str ''{"id":"evt_7","eventType":"checkout.completed","createdAt":1700000006,"object":{"object":"checkout"}}''\<close>

definition untyped_text :: jsstring where
  \<open>untyped_text =
     str ''{"id":"evt_8","eventType":"checkout.completed","created_at":1700000007,"object":{"status":"open"}}''\<close>

definition stamped_text :: jsstring where
  \<open>stamped_text =
     str ''{"id":"evt_9","eventType":"refund.created","created_at":1700000010,"object":{"object":"refund","webhookCreatedAt":1}}''\<close>

definition refund_text :: jsstring where
  \<open>refund_text =
     str ''{"id":"evt_20","eventType":"refund.created","created_at":1700000020,"object":{"object":"refund"}}''\<close>

definition dispute_text :: jsstring where
  \<open>dispute_text =
     str ''{"id":"evt_21","eventType":"dispute.created","created_at":1700000021,"object":{"object":"dispute"}}''\<close>

definition trialing_text :: jsstring where
  \<open>trialing_text =
     str ''{"id":"evt_22","eventType":"subscription.trialing","created_at":1700000022,"object":{"object":"subscription"}}''\<close>

definition paid_text :: jsstring where
  \<open>paid_text =
     str ''{"id":"evt_23","eventType":"subscription.paid","created_at":1700000023,"object":{"object":"subscription"}}''\<close>

definition paused_text :: jsstring where
  \<open>paused_text =
     str ''{"id":"evt_24","eventType":"subscription.paused","created_at":1700000024,"object":{"object":"subscription"}}''\<close>

definition expired_text :: jsstring where
  \<open>expired_text =
     str ''{"id":"evt_25","eventType":"subscription.expired","created_at":1700000025,"object":{"object":"subscription"}}''\<close>

definition canceled_text :: jsstring where
  \<open>canceled_text =
     str ''{"id":"evt_26","eventType":"subscription.canceled","created_at":1700000026,"object":{"object":"subscription"}}''\<close>

definition unpaid_text :: jsstring where
  \<open>unpaid_text =
     str ''{"id":"evt_27","eventType":"subscription.unpaid","created_at":1700000027,"object":{"object":"subscription"}}''\<close>

definition update_text :: jsstring where
  \<open>update_text =
     str ''{"id":"evt_28","eventType":"subscription.update","created_at":1700000028,"object":{"object":"subscription"}}''\<close>

definition past_due_text :: jsstring where
  \<open>past_due_text =
     str ''{"id":"evt_29","eventType":"subscription.past_due","created_at":1700000029,"object":{"object":"subscription"}}''\<close>

definition scheduled_cancel_text :: jsstring where
  \<open>scheduled_cancel_text =
     str ''{"id":"evt_30","eventType":"subscription.scheduled_cancel","created_at":1700000030,"object":{"object":"subscription"}}''\<close>

definition garbage_text :: jsstring where
  \<open>garbage_text =
     str ''not json''\<close>

definition checkout_event :: jsval where
  "checkout_event =
     Obj [(str ''id'', Str (str ''evt_1'')),
          (str ''eventType'', Str (str ''checkout.completed'')),
          (str ''created_at'', Num (Finite 1700000000)),
          (str ''object'', Obj [(str ''object'', Str (str ''checkout'')), (str ''request_id'', Str (str ''req_1''))])]"

definition active_event :: jsval where
  "active_event =
     Obj [(str ''id'', Str (str ''evt_2'')),
          (str ''eventType'', Str (str ''subscription.active'')),
          (str ''created_at'', Num (Finite 1700000001)),
          (str ''object'', Obj [(str ''object'', Str (str ''subscription'')), (str ''status'', Str (str ''active''))])]"

definition future_event :: jsval where
  "future_event =
     Obj [(str ''id'', Str (str ''evt_3'')),
          (str ''eventType'', Str (str ''future.event'')),
          (str ''created_at'', Num (Finite 1700000002)),
          (str ''object'', Obj [(str ''object'', Str (str ''order''))])]"

definition override_event :: jsval where
  "override_event =
     Obj [(str ''id'', Str (str ''evt_4'')),
          (str ''eventType'', Str (str ''checkout.completed'')),
          (str ''created_at'', Num (Finite 1700000003)),
          (str ''object'', Obj [(str ''object'', Str (str ''checkout'')), (str ''webhookEventType'', Str (str ''forged''))])]"

definition reason_event :: jsval where
  "reason_event =
     Obj [(str ''id'', Str (str ''evt_5'')),
          (str ''eventType'', Str (str ''subscription.active'')),
          (str ''created_at'', Num (Finite 1700000004)),
          (str ''object'', Obj [(str ''object'', Str (str ''subscription'')), (str ''reason'', Str (str ''forged''))])]"

definition snake_event :: jsval where
  "snake_event =
     Obj [(str ''id'', Str (str ''evt_6'')),
          (str ''event_type'', Str (str ''checkout.completed'')),
          (str ''created_at'', Num (Finite 1700000005)),
          (str ''object'', Obj [(str ''object'', Str (str ''checkout''))])]"

definition camel_event :: jsval where
  "camel_event =
     Obj [(str ''id'', Str (str ''evt_7'')),
          (str ''eventType'', Str (str ''checkout.completed'')),
          (str ''createdAt'', Num (Finite 1700000006)),
          (str ''object'', Obj [(str ''object'', Str (str ''checkout''))])]"

definition untyped_event :: jsval where
  "untyped_event =
     Obj [(str ''id'', Str (str ''evt_8'')),
          (str ''eventType'', Str (str ''checkout.completed'')),
          (str ''created_at'', Num (Finite 1700000007)),
          (str ''object'', Obj [(str ''status'', Str (str ''open''))])]"

definition stamped_event :: jsval where
  "stamped_event =
     Obj [(str ''id'', Str (str ''evt_9'')),
          (str ''eventType'', Str (str ''refund.created'')),
          (str ''created_at'', Num (Finite 1700000010)),
          (str ''object'', Obj [(str ''object'', Str (str ''refund'')), (str ''webhookCreatedAt'', Num (Finite 1))])]"

definition refund_event :: jsval where
  "refund_event =
     Obj [(str ''id'', Str (str ''evt_20'')),
          (str ''eventType'', Str (str ''refund.created'')),
          (str ''created_at'', Num (Finite 1700000020)),
          (str ''object'', Obj [(str ''object'', Str (str ''refund''))])]"

definition dispute_event :: jsval where
  "dispute_event =
     Obj [(str ''id'', Str (str ''evt_21'')),
          (str ''eventType'', Str (str ''dispute.created'')),
          (str ''created_at'', Num (Finite 1700000021)),
          (str ''object'', Obj [(str ''object'', Str (str ''dispute''))])]"

definition trialing_event :: jsval where
  "trialing_event =
     Obj [(str ''id'', Str (str ''evt_22'')),
          (str ''eventType'', Str (str ''subscription.trialing'')),
          (str ''created_at'', Num (Finite 1700000022)),
          (str ''object'', Obj [(str ''object'', Str (str ''subscription''))])]"

definition paid_event :: jsval where
  "paid_event =
     Obj [(str ''id'', Str (str ''evt_23'')),
          (str ''eventType'', Str (str ''subscription.paid'')),
          (str ''created_at'', Num (Finite 1700000023)),
          (str ''object'', Obj [(str ''object'', Str (str ''subscription''))])]"

definition paused_event :: jsval where
  "paused_event =
     Obj [(str ''id'', Str (str ''evt_24'')),
          (str ''eventType'', Str (str ''subscription.paused'')),
          (str ''created_at'', Num (Finite 1700000024)),
          (str ''object'', Obj [(str ''object'', Str (str ''subscription''))])]"

definition expired_event :: jsval where
  "expired_event =
     Obj [(str ''id'', Str (str ''evt_25'')),
          (str ''eventType'', Str (str ''subscription.expired'')),
          (str ''created_at'', Num (Finite 1700000025)),
          (str ''object'', Obj [(str ''object'', Str (str ''subscription''))])]"

definition canceled_event :: jsval where
  "canceled_event =
     Obj [(str ''id'', Str (str ''evt_26'')),
          (str ''eventType'', Str (str ''subscription.canceled'')),
          (str ''created_at'', Num (Finite 1700000026)),
          (str ''object'', Obj [(str ''object'', Str (str ''subscription''))])]"

definition unpaid_event :: jsval where
  "unpaid_event =
     Obj [(str ''id'', Str (str ''evt_27'')),
          (str ''eventType'', Str (str ''subscription.unpaid'')),
          (str ''created_at'', Num (Finite 1700000027)),
          (str ''object'', Obj [(str ''object'', Str (str ''subscription''))])]"

definition update_event :: jsval where
  "update_event =
     Obj [(str ''id'', Str (str ''evt_28'')),
          (str ''eventType'', Str (str ''subscription.update'')),
          (str ''created_at'', Num (Finite 1700000028)),
          (str ''object'', Obj [(str ''object'', Str (str ''subscription''))])]"

definition past_due_event :: jsval where
  "past_due_event =
     Obj [(str ''id'', Str (str ''evt_29'')),
          (str ''eventType'', Str (str ''subscription.past_due'')),
          (str ''created_at'', Num (Finite 1700000029)),
          (str ''object'', Obj [(str ''object'', Str (str ''subscription''))])]"

definition scheduled_cancel_event :: jsval where
  "scheduled_cancel_event =
     Obj [(str ''id'', Str (str ''evt_30'')),
          (str ''eventType'', Str (str ''subscription.scheduled_cancel'')),
          (str ''created_at'', Num (Finite 1700000030)),
          (str ''object'', Obj [(str ''object'', Str (str ''subscription''))])]"

definition sample_JSON_parse :: "jsstring \<Rightarrow> jsval option" where
  "sample_JSON_parse t =
     (if t = checkout_text then Some checkout_event
      else if t = active_text then Some active_event
      else if t = future_text then Some future_event
      else if t = override_text then Some override_event
      else if t = reason_text then Some reason_event
      else if t = snake_text then Some snake_event
      else if t = camel_text then Some camel_event
      else if t = untyped_text then Some untyped_event
      else if t = stamped_text then Some stamped_event
      else if t = refund_text then Some refund_event
      else if t = dispute_text then Some dispute_event
      else if t = trialing_text then Some trialing_event
      else if t = paid_text then Some paid_event
      else if t = paused_text then Some paused_event
      else if t = expired_text then Some expired_event
      else if t = canceled_text then Some canceled_event
      else if t = unpaid_text then Some unpaid_event
      else if t = update_text then Some update_event
      else if t = past_due_text then Some past_due_event
      else if t = scheduled_cancel_text then Some scheduled_cancel_event
      else None)"

definition sample_hmac_sha256 :: "jsstring \<Rightarrow> jsstring \<Rightarrow> byte list" where
  "sample_hmac_sha256 key message =
     (if key = sample_secret \<and> message = checkout_text then
         [0x0A, 0xC7, 0xD6, 0xEB, 0x34, 0x35, 0x7E, 0xC2, 0xB3, 0x4D, 0x2C, 0x84,
          0x94, 0x22, 0xCD, 0xC5, 0xAA, 0xB4, 0x4E, 0x4A, 0xAE, 0x83, 0xFA, 0xC1,
          0x42, 0x04, 0xD2, 0xF6, 0x88, 0x38, 0x18, 0xFD]
      else if key = sample_secret \<and> message = active_text then
         [0x47, 0xE7, 0x2A, 0x76, 0x17, 0xA8, 0x44, 0xCD, 0xAD, 0x57, 0x2F, 0x4D,
          0xFC, 0x76, 0x15, 0x95, 0xA1, 0xA8, 0x86, 0x4F, 0xA7, 0x30, 0xE5, 0xC7,
          0x6C, 0x86, 0x89, 0xB2, 0x9E, 0x09, 0x02, 0xF0]
      else if key = sample_secret \<and> message = future_text then
         [0x08, 0xD2, 0x58, 0x3B, 0xD0, 0x96, 0x69, 0xFD, 0xD3, 0xF3, 0xFE, 0x95,
          0x5E, 0xB2, 0x82, 0x18, 0x21, 0xAE, 0x08, 0x9F, 0x80, 0x5D, 0x53, 0x13,
          0x37, 0x81, 0x72, 0xC4, 0x82, 0xA6, 0x8B, 0x64]
      else if key = sample_secret \<and> message = override_text then
         [0x4B, 0x37, 0xA9, 0x83, 0x1F, 0x61, 0xBE, 0x7D, 0xEE, 0x67, 0xD6, 0x9A,
          0x7C, 0x6B, 0xD9, 0x4E, 0x21, 0x30, 0xD5, 0x11, 0x1E, 0xB3, 0xF6, 0xD0,
          0x3D, 0x14, 0x09, 0x44, 0x40, 0x73, 0xD0, 0x59]
      else if key = sample_secret \<and> message = reason_text then
         [0x7D, 0xD8, 0xE2, 0x71, 0xCF, 0x3C, 0x8A, 0xC3, 0x96, 0xE5, 0x76, 0x8F,
          0x9E, 0x5A, 0xFF, 0x93, 0xE7, 0x4C, 0x8B, 0x7E, 0x05, 0x28, 0xB1, 0x9C,
          0x02, 0xE9, 0x9B, 0x36, 0x7B, 0xEC, 0xF4, 0x38]
      else if key = sample_secret \<and> message = snake_text then
         [0xDA, 0x73, 0xCE, 0xC7, 0x39, 0x86, 0x73, 0x34, 0x10, 0x0F, 0xAB, 0x34,
          0xCB, 0x4E, 0x15, 0x6F, 0xD1, 0x25, 0x36, 0x5F, 0xE2, 0x28, 0x7B, 0xB4,
          0xB5, 0x1C, 0x35, 0x2B, 0xA0, 0xC7, 0x2D, 0xC6]
      else if key = sample_secret \<and> message = camel_text then
         [0x5D, 0xA3, 0x07, 0x56, 0xA2, 0x3B, 0xD5, 0xC0, 0x10, 0x9B, 0x5F, 0x69,
          0x6E, 0xAF, 0x48, 0x8E, 0x55, 0xD6, 0x1F, 0x2B, 0xEA, 0x2E, 0x62, 0x9C,
          0xB7, 0xDE, 0x14, 0xE3, 0x43, 0x07, 0xF7, 0x9F]
      else if key = sample_secret \<and> message = untyped_text then
         [0xDA, 0xD0, 0xBF, 0x63, 0x0E, 0xB7, 0x51, 0x18, 0xC8, 0x47, 0x38, 0xE1,
          0xAC, 0x38, 0x1D, 0xBF, 0xE7, 0x62, 0xDF, 0x33, 0x6C, 0xA2, 0x31, 0x0D,
          0x03, 0xDF, 0xCA, 0x52, 0x7A, 0x35, 0xCE, 0x14]
      else if key = sample_secret \<and> message = stamped_text then
         [0x2A, 0x5B, 0x15, 0x6A, 0x9B, 0x4D, 0xF5, 0x8C, 0xFC, 0x71, 0x6D, 0x19,
          0xB1, 0x21, 0xF5, 0xA1, 0x20, 0x3F, 0xA8, 0x72, 0x25, 0x9E, 0xED, 0xBB,
          0x30, 0x14, 0xF0, 0x4D, 0x21, 0xCC, 0x9F, 0x51]
      else if key = sample_secret \<and> message = refund_text then
         [0xD2, 0xC0, 0x69, 0x91, 0x88, 0x36, 0xAE, 0x99, 0xAB, 0xBF, 0xAC, 0x83,
          0x58, 0xE6, 0x96, 0x66, 0x11, 0x83, 0xB8, 0x95, 0x1E, 0x8B, 0x12, 0x3C,
          0xFC, 0xE4, 0xBE, 0xB8, 0x1F, 0xC3, 0xAD, 0xCB]
      else if key = sample_secret \<and> message = dispute_text then
         [0x5B, 0x2C, 0x17, 0x79, 0x60, 0x2E, 0x0B, 0x69, 0x21, 0xE3, 0x2C, 0x35,
          0xFD, 0x1C, 0x40, 0x95, 0x0A, 0x68, 0x80, 0xFD, 0x03, 0xA5, 0x17, 0x7B,
          0x6F, 0x1F, 0x6F, 0xFC, 0x6C, 0xA2, 0xB4, 0xED]
      else if key = sample_secret \<and> message = trialing_text then
         [0x7C, 0xFB, 0xAA, 0x7D, 0x6F, 0x02, 0x00, 0x69, 0x70, 0xFD, 0x1D, 0x03,
          0x3B, 0x10, 0x59, 0x18, 0xF6, 0xF8, 0x2A, 0x9D, 0xB1, 0xC6, 0x8D, 0xAD,
          0xC4, 0xE9, 0x1B, 0x75, 0x78, 0xFB, 0x4E, 0x76]
      else if key = sample_secret \<and> message = paid_text then
         [0x6A, 0x1B, 0xFB, 0x68, 0x65, 0xAC, 0x7B, 0xD0, 0xAF, 0xB2, 0xBA, 0x88,
          0x60, 0x94, 0x86, 0x3B, 0x99, 0xAB, 0xF3, 0xC5, 0x2F, 0x21, 0x35, 0x11,
          0x89, 0x76, 0x70, 0x1E, 0xF6, 0x15, 0x78, 0x34]
      else if key = sample_secret \<and> message = paused_text then
         [0x65, 0x18, 0x20, 0x6B, 0xFB, 0xC3, 0xE7, 0xF8, 0xA8, 0xB1, 0x43, 0x97,
          0x4D, 0x79, 0x94, 0x74, 0xFB, 0x84, 0xCC, 0xA8, 0x6D, 0x40, 0xBB, 0x06,
          0xF1, 0x40, 0xC1, 0x20, 0x5C, 0x69, 0x7F, 0xCF]
      else if key = sample_secret \<and> message = expired_text then
         [0x88, 0x5D, 0x96, 0xB4, 0x40, 0x78, 0xAD, 0x39, 0x35, 0x13, 0xE8, 0x62,
          0xCA, 0x3D, 0x51, 0x90, 0x91, 0x96, 0x2F, 0x74, 0x7B, 0xF3, 0xC0, 0x7D,
          0x26, 0xCB, 0x33, 0xE6, 0x6F, 0xED, 0x86, 0x17]
      else if key = sample_secret \<and> message = canceled_text then
         [0x09, 0xF2, 0x0A, 0x4C, 0xBA, 0x96, 0xB5, 0x82, 0xFC, 0xC9, 0xD5, 0xA4,
          0xBF, 0x55, 0xD6, 0x1B, 0x00, 0x9B, 0x17, 0xAB, 0x97, 0x94, 0x20, 0xFF,
          0x34, 0x5A, 0xEF, 0xBB, 0x25, 0x98, 0x79, 0x9F]
      else if key = sample_secret \<and> message = unpaid_text then
         [0x30, 0xA7, 0x21, 0xC7, 0x21, 0xBB, 0x90, 0x63, 0x81, 0x26, 0x22, 0x23,
          0x5A, 0x23, 0xF4, 0x66, 0xBA, 0x64, 0x3C, 0x47, 0x32, 0xA4, 0x92, 0xF9,
          0xAF, 0xC2, 0x23, 0x57, 0x93, 0x4C, 0x65, 0x16]
      else if key = sample_secret \<and> message = update_text then
         [0xE8, 0xDD, 0xE6, 0x72, 0xB5, 0x99, 0x5D, 0x60, 0xDE, 0xD1, 0x20, 0xFA,
          0x3C, 0xE5, 0x7D, 0x5F, 0x05, 0xED, 0x11, 0x0C, 0xC6, 0x6F, 0xA1, 0xD2,
          0x0C, 0xB1, 0x64, 0xFC, 0xA2, 0xC9, 0x13, 0x66]
      else if key = sample_secret \<and> message = past_due_text then
         [0xEB, 0x8E, 0x1C, 0x86, 0x17, 0x15, 0xD5, 0xDD, 0x87, 0x4B, 0xCC, 0x75,
          0x6E, 0x4C, 0xE3, 0x58, 0x44, 0xB7, 0x8E, 0x70, 0x05, 0x88, 0xA7, 0x7F,
          0xFC, 0x87, 0x9B, 0xD7, 0x1C, 0x47, 0x66, 0xB8]
      else if key = sample_secret \<and> message = scheduled_cancel_text then
         [0x6C, 0xC2, 0x77, 0x8C, 0xA6, 0x9E, 0x93, 0x43, 0x70, 0x25, 0x14, 0x4B,
          0xE8, 0x29, 0x72, 0xE6, 0x72, 0x67, 0xD0, 0xE3, 0x39, 0x6B, 0xB8, 0x8A,
          0x3C, 0x38, 0x71, 0x03, 0x61, 0xD6, 0xD3, 0x18]
      else if key = sample_secret \<and> message = garbage_text then
         [0x1E, 0x0A, 0xC5, 0xFC, 0x53, 0x23, 0x73, 0x6E, 0xF1, 0x50, 0x42, 0xF0,
          0xA8, 0x12, 0x47, 0x01, 0x0D, 0x14, 0xB4, 0x66, 0x2D, 0x47, 0xE5, 0xB1,
          0xFB, 0x78, 0xF3, 0xF5, 0x0E, 0xB4, 0x4E, 0xA5]
      else replicate 32 0)"

definition sample_env :: collaborators where
  "sample_env =
     \<lparr>hmac_sha256 = sample_hmac_sha256,
      JSON_parse = sample_JSON_parse,
      toString_utf8 = map ucast,
      toCamelCase = toCamelCase_spec\<rparr>"

text \<open>
  Handler registries: none registered; every callback registered and completing; every
  callback registered and throwing its own name; the same with the two access-control
  callbacks completing; only \<open>onSubscriptionActive\<close> registered; and every callback
  registered with an \<open>onGrantAccess\<close> that throws.
\<close>

definition no_handlers :: "string WebhookOptions" where
  "no_handlers =
     \<lparr>onCheckoutCompleted = None, onRefundCreated = None, onDisputeCreated = None,
      onSubscriptionActive = None, onSubscriptionTrialing = None,
      onSubscriptionCanceled = None, onSubscriptionPaid = None,
      onSubscriptionExpired = None, onSubscriptionUnpaid = None,
      onSubscriptionUpdate = None, onSubscriptionPastDue = None,
      onSubscriptionPaused = None, onSubscriptionScheduledCancel = None,
      onGrantAccess = None, onRevokeAccess = None\<rparr>"

definition completes :: "string callback" where
  "completes arg = None"

definition throws :: "string callback" where
  "throws arg = Some ''boom''"

definition all_handlers :: "string WebhookOptions" where
  "all_handlers =
     \<lparr>onCheckoutCompleted = Some completes, onRefundCreated = Some completes,
      onDisputeCreated = Some completes, onSubscriptionActive = Some completes,
      onSubscriptionTrialing = Some completes, onSubscriptionCanceled = Some completes,
      onSubscriptionPaid = Some completes, onSubscriptionExpired = Some completes,
      onSubscriptionUnpaid = Some completes, onSubscriptionUpdate = Some completes,
      onSubscriptionPastDue = Some completes, onSubscriptionPaused = Some completes,
      onSubscriptionScheduledCancel = Some completes, onGrantAccess = Some completes,
      onRevokeAccess = Some completes\<rparr>"

definition named_handlers :: "string WebhookOptions" where
  "named_handlers =
     \<lparr>onCheckoutCompleted = Some (\<lambda>arg. Some ''onCheckoutCompleted''),
      onRefundCreated = Some (\<lambda>arg. Some ''onRefundCreated''),
      onDisputeCreated = Some (\<lambda>arg. Some ''onDisputeCreated''),
      onSubscriptionActive = Some (\<lambda>arg. Some ''onSubscriptionActive''),
      onSubscriptionTrialing = Some (\<lambda>arg. Some ''onSubscriptionTrialing''),
      onSubscriptionCanceled = Some (\<lambda>arg. Some ''onSubscriptionCanceled''),
      onSubscriptionPaid = Some (\<lambda>arg. Some ''onSubscriptionPaid''),
      onSubscriptionExpired = Some (\<lambda>arg. Some ''onSubscriptionExpired''),
      onSubscriptionUnpaid = Some (\<lambda>arg. Some ''onSubscriptionUnpaid''),
      onSubscriptionUpdate = Some (\<lambda>arg. Some ''onSubscriptionUpdate''),
      onSubscriptionPastDue = Some (\<lambda>arg. Some ''onSubscriptionPastDue''),
      onSubscriptionPaused = Some (\<lambda>arg. Some ''onSubscriptionPaused''),
      onSubscriptionScheduledCancel = Some (\<lambda>arg. Some ''onSubscriptionScheduledCancel''),
      onGrantAccess = Some (\<lambda>arg. Some ''onGrantAccess''),
      onRevokeAccess = Some (\<lambda>arg. Some ''onRevokeAccess'')\<rparr>"

definition named_specific :: "string WebhookOptions" where
  "named_specific =
     named_handlers\<lparr>onGrantAccess := Some completes, onRevokeAccess := Some completes\<rparr>"

definition only_active :: "string WebhookOptions" where
  "only_active = no_handlers\<lparr>onSubscriptionActive := Some completes\<rparr>"

definition failing_grant :: "string WebhookOptions" where
  "failing_grant = all_handlers\<lparr>onGrantAccess := Some throws\<rparr>"

text \<open>The two arguments built for the \<open>subscription.active\<close> delivery.\<close>

definition active_context :: jsval where
  "active_context =
     Obj [(str ''reason'', Str (str ''subscription_active'')),
          (str ''object'', Str (str ''subscription'')),
          (str ''status'', Str (str ''active''))]"

definition active_argument :: jsval where
  "active_argument =
     Obj [(str ''webhookEventType'', Str (str ''subscription.active'')),
          (str ''webhookId'', Str (str ''evt_2'')),
          (str ''webhookCreatedAt'', Num (Finite 1700000001)),
          (str ''object'', Str (str ''subscription'')),
          (str ''status'', Str (str ''active''))]"

text \<open>
  The arguments built for the checkout delivery and for the three deliveries whose entity
  carries a key of the wrapper.
\<close>

definition checkout_argument :: jsval where
  "checkout_argument =
     Obj [(str ''webhookEventType'', Str (str ''checkout.completed'')),
          (str ''webhookId'', Str (str ''evt_1'')),
          (str ''webhookCreatedAt'', Num (Finite 1700000000)),
          (str ''object'', Str (str ''checkout'')),
          (str ''requestId'', Str (str ''req_1''))]"

definition override_argument :: jsval where
  "override_argument =
     Obj [(str ''webhookEventType'', Str (str ''forged'')),
          (str ''webhookId'', Str (str ''evt_4'')),
          (str ''webhookCreatedAt'', Num (Finite 1700000003)),
          (str ''object'', Str (str ''checkout''))]"

definition reason_context :: jsval where
  "reason_context =
     Obj [(str ''reason'', Str (str ''forged'')),
          (str ''object'', Str (str ''subscription''))]"

definition reason_argument :: jsval where
  "reason_argument =
     Obj [(str ''webhookEventType'', Str (str ''subscription.active'')),
          (str ''webhookId'', Str (str ''evt_5'')),
          (str ''webhookCreatedAt'', Num (Finite 1700000004)),
          (str ''object'', Str (str ''subscription'')),
          (str ''reason'', Str (str ''forged''))]"

definition stamped_argument :: jsval where
  "stamped_argument =
     Obj [(str ''webhookEventType'', Str (str ''refund.created'')),
          (str ''webhookId'', Str (str ''evt_9'')),
          (str ''webhookCreatedAt'', Num (Finite 1)),
          (str ''object'', Str (str ''refund''))]"

definition colliding_object :: jsval where
  "colliding_object = Obj [(str ''a_b'', Num (Finite 1)), (str ''aB'', Num (Finite 2))]"

definition nested_object :: jsval where
  "nested_object =
     Obj [(str ''object'', Str (str ''checkout'')),
          (str ''request_id'', Str (str ''req_1'')),
          (str ''line_items'', Arr [Obj [(str ''unit_price'', Num (Finite 5))], Null])]"

section \<open>Facts about strings and buffers\<close>

lemma unat_str_char: "unat (of_nat (of_char c) :: code_unit) = of_char c"
proof -
  have "(of_char c :: nat) < 65536"
    by (rule less_trans [OF nat_of_char_less_256]) simp
  then show ?thesis by (simp add: unat_of_nat)
qed

lemma str_char_inj:
  "(of_nat (of_char c) :: code_unit) = of_nat (of_char d) \<longleftrightarrow> c = d"
proof
  assume "(of_nat (of_char c) :: code_unit) = of_nat (of_char d)"
  then have "unat (of_nat (of_char c) :: code_unit) = unat (of_nat (of_char d) :: code_unit)"
    by simp
  then have "(of_char c :: nat) = of_char d" by (simp only: unat_str_char)
  then show "c = d" by simp
qed simp

lemma str_eq_iff [simp]: "str a = str b \<longleftrightarrow> a = b"
proof -
  have "inj (\<lambda>c. of_nat (of_char c) :: code_unit)"
    by (rule injI) (simp add: str_char_inj)
  then show ?thesis by (simp add: str_def inj_map_eq_map)
qed

lemma str_Nil [simp]: "str [] = []" "str a = [] \<longleftrightarrow> a = []" "[] = str a \<longleftrightarrow> a = []"
  by (auto simp: str_def)

lemma ascii_no_top_bit: "c < 0x80 \<Longrightarrow> \<not> bit (ucast (c :: code_unit) :: byte) 7"
proof -
  assume "c < 0x80"
  then have "unat c < 2 ^ 7" by (simp add: word_less_nat_alt)
  then have "\<not> bit (unat c) 7" by (simp add: bit_iff_odd)
  then show ?thesis by (simp add: bit_ucast_iff bit_unsigned_iff)
qed

lemma ascii_ucast_inj:
  assumes "c < 0x80" and "e < 0x80"
    and "(ucast (c :: code_unit) :: byte) = ucast (e :: code_unit)"
  shows "c = e"
proof -
  have c: "unat c < 256" and e: "unat e < 256"
    using assms(1,2) by (simp_all add: word_less_nat_alt)
  have "unat (ucast c :: byte) = unat (ucast e :: byte)" using assms(3) by simp
  then have "take_bit 8 (unat c) = take_bit 8 (unat e)"
    by (simp add: unsigned_ucast_eq)
  then have "unat c = unat e" using c e by (simp add: take_bit_eq_mod)
  then show ?thesis by (simp add: word_unat_eq_iff)
qed

lemma Buffer_from_head:
  "\<not> c < 0x80 \<Longrightarrow> \<exists>b bs. Buffer_from (c # cs) = b # bs \<and> bit b 7"
  by (auto simp: replacement_def Let_def bit_or_iff split: list.splits)

lemma Buffer_from_ascii: "is_ascii e \<Longrightarrow> Buffer_from e = map ucast e"
  by (induction e) (simp_all add: is_ascii_def)

lemma Buffer_from_ascii_inj:
  "Buffer_from s = map ucast e \<Longrightarrow> is_ascii e \<Longrightarrow> s = e"
proof (induction s arbitrary: e)
  case Nil
  then show ?case by simp
next
  case (Cons c cs)
  show ?case
  proof (cases "c < 0x80")
    case True
    with Cons.prems obtain e0 es where e: "e = e0 # es" "ucast c = (ucast e0 :: byte)"
      "Buffer_from cs = map ucast es" by (cases e) auto
    from Cons.prems(2) e(1) have a: "e0 < 0x80" "is_ascii es" by (simp_all add: is_ascii_def)
    from True a(1) e(2) have "c = e0" by (rule ascii_ucast_inj)
    moreover from Cons.IH [OF e(3) a(2)] have "cs = es" .
    ultimately show ?thesis using e(1) by simp
  next
    case False
    then obtain b bs where b: "Buffer_from (c # cs) = b # bs" "bit b 7"
      using Buffer_from_head by blast
    with Cons.prems(1) obtain e0 es where e: "e = e0 # es" "b = ucast e0" by (cases e) auto
    from Cons.prems(2) e(1) have "e0 < 0x80" by (simp add: is_ascii_def)
    then have "\<not> bit b 7" using e(2) ascii_no_top_bit by simp
    with b(2) show ?thesis by simp
  qed
qed

lemma hex_digits_ascii: "n < 16 \<Longrightarrow> hex_digits ! n < 0x80"
proof -
  assume n: "n < 16"
  have "list_all (\<lambda>c. c < 0x80) hex_digits"
    by (simp add: hex_digits_def str_def)
  moreover have "length hex_digits = 16" by (simp add: hex_digits_def str_def)
  ultimately show ?thesis using n by (simp add: list_all_length)
qed

lemma high_nibble: "unat (drop_bit 4 (b :: byte)) < 16"
proof -
  have "unat (drop_bit 4 b) = unat b div 2 ^ 4"
    by (simp add: drop_bit_eq_div unat_div)
  moreover have "unat b < 256" using unsigned_less [of b] by simp
  ultimately show ?thesis by simp
qed

lemma low_nibble: "unat ((b :: byte) AND 0xF) < 16"
proof -
  have "b AND 0xF \<le> 0xF" by (rule word_and_le1)
  then have "unat (b AND 0xF) \<le> 15" by (simp add: word_le_nat_alt)
  then show ?thesis by simp
qed

lemma hex_ascii: "is_ascii (hex bs)"
  by (induction bs) (simp_all add: hex_def is_ascii_def hex_digits_ascii high_nibble low_nibble)

lemma length_hex: "length (hex bs) = 2 * length bs"
  by (induction bs) (simp_all add: hex_def)

lemma verifySignature_eq:
  "verifySignature env payload signature secret =
     Inr (signature = generateSignature env payload secret)"
proof -
  let ?e = "generateSignature env payload secret"
  have a: "is_ascii ?e" by (simp add: generateSignature_def hex_ascii)
  have "Buffer_from signature = Buffer_from ?e \<longleftrightarrow> signature = ?e"
    using Buffer_from_ascii [OF a] Buffer_from_ascii_inj [OF _ a] by auto
  then show ?thesis
    by (auto simp: verifySignature_def timingSafeEqual_def Let_def)
qed

lemma flip_bit_differs: "j < 16 \<Longrightarrow> c XOR push_bit j 1 \<noteq> (c :: code_unit)"
proof
  assume j: "j < 16" and "c XOR push_bit j 1 = c"
  then have "bit (c XOR push_bit j 1) j = bit c j" by simp
  then show False using j by (simp add: bit_xor_iff bit_push_bit_iff bit_exp_iff)
qed

section \<open>Signature verifier: the claim\<close>

text \<open>
  Claim C1. For every payload and secret, \<open>verifySignature\<close> returns true on the lowercase
  hexadecimal encoding of the HMAC-SHA256 digest of the payload under the secret; it returns
  false on every other signature string, in particular on that encoding with any one bit of
  any one code unit flipped; when the two buffers differ in length it returns false without
  calling the byte-wise comparison (which would have thrown on buffers of different
  lengths); and it never throws.
\<close>

theorem verifySignature_sound_and_complete:
  "verifySignature env payload (hex (hmac_sha256 env secret payload)) secret
     = (Inr True :: 'x exn + bool)
   \<and> (signature \<noteq> hex (hmac_sha256 env secret payload) \<longrightarrow>
        verifySignature env payload signature secret = (Inr False :: 'x exn + bool))
   \<and> (i < length (hex (hmac_sha256 env secret payload)) \<and> j < 16 \<longrightarrow>
        verifySignature env payload
          ((hex (hmac_sha256 env secret payload))
             [i := hex (hmac_sha256 env secret payload) ! i XOR push_bit j 1]) secret
        = (Inr False :: 'x exn + bool))
   \<and> (length (Buffer_from signature)
          \<noteq> length (Buffer_from (hex (hmac_sha256 env secret payload))) \<longrightarrow>
        verifySignature env payload signature secret = (Inr False :: 'x exn + bool) \<and>
        timingSafeEqual (Buffer_from signature)
          (Buffer_from (hex (hmac_sha256 env secret payload)))
        = (Inl RangeError :: 'x exn + bool))
   \<and> (\<exists>b. verifySignature env payload signature secret = (Inr b :: 'x exn + bool))"
proof -
  let ?e = "hex (hmac_sha256 env secret payload)"
  have verify: "verifySignature env payload s secret = (Inr (s = ?e) :: 'x exn + bool)" for s
    by (simp add: verifySignature_eq generateSignature_def)
  have flip: "?e[i := ?e ! i XOR push_bit j 1] \<noteq> ?e" if "i < length ?e" "j < 16"
  proof
    assume "?e[i := ?e ! i XOR push_bit j 1] = ?e"
    then have "(?e[i := ?e ! i XOR push_bit j 1]) ! i = ?e ! i" by simp
    with that(1) have "?e ! i XOR push_bit j 1 = ?e ! i" by simp
    with flip_bit_differs [OF that(2)] show False by blast
  qed
  have len: "signature \<noteq> ?e"
    if "length (Buffer_from signature) \<noteq> length (Buffer_from ?e)"
    using that by auto
  show ?thesis
    using flip len by (auto simp: verify timingSafeEqual_def)
qed

theorem verifySignature_sound_and_complete_witness:
  "hex (hmac_sha256 sample_env sample_secret checkout_text) =
     str ''0ac7d6eb34357ec2b34d2c849422cdc5aab44e4aae83fac14204d2f6883818fd''
   \<and> verifySignature sample_env checkout_text
       (str ''0ac7d6eb34357ec2b34d2c849422cdc5aab44e4aae83fac14204d2f6883818fd'') sample_secret
       = (Inr True :: unit exn + bool)
   \<and> verifySignature sample_env checkout_text
       (str ''1ac7d6eb34357ec2b34d2c849422cdc5aab44e4aae83fac14204d2f6883818fd'') sample_secret
       = (Inr False :: unit exn + bool)
   \<and> verifySignature sample_env checkout_text
       (str ''0AC7D6EB34357EC2B34D2C849422CDC5AAB44E4AAE83FAC14204D2F6883818FD'') sample_secret
       = (Inr False :: unit exn + bool)
   \<and> length (Buffer_from (str ''deadbeef''))
        \<noteq> length (Buffer_from (hex (hmac_sha256 sample_env sample_secret checkout_text)))
   \<and> verifySignature sample_env checkout_text (str ''deadbeef'') sample_secret
        = (Inr False :: unit exn + bool)
   \<and> timingSafeEqual (Buffer_from (str ''deadbeef''))
        (Buffer_from (hex (hmac_sha256 sample_env sample_secret checkout_text)))
        = (Inl RangeError :: unit exn + bool)"
proof -
  let ?e = "hex (hmac_sha256 sample_env sample_secret checkout_text)"
  let ?good = "str ''0ac7d6eb34357ec2b34d2c849422cdc5aab44e4aae83fac14204d2f6883818fd''"
  let ?flipped = "str ''1ac7d6eb34357ec2b34d2c849422cdc5aab44e4aae83fac14204d2f6883818fd''"
  let ?upper = "str ''0AC7D6EB34357EC2B34D2C849422CDC5AAB44E4AAE83FAC14204D2F6883818FD''"
  note c1 = verifySignature_sound_and_complete
    [where env = sample_env and payload = checkout_text and secret = sample_secret
       and ?'x = unit]
  have digest: "?e = ?good"
    by (simp add: sample_env_def sample_hmac_sha256_def hex_def hex_digits_def str_def
        drop_bit_eq_div)
  from c1 [THEN conjunct1] digest
  have 1: "verifySignature sample_env checkout_text ?good sample_secret
      = (Inr True :: unit exn + bool)"
    by simp
  have "?flipped = ?e[0 := ?e ! 0 XOR push_bit 0 1]"
    unfolding digest by (simp add: str_def)
  moreover have "0 < length ?e \<and> (0 :: nat) < 16"
    unfolding digest by (simp add: str_def)
  ultimately have 2: "verifySignature sample_env checkout_text ?flipped sample_secret
      = (Inr False :: unit exn + bool)"
    using c1 [THEN conjunct2, THEN conjunct2, THEN conjunct1, of 0 0] by simp
  have "?upper \<noteq> ?e" unfolding digest by simp
  with c1 [THEN conjunct2, THEN conjunct1, of ?upper]
  have 3: "verifySignature sample_env checkout_text ?upper sample_secret
      = (Inr False :: unit exn + bool)"
    by simp
  have ascii: "is_ascii ?e" by (rule hex_ascii)
  have "length ?e = 64" unfolding digest by (simp add: str_def)
  then have "length (Buffer_from ?e) = 64" using ascii by (simp add: Buffer_from_ascii)
  moreover have "length (Buffer_from (str ''deadbeef'')) = 8" by (simp add: str_def)
  ultimately have 4: "length (Buffer_from (str ''deadbeef'')) \<noteq> length (Buffer_from ?e)"
    by simp
  from c1 [THEN conjunct2, THEN conjunct2, THEN conjunct2, THEN conjunct1,
      of "str ''deadbeef''"] 4
  have 5: "verifySignature sample_env checkout_text (str ''deadbeef'') sample_secret
        = (Inr False :: unit exn + bool)"
    and 6: "timingSafeEqual (Buffer_from (str ''deadbeef'')) (Buffer_from ?e)
        = (Inl RangeError :: unit exn + bool)"
    by simp_all
  from digest 1 2 3 4 5 6 show ?thesis by simp
qed

section \<open>Facts about the normalizer\<close>

lemma split_words_no_underscore: "0x5F \<notin> set k \<Longrightarrow> split_words k = [k]"
  by (induction k) auto

lemma lower_not_underscore: "is_lower c \<Longrightarrow> c \<noteq> 0x5F"
  by (auto simp: is_lower_def)

lemma upper_not_underscore: "is_lower c \<Longrightarrow> c - 0x20 \<noteq> 0x5F"
proof
  assume l: "is_lower c" and "c - 0x20 = 0x5F"
  then have "c = 0x5F + 0x20" by (simp add: algebra_simps)
  then show False using l by (simp add: is_lower_def)
qed

lemma capitalize_no_underscore:
  "list_all is_lower w \<Longrightarrow> 0x5F \<notin> set (capitalize w)"
  by (cases w) (auto simp: list_all_iff upper_not_underscore dest: lower_not_underscore)

lemma join_camel_no_underscore:
  "list_all (\<lambda>w. w \<noteq> [] \<and> list_all is_lower w) ws \<Longrightarrow> 0x5F \<notin> set (join_camel ws)"
proof (cases ws)
  case Nil
  then show ?thesis by simp
next
  case (Cons w rest)
  assume a: "list_all (\<lambda>w. w \<noteq> [] \<and> list_all is_lower w) ws"
  then have "0x5F \<notin> set w" using Cons by (auto simp: list_all_iff dest: lower_not_underscore)
  moreover have "0x5F \<notin> set (capitalize v)" if "v \<in> set rest" for v
  proof -
    from a Cons that have "list_all is_lower v" by (simp add: list_all_iff)
    then show ?thesis by (rule capitalize_no_underscore)
  qed
  ultimately show ?thesis using Cons by auto
qed

lemma rename_key_fixed: "0x5F \<notin> set k \<Longrightarrow> rename_key k = k"
  by (simp add: rename_key_def split_words_no_underscore)

lemma rename_key_no_underscore: "is_wire_key k \<Longrightarrow> 0x5F \<notin> set (rename_key k)"
  by (simp add: rename_key_def is_wire_key_def join_camel_no_underscore)

lemma rename_key_idem: "rename_key (rename_key k) = rename_key k"
proof (cases "is_wire_key k")
  case True
  then show ?thesis by (intro rename_key_fixed rename_key_no_underscore)
next
  case False
  then show ?thesis by (simp add: rename_key_def)
qed

lemma obj_set_fresh: "k \<notin> fst ` set acc \<Longrightarrow> obj_set k v acc = acc @ [(k, v)]"
  by (induction acc) auto

lemma fold_obj_set_distinct:
  "distinct (map fst (acc @ es)) \<Longrightarrow> fold (\<lambda>(k, v) a. obj_set k v a) es acc = acc @ es"
proof (induction es arbitrary: acc)
  case Nil
  then show ?case by simp
next
  case (Cons e es)
  obtain k v where e: "e = (k, v)" by (cases e)
  from Cons.prems e have "k \<notin> fst ` set acc" by auto
  then have s: "obj_set k v acc = acc @ [(k, v)]" by (rule obj_set_fresh)
  from Cons.prems e have "distinct (map fst ((acc @ [(k, v)]) @ es))" by simp
  from Cons.IH [OF this] show ?case using e s by simp
qed

lemma from_entries_distinct: "distinct (map fst es) \<Longrightarrow> from_entries es = es"
  using fold_obj_set_distinct [of "[]" es] by (simp add: from_entries_def)

lemma obj_set_keys: "fst ` set (obj_set k v acc) = insert k (fst ` set acc)"
proof (induction acc)
  case Nil
  show ?case by simp
next
  case (Cons e acc)
  obtain k' v' where e: "e = (k', v')" by (cases e)
  show ?case
  proof (cases "k = k'")
    case True
    then show ?thesis using e by simp
  next
    case False
    then show ?thesis using e Cons.IH by (simp add: insert_commute)
  qed
qed

lemma obj_set_entries: "set (obj_set k v acc) \<subseteq> insert (k, v) (set acc)"
  by (induction acc) (auto split: if_splits)

lemma obj_set_keeps_distinct:
  "distinct (map fst acc) \<Longrightarrow> distinct (map fst (obj_set k v acc))"
proof (induction acc)
  case Nil
  show ?case by simp
next
  case (Cons e acc)
  obtain k' v' where e: "e = (k', v')" by (cases e)
  from Cons.prems e have d: "k' \<notin> fst ` set acc" "distinct (map fst acc)" by auto
  show ?case
  proof (cases "k = k'")
    case True
    then show ?thesis using e d by simp
  next
    case False
    then show ?thesis using e d Cons.IH by (simp add: obj_set_keys)
  qed
qed

lemma fold_obj_set_keeps_distinct:
  "distinct (map fst acc) \<Longrightarrow> distinct (map fst (fold (\<lambda>(k, v) a. obj_set k v a) es acc))"
  by (induction es arbitrary: acc) (auto simp: obj_set_keeps_distinct)

lemma fold_obj_set_entries:
  "set (fold (\<lambda>(k, v) a. obj_set k v a) es acc) \<subseteq> set es \<union> set acc"
proof (induction es arbitrary: acc)
  case Nil
  then show ?case by simp
next
  case (Cons e es)
  obtain k v where e: "e = (k, v)" by (cases e)
  have "set (fold (\<lambda>(k, v) a. obj_set k v a) es (obj_set k v acc)) \<subseteq> set es \<union> set (obj_set k v acc)"
    by (rule Cons.IH)
  with obj_set_entries [of k v acc] show ?case using e by auto
qed

lemma from_entries_distinct_keys: "distinct (map fst (from_entries es))"
  by (simp add: from_entries_def fold_obj_set_keeps_distinct)

lemma from_entries_subset: "set (from_entries es) \<subseteq> set es"
  using fold_obj_set_entries [of es "[]"] by (simp add: from_entries_def)

lemma collision_free_valid: "collision_free x \<Longrightarrow> valid x"
proof (induction x)
  case (Obj kvs)
  from Obj.prems have "distinct (map (\<lambda>e. rename_key (fst e)) kvs)" by simp
  then have "distinct (map rename_key (map fst kvs))" by (simp add: comp_def)
  then have "distinct (map fst kvs)" using distinct_map [of rename_key "map fst kvs"] by blast
  moreover have "valid v" if "(k, v) \<in> set kvs" for k v
  proof -
    from Obj.prems that have "collision_free v" by (auto simp: list_all_iff)
    with that show ?thesis by (intro Obj.IH) auto
  qed
  ultimately show ?case by (auto simp: list_all_iff)
qed (auto simp: list_all_iff)

lemmas normalizer_eval =
  from_entries_def rename_key_def is_wire_key_def is_lower_def str_def

section \<open>Field normalizer: the claims\<close>

text \<open>
  Claim C7. The normalizer is idempotent: normalizing a normalized value gives the same
  value again. It holds for every value, structurally valid or not.
\<close>

theorem normalize_idempotent:
  "toCamelCase env = toCamelCase_spec \<Longrightarrow>
   normalizeWebhookData env (normalizeWebhookData env x) = normalizeWebhookData env x"
proof -
  assume spec: "toCamelCase env = toCamelCase_spec"
  have "toCamelCase_spec (toCamelCase_spec x) = toCamelCase_spec x"
  proof (induction x)
    case (Arr xs)
    then show ?case by simp
  next
    case (Obj kvs)
    let ?es = "map (map_prod rename_key toCamelCase_spec) kvs"
    let ?r = "from_entries ?es"
    have fixed: "map_prod rename_key toCamelCase_spec e = e" if "e \<in> set ?r" for e
    proof -
      from that from_entries_subset have "e \<in> set ?es" by blast
      then obtain k v where kv: "(k, v) \<in> set kvs" "e = (rename_key k, toCamelCase_spec v)"
        by auto
      from kv(1) have "toCamelCase_spec (toCamelCase_spec v) = toCamelCase_spec v"
        by (rule Obj.IH) simp
      with kv(2) show ?thesis by (simp add: rename_key_idem)
    qed
    then have "map (map_prod rename_key toCamelCase_spec) ?r = ?r"
      by (simp add: map_idI)
    moreover have "from_entries ?r = ?r"
      by (rule from_entries_distinct) (rule from_entries_distinct_keys)
    ultimately show ?case by simp
  qed simp_all
  with spec show ?thesis by (simp add: normalizeWebhookData_def)
qed

theorem normalize_idempotent_witness:
  "toCamelCase sample_env = toCamelCase_spec
   \<and> normalizeWebhookData sample_env nested_object =
       Obj [(str ''object'', Str (str ''checkout'')),
            (str ''requestId'', Str (str ''req_1'')),
            (str ''lineItems'', Arr [Obj [(str ''unitPrice'', Num (Finite 5))], Null])]
   \<and> normalizeWebhookData sample_env (normalizeWebhookData sample_env nested_object) =
       normalizeWebhookData sample_env nested_object"
proof -
  have e: "toCamelCase sample_env = toCamelCase_spec" by (simp add: sample_env_def)
  have "toCamelCase_spec nested_object =
       Obj [(str ''object'', Str (str ''checkout'')),
            (str ''requestId'', Str (str ''req_1'')),
            (str ''lineItems'', Arr [Obj [(str ''unitPrice'', Num (Finite 5))], Null])]"
    by (simp add: nested_object_def normalizer_eval)
  then show ?thesis
    using e normalize_idempotent [OF e, of nested_object]
    by (simp add: normalizeWebhookData_def)
qed

text \<open>
  Claim C8, as stated: for every structurally valid value, the normalized value has the
  same shape. It fails where two keys of one mapping are renamed to the same key: the
  mapping \<open>{a_b: 1, aB: 2}\<close> has two keys and its normalized value has one.
\<close>

theorem normalize_merges_colliding_keys:
  "valid colliding_object
   \<and> toCamelCase sample_env = toCamelCase_spec
   \<and> normalizeWebhookData sample_env colliding_object = Obj [(str ''aB'', Num (Finite 2))]
   \<and> shape (normalizeWebhookData sample_env colliding_object) \<noteq> shape colliding_object"
proof -
  have "toCamelCase_spec colliding_object = Obj [(str ''aB'', Num (Finite 2))]"
    by (simp add: colliding_object_def normalizer_eval)
  then show ?thesis
    by (simp add: normalizeWebhookData_def sample_env_def) (simp add: colliding_object_def)
qed

text \<open>
  Claim C8, amended: for every value in which no mapping has two keys with the same renamed
  key (such a value is structurally valid), the normalized value has the same shape: every
  mapping keeps its number of entries, every sequence its length, the corresponding
  elements have the same shape, and every scalar is unchanged.
\<close>

theorem normalize_keeps_shape:
  "toCamelCase env = toCamelCase_spec \<Longrightarrow> collision_free x \<Longrightarrow>
   valid x \<and> shape (normalizeWebhookData env x) = shape x"
proof -
  assume spec: "toCamelCase env = toCamelCase_spec" and free: "collision_free x"
  from free have "shape (toCamelCase_spec x) = shape x"
  proof (induction x)
    case (Arr xs)
    then show ?case by (auto simp: list_all_iff)
  next
    case (Obj kvs)
    let ?es = "map (map_prod rename_key toCamelCase_spec) kvs"
    from Obj.prems have "distinct (map (\<lambda>e. rename_key (fst e)) kvs)" by simp
    then have "distinct (map fst ?es)" by (simp add: comp_def)
    then have "from_entries ?es = ?es" by (rule from_entries_distinct)
    moreover have "shape (toCamelCase_spec v) = shape v" if "(k, v) \<in> set kvs" for k v
    proof -
      from Obj.prems that have "collision_free v" by (auto simp: list_all_iff)
      with that show ?thesis by (intro Obj.IH) auto
    qed
    ultimately show ?case by auto
  qed simp_all
  with spec free show ?thesis by (simp add: normalizeWebhookData_def collision_free_valid)
qed

theorem normalize_keeps_shape_witness:
  "toCamelCase sample_env = toCamelCase_spec \<and> collision_free nested_object
   \<and> valid nested_object
   \<and> shape (normalizeWebhookData sample_env nested_object) = shape nested_object"
proof -
  have e: "toCamelCase sample_env = toCamelCase_spec" by (simp add: sample_env_def)
  have c: "collision_free nested_object"
    by (simp add: nested_object_def normalizer_eval)
  show ?thesis using e c normalize_keeps_shape [OF e c] by simp
qed

section \<open>Facts about the entry point and the router\<close>

lemma handleEvents_no_secret:
  "secret = None \<or> secret = Some [] \<Longrightarrow>
   handleEvents env secret payload signature handlers = ([], Inl (Error secret_missing_message))"
  by (auto simp: handleEvents_def)

lemma handleEvents_with_secret:
  "s \<noteq> [] \<Longrightarrow>
   handleEvents env (Some s) payload signature handlers =
     (if signature \<noteq> generateSignature env (payloadString env payload) s
      then ([], Inl (Error ''Invalid webhook signature''))
      else (case parseWebhookEvent env (payloadString env payload) of
              Inl e \<Rightarrow> ([], Inl e)
            | Inr event \<Rightarrow>
                route handlers event
                  (normalizeWebhookData env (get_prop event (str ''object'')))))"
  by (simp add: handleEvents_def verifySignature_eq)

lemma and_then_return: "and_then x (\<lambda>d. (d, Inr ())) = x"
  by (auto simp: and_then_def split: prod.splits sum.splits)

lemma run_steps_one:
  "run_steps handlers event n [(h, r)] = invoke h (handler_of handlers h) (step_argument event n r)"
proof
  fix d
  have "run_steps handlers event n [] = (\<lambda>d. (d, Inr ()))" by (rule ext) simp
  then show "run_steps handlers event n [(h, r)] d = invoke h (handler_of handlers h) (step_argument event n r) d"
    by (simp add: and_then_return)
qed

lemma run_steps_two:
  "run_steps handlers event n [(g, r), (h, r')] d =
     and_then (invoke g (handler_of handlers g) (step_argument event n r) d)
              (invoke h (handler_of handlers h) (step_argument event n r'))"
  by (simp add: run_steps_one)

lemma route_known:
  "t \<in> set event_types \<Longrightarrow> get_prop event (str ''eventType'') = Str t \<Longrightarrow>
   route handlers event n = run_steps handlers event n (dispatch_table t) []"
  unfolding event_types_def set_simps insert_iff empty_iff
  by (elim disjE FalseE; simp add: route_def dispatch_table_def run_steps_one run_steps_two
        event_fields_def reason_field_def del: run_steps.simps)

lemma route_unknown:
  "t \<notin> set event_types \<Longrightarrow> get_prop event (str ''eventType'') = Str t \<Longrightarrow>
   route handlers event n = ([ConsoleWarn (Str t)], Inr ()) \<and> dispatch_table t = []"
  by (simp add: event_types_def route_def dispatch_table_def)

lemma dispatch_table_known: "t \<in> set event_types \<Longrightarrow> dispatch_table t \<noteq> []"
  unfolding event_types_def set_simps insert_iff empty_iff
  by (elim disjE FalseE; simp add: dispatch_table_def)

lemma route_table:
  "get_prop event (str ''eventType'') = Str t \<Longrightarrow>
   route handlers event n = dispatch_spec handlers event n t"
  by (cases "t \<in> set event_types")
     (simp_all add: dispatch_spec_def route_known route_unknown dispatch_table_known)

lemma run_steps_complete:
  "(\<forall>h f a. handler_of handlers h = Some f \<longrightarrow> f a = None) \<Longrightarrow>
   run_steps handlers event n steps d =
     (d @ map (\<lambda>(h, r). Call h (step_argument event n r))
            (filter (\<lambda>(h, r). handler_of handlers h \<noteq> None) steps), Inr ())"
proof (induction steps arbitrary: d)
  case Nil
  then show ?case by simp
next
  case (Cons step steps)
  obtain h r where step: "step = (h, r)" by (cases step)
  show ?case
  proof (cases "handler_of handlers h")
    case None
    then show ?thesis using step Cons.IH [OF Cons.prems] by (simp add: invoke_def and_then_def)
  next
    case (Some f)
    with Cons.prems have "f (step_argument event n r) = None" by blast
    then show ?thesis using step Some Cons.IH [OF Cons.prems]
      by (simp add: invoke_def and_then_def)
  qed
qed

lemma last_effect:
  assumes "d @ [c] = pre @ x # post" and "x \<notin> set d"
  shows "pre = d \<and> x = c \<and> post = []"
proof (cases post rule: rev_cases)
  case Nil
  with assms(1) show ?thesis by simp
next
  case (snoc ys y)
  with assms(1) have "d = pre @ x # ys" by simp
  with assms(2) show ?thesis by simp
qed

lemma run_steps_stops:
  assumes "\<forall>h a e. Call h a \<in> set d \<longrightarrow> \<not> raises handlers h a e"
    and "run_steps handlers event n steps d = (pre @ Call h a # post, res)"
    and "raises handlers h a e"
  shows "post = [] \<and> res = Inl (HandlerError e)"
  using assms
proof (induction steps arbitrary: d)
  case Nil
  then show ?case by auto
next
  case (Cons step steps)
  obtain h0 r0 where step: "step = (h0, r0)" by (cases step)
  let ?a0 = "step_argument event n r0"
  show ?case
  proof (cases "handler_of handlers h0")
    case None
    with Cons.prems(2) step have "run_steps handlers event n steps d = (pre @ Call h a # post, res)"
      by (simp add: invoke_def and_then_def)
    from Cons.IH [OF Cons.prems(1) this Cons.prems(3)] show ?thesis .
  next
    case (Some f)
    show ?thesis
    proof (cases "f ?a0")
      case None
      with Some have quiet: "\<not> raises handlers h0 ?a0 e'" for e'
        by (simp add: raises_def)
      from None Some Cons.prems(2) step
      have run: "run_steps handlers event n steps (d @ [Call h0 ?a0]) = (pre @ Call h a # post, res)"
        by (simp add: invoke_def and_then_def)
      have "\<forall>h a e. Call h a \<in> set (d @ [Call h0 ?a0]) \<longrightarrow> \<not> raises handlers h a e"
        using Cons.prems(1) quiet by auto
      from Cons.IH [OF this run Cons.prems(3)] show ?thesis .
    next
      case (Some e0)
      with \<open>handler_of handlers h0 = Some f\<close> Cons.prems(2) step
      have out: "d @ [Call h0 ?a0] = pre @ Call h a # post" "res = Inl (HandlerError e0)"
        by (simp_all add: invoke_def and_then_def)
      from Cons.prems(1,3) have "Call h a \<notin> set d" by blast
      with out(1) have l: "pre = d \<and> Call h a = Call h0 ?a0 \<and> post = []" by (rule last_effect)
      with Cons.prems(3) Some \<open>handler_of handlers h0 = Some f\<close> have "e = e0"
        by (simp add: raises_def)
      with l out(2) show ?thesis by simp
    qed
  qed
qed

lemma invoke_cases:
  obtains (skip) "invoke h (handler_of handlers h) a d = (d, Inr ())"
    | (ok) "invoke h (handler_of handlers h) a d = (d @ [Call h a], Inr ())"
    | (throw) e where "invoke h (handler_of handlers h) a d = (d @ [Call h a], Inl (HandlerError e))"
proof (cases "handler_of handlers h")
  case None
  then have "invoke h (handler_of handlers h) a d = (d, Inr ())" by (simp add: invoke_def)
  then show ?thesis by (rule skip)
next
  case (Some f)
  show ?thesis
  proof (cases "f a")
    case None
    with Some have "invoke h (handler_of handlers h) a d = (d @ [Call h a], Inr ())" by (simp add: invoke_def)
    then show ?thesis by (rule ok)
  next
    case (Some e)
    with \<open>handler_of handlers h = Some f\<close>
    have "invoke h (handler_of handlers h) a d = (d @ [Call h a], Inl (HandlerError e))"
      by (simp add: invoke_def)
    then show ?thesis by (rule throw)
  qed
qed

lemma run_steps_calls:
  "Call h a \<in> set (fst (run_steps handlers event n steps d)) \<Longrightarrow>
   Call h a \<in> set d \<or> (\<exists>r. (h, r) \<in> set steps \<and> a = step_argument event n r)"
proof (induction steps arbitrary: d)
  case Nil
  then show ?case by simp
next
  case (Cons step steps)
  obtain h0 r0 where step: "step = (h0, r0)" by (cases step)
  let ?a0 = "step_argument event n r0"
  show ?case
  proof (cases handlers h0 ?a0 d rule: invoke_cases)
    case skip
    with Cons.prems step have "Call h a \<in> set (fst (run_steps handlers event n steps d))"
      by (simp add: and_then_def)
    from Cons.IH [OF this] show ?thesis by auto
  next
    case ok
    with Cons.prems step
    have "Call h a \<in> set (fst (run_steps handlers event n steps (d @ [Call h0 ?a0])))"
      by (simp add: and_then_def)
    from Cons.IH [OF this] show ?thesis using step by auto
  next
    case throw
    with Cons.prems step show ?thesis by (auto simp: and_then_def)
  qed
qed

lemma dispatch_table_reasons:
  "(h, r) \<in> set (dispatch_table t) \<Longrightarrow>
   (h \<in> {OnGrantAccess, OnRevokeAccess} \<longleftrightarrow> r \<noteq> None)"
  by (auto simp: dispatch_table_def split: if_splits)

lemma map_of_obj_set: "map_of (obj_set k v acc) = (map_of acc)(k \<mapsto> v)"
  by (induction acc) (auto simp: fun_eq_iff)

lemma map_of_fold_obj_set:
  "distinct (map fst es) \<Longrightarrow>
   map_of (fold (\<lambda>(k, v) a. obj_set k v a) es acc) k =
     (case map_of es k of Some v \<Rightarrow> Some v | None \<Rightarrow> map_of acc k)"
proof (induction es arbitrary: acc)
  case Nil
  then show ?case by simp
next
  case (Cons e es)
  obtain k0 v0 where e: "e = (k0, v0)" by (cases e)
  from Cons.prems e have d: "distinct (map fst es)" and fresh: "map_of es k0 = None"
    by (auto simp: map_of_eq_None_iff)
  from Cons.IH [OF d, of "obj_set k0 v0 acc"] e fresh show ?case
    by (simp add: map_of_obj_set split: option.splits)
qed

lemma get_prop_object_literal:
  assumes "distinct (map fst kvs)"
  shows "get_prop (object_literal base (Obj kvs)) k =
     (if has_prop (Obj kvs) k then get_prop (Obj kvs) k
      else get_prop (Obj (from_entries base)) k)"
proof (cases "map_of kvs k")
  case None
  then show ?thesis
    using map_of_fold_obj_set [OF assms, of "from_entries base" k]
    by (simp add: object_literal_def from_entries_def)
next
  case (Some v)
  then show ?thesis
    using map_of_fold_obj_set [OF assms, of "from_entries base" k]
    by (simp add: object_literal_def from_entries_def)
qed

lemma isWebhookEvent_fields:
  "isWebhookEvent v \<Longrightarrow>
   (\<exists>kvs. v = Obj kvs) \<and> (\<exists>t. get_prop v (str ''eventType'') = Str t) \<and>
   (\<exists>i. get_prop v (str ''id'') = Str i) \<and>
   (\<exists>n. get_prop v (str ''created_at'') = Num n) \<and>
   (\<exists>entity d. get_prop v (str ''object'') = Obj entity \<and>
      get_prop (Obj entity) (str ''object'') = Str d \<and> d \<in> set entity_types)"
proof -
  have typeof_string: "js_typeof x = ''string'' \<Longrightarrow> \<exists>s. x = Str s" for x
    by (cases x) simp_all
  have typeof_number: "js_typeof x = ''number'' \<Longrightarrow> \<exists>n. x = Num n" for x
    by (cases x) simp_all
  have entity: "isWebhookEntity x \<Longrightarrow>
      \<exists>entity d. x = Obj entity \<and> get_prop (Obj entity) (str ''object'') = Str d \<and> d \<in> set entity_types" for x
    by (cases x) (auto simp: isWebhookEntity_def split: jsval.splits option.splits if_splits)
  assume a: "isWebhookEvent v"
  then have "\<exists>kvs. v = Obj kvs"
    by (cases v) (simp_all add: isWebhookEvent_def)
  with a typeof_string typeof_number entity show ?thesis
    by (auto simp: isWebhookEvent_def split: if_splits)
qed

lemma parseWebhookEvent_Inr:
  "parseWebhookEvent env text = (Inr event :: 'x exn + jsval) \<longleftrightarrow>
   JSON_parse env text = Some event \<and> isWebhookEvent event"
  by (auto simp: parseWebhookEvent_def split: option.splits)

lemma run_steps_result:
  "snd (run_steps handlers event n steps d) = Inr () \<or>
   (\<exists>e. snd (run_steps handlers event n steps d) = Inl (HandlerError e))"
proof (induction steps arbitrary: d)
  case Nil
  then show ?case by simp
next
  case (Cons step steps)
  obtain h0 r0 where step: "step = (h0, r0)" by (cases step)
  show ?case
  proof (cases handlers h0 "step_argument event n r0" d rule: invoke_cases)
    case skip
    then show ?thesis using step Cons.IH [of d] by (simp add: and_then_def)
  next
    case ok
    then show ?thesis
      using step Cons.IH [of "d @ [Call h0 (step_argument event n r0)]"]
      by (simp add: and_then_def)
  next
    case throw
    then show ?thesis using step by (simp add: and_then_def)
  qed
qed

lemma dispatch_spec_result:
  "snd (dispatch_spec handlers event n t) = Inr () \<or>
   (\<exists>e. snd (dispatch_spec handlers event n t) = Inl (HandlerError e))"
  using run_steps_result [of handlers event n "dispatch_table t" "[]"]
  by (simp add: dispatch_spec_def)

text \<open>The four ways a call of \<open>handleEvents\<close> can go.\<close>

lemma handleEvents_cases:
  obtains (no_secret) "secret = None \<or> secret = Some []"
      "handleEvents env secret payload signature handlers = ([], Inl (Error secret_missing_message))"
    | (bad_signature) s where "secret = Some s" "s \<noteq> []"
      "signature \<noteq> generateSignature env (payloadString env payload) s"
      "handleEvents env secret payload signature handlers = ([], Inl (Error ''Invalid webhook signature''))"
    | (malformed) s e where "secret = Some s" "s \<noteq> []"
      "signature = generateSignature env (payloadString env payload) s"
      "parseWebhookEvent env (payloadString env payload) = (Inl e :: 'x exn + jsval)"
      "e = SyntaxError \<or> e = Error ''Invalid webhook event structure''"
      "handleEvents env secret payload signature handlers = ([], Inl e)"
    | (dispatched) s event t where "secret = Some s" "s \<noteq> []"
      "signature = generateSignature env (payloadString env payload) s"
      "parseWebhookEvent env (payloadString env payload) = (Inr event :: 'x exn + jsval)"
      "get_prop event (str ''eventType'') = Str t"
      "handleEvents env secret payload signature handlers =
         dispatch_spec handlers event (normalizeWebhookData env (get_prop event (str ''object''))) t"
proof (cases "secret = None \<or> secret = Some []")
  case True
  then show ?thesis using handleEvents_no_secret [OF True] no_secret by blast
next
  case False
  then obtain s where s: "secret = Some s" "s \<noteq> []" by auto
  note unfold = handleEvents_with_secret [OF s(2), of env payload signature handlers]
  show ?thesis
  proof (cases "signature = generateSignature env (payloadString env payload) s")
    case False
    with unfold s show ?thesis using bad_signature by simp
  next
    case True
    show ?thesis
    proof (cases "parseWebhookEvent env (payloadString env payload) :: 'x exn + jsval")
      case (Inl e)
      then have "e = SyntaxError \<or> e = Error ''Invalid webhook event structure''"
        by (auto simp: parseWebhookEvent_def split: option.splits if_splits)
      with Inl True unfold s show ?thesis using malformed by simp
    next
      case (Inr event)
      then have "isWebhookEvent event" by (simp add: parseWebhookEvent_Inr)
      then obtain t where t: "get_prop event (str ''eventType'') = Str t"
        using isWebhookEvent_fields by blast
      with Inr True unfold s show ?thesis using dispatched by (simp add: route_table)
    qed
  qed
qed

section \<open>Facts about the sample deliveries\<close>

lemma sample_secret_nonempty: "sample_secret \<noteq> []"
  by (simp add: sample_secret_def)

lemma sample_verified:
  "verifySignature sample_env payload
     (generateSignature sample_env payload sample_secret) sample_secret
     = Inr True"
  by (simp add: verifySignature_eq)

lemma sample_signature_length:
  "length (generateSignature sample_env payload sample_secret) = 64"
  by (simp add: generateSignature_def length_hex sample_env_def sample_hmac_sha256_def)

lemma sample_signature_differs:
  "length signature \<noteq> 64 \<Longrightarrow>
   signature \<noteq> generateSignature sample_env payload sample_secret"
  using sample_signature_length [of payload] by auto

lemmas sample_texts =
  garbage_text_def checkout_text_def active_text_def future_text_def override_text_def
  reason_text_def snake_text_def camel_text_def untyped_text_def stamped_text_def
  refund_text_def dispute_text_def trialing_text_def paid_text_def paused_text_def
  expired_text_def canceled_text_def unpaid_text_def update_text_def past_due_text_def
  scheduled_cancel_text_def

lemma sample_parse_garbage: "parseWebhookEvent sample_env garbage_text = Inl SyntaxError"
  by (simp add: parseWebhookEvent_def sample_env_def sample_JSON_parse_def sample_texts)

lemma sample_parse_active: "parseWebhookEvent sample_env active_text = Inr active_event"
  by (simp add: parseWebhookEvent_def sample_env_def sample_JSON_parse_def
      isWebhookEvent_def isWebhookEntity_def entity_types_def active_event_def
      checkout_text_def active_text_def)

lemma sample_parse_future: "parseWebhookEvent sample_env future_text = Inr future_event"
  by (simp add: parseWebhookEvent_def sample_env_def sample_JSON_parse_def
      isWebhookEvent_def isWebhookEntity_def entity_types_def future_event_def
      checkout_text_def active_text_def future_text_def)

lemma sample_normalize_active:
  "normalizeWebhookData sample_env (get_prop active_event (str ''object'')) =
     Obj [(str ''object'', Str (str ''subscription'')), (str ''status'', Str (str ''active''))]"
  by (simp add: normalizeWebhookData_def sample_env_def active_event_def normalizer_eval)

lemma sample_normalize_future:
  "normalizeWebhookData sample_env (get_prop future_event (str ''object'')) =
     Obj [(str ''object'', Str (str ''order''))]"
  by (simp add: normalizeWebhookData_def sample_env_def future_event_def normalizer_eval)

lemma all_handlers_complete: "handler_of all_handlers h = Some f \<Longrightarrow> f a = None"
  by (cases h) (auto simp: all_handlers_def completes_def)

lemma only_active_complete: "handler_of only_active h = Some f \<Longrightarrow> f a = None"
  by (cases h) (auto simp: only_active_def no_handlers_def completes_def)

lemma sample_table_rows:
  "dispatch_table (str ''subscription.active'') =
     [(OnGrantAccess, Some ''subscription_active''), (OnSubscriptionActive, None)]"
  "dispatch_table (str ''future.event'') = []"
  by (simp_all add: dispatch_table_def)

lemma sample_active_arguments:
  "step_argument active_event
     (Obj [(str ''object'', Str (str ''subscription'')), (str ''status'', Str (str ''active''))])
     (Some ''subscription_active'') = active_context"
  "step_argument active_event
     (Obj [(str ''object'', Str (str ''subscription'')), (str ''status'', Str (str ''active''))])
     None = active_argument"
  by (simp_all add: object_literal_def reason_field_def event_fields_def active_event_def
        active_context_def active_argument_def)

lemma sample_event_types:
  "get_prop active_event (str ''eventType'') = Str (str ''subscription.active'')"
  "get_prop future_event (str ''eventType'') = Str (str ''future.event'')"
  by (simp_all add: active_event_def future_event_def)

lemma missing_prop: "\<not> has_prop v k \<Longrightarrow> get_prop v k = Undefined"
  by (cases v) (auto split: option.splits)

lemma parse_rejects_structure:
  "JSON_parse env payload = Some v \<Longrightarrow> \<not> isWebhookEvent v \<Longrightarrow>
   parseWebhookEvent env payload = Inl (Error ''Invalid webhook event structure'')"
  by (simp add: parseWebhookEvent_def)

lemma sample_decode:
  "JSON_parse sample_env garbage_text = None"
  "JSON_parse sample_env checkout_text = Some checkout_event"
  "JSON_parse sample_env active_text = Some active_event"
  "JSON_parse sample_env future_text = Some future_event"
  "JSON_parse sample_env override_text = Some override_event"
  "JSON_parse sample_env reason_text = Some reason_event"
  "JSON_parse sample_env snake_text = Some snake_event"
  "JSON_parse sample_env camel_text = Some camel_event"
  "JSON_parse sample_env untyped_text = Some untyped_event"
  "JSON_parse sample_env stamped_text = Some stamped_event"
  "JSON_parse sample_env refund_text = Some refund_event"
  "JSON_parse sample_env dispute_text = Some dispute_event"
  "JSON_parse sample_env trialing_text = Some trialing_event"
  "JSON_parse sample_env paid_text = Some paid_event"
  "JSON_parse sample_env paused_text = Some paused_event"
  "JSON_parse sample_env expired_text = Some expired_event"
  "JSON_parse sample_env canceled_text = Some canceled_event"
  "JSON_parse sample_env unpaid_text = Some unpaid_event"
  "JSON_parse sample_env update_text = Some update_event"
  "JSON_parse sample_env past_due_text = Some past_due_event"
  "JSON_parse sample_env scheduled_cancel_text = Some scheduled_cancel_event"
  by (simp_all add: sample_env_def sample_JSON_parse_def sample_texts)

lemmas parser_eval = isWebhookEvent_def isWebhookEntity_def entity_types_def

lemma payloadString_Text: "payloadString env (Text p) = p"
  by (simp add: payloadString_def)

lemma handleEvents_calls:
  assumes "s \<noteq> []"
    and "verifySignature env (payloadString env payload) signature s = (Inr True :: 'x exn + bool)"
    and "parseWebhookEvent env (payloadString env payload) = (Inr event :: 'x exn + jsval)"
    and "Call h a \<in> set (fst (handleEvents env (Some s) payload signature
           (handlers :: 'x WebhookOptions)))"
  shows "\<exists>t r. get_prop event (str ''eventType'') = Str t \<and> (h, r) \<in> set (dispatch_table t) \<and>
    a = step_argument event (normalizeWebhookData env (get_prop event (str ''object''))) r"
proof -
  let ?n = "normalizeWebhookData env (get_prop event (str ''object''))"
  from assms(3) have "isWebhookEvent event" by (simp add: parseWebhookEvent_Inr)
  then obtain t where t: "get_prop event (str ''eventType'') = Str t"
    using isWebhookEvent_fields by blast
  from assms(2) have "signature = generateSignature env (payloadString env payload) s"
    by (simp add: verifySignature_eq)
  with assms(1,3) t have run: "handleEvents env (Some s) payload signature handlers =
      dispatch_spec handlers event ?n t"
    by (simp add: handleEvents_with_secret route_table)
  show ?thesis
  proof (cases "dispatch_table t = []")
    case True
    with run assms(4) show ?thesis by (simp add: dispatch_spec_def)
  next
    case False
    with run assms(4)
    have "Call h a \<in> set (fst (run_steps handlers event ?n (dispatch_table t) []))"
      by (simp add: dispatch_spec_def)
    from run_steps_calls [OF this] t show ?thesis by auto
  qed
qed

lemma wrapper_fields:
  "get_prop (Obj (from_entries (event_fields event))) (str ''webhookEventType'') =
     get_prop event (str ''eventType'')"
  "get_prop (Obj (from_entries (event_fields event))) (str ''webhookId'') =
     get_prop event (str ''id'')"
  "get_prop (Obj (from_entries (event_fields event))) (str ''webhookCreatedAt'') =
     get_prop event (str ''created_at'')"
  "get_prop (Obj (from_entries (reason_field r))) (str ''reason'') = Str (str r)"
  by (simp_all add: from_entries_def event_fields_def reason_field_def)

lemma step_argument_props:
  assumes "distinct (map fst kvs)"
  shows "has_prop (Obj kvs) k \<Longrightarrow> get_prop (step_argument event (Obj kvs) r) k = get_prop (Obj kvs) k"
    and "\<not> has_prop (Obj kvs) k \<Longrightarrow>
      get_prop (step_argument event (Obj kvs) None) k =
        get_prop (Obj (from_entries (event_fields event))) k"
    and "\<not> has_prop (Obj kvs) k \<Longrightarrow>
      get_prop (step_argument event (Obj kvs) (Some w)) k =
        get_prop (Obj (from_entries (reason_field w))) k"
  using get_prop_object_literal [OF assms]
  by (cases r; simp)+

lemma handleEvents_completing:
  assumes "s \<noteq> []"
    and "parseWebhookEvent env (payloadString env payload) = (Inr event :: 'x exn + jsval)"
    and "get_prop event (str ''eventType'') = Str t"
    and "\<And>h f a. handler_of handlers h = Some f \<Longrightarrow> f a = None"
  shows "handleEvents env (Some s) payload
      (generateSignature env (payloadString env payload) s) (handlers :: 'x WebhookOptions) =
    (table_calls handlers event (normalizeWebhookData env (get_prop event (str ''object''))) t @
     (if dispatch_table t = [] then [ConsoleWarn (Str t)] else []), Inr ())"
proof -
  let ?n = "normalizeWebhookData env (get_prop event (str ''object''))"
  from assms(4) have c: "\<forall>h f a. handler_of handlers h = Some f \<longrightarrow> f a = None" by blast
  from assms(1,2,3) have "handleEvents env (Some s) payload
      (generateSignature env (payloadString env payload) s) handlers =
      dispatch_spec handlers event ?n t"
    by (simp add: handleEvents_with_secret route_table)
  then show ?thesis
    using run_steps_complete [OF c, of event ?n "dispatch_table t" "[]"]
    by (simp add: dispatch_spec_def table_calls_def)
qed

lemma sample_parse_checkout: "parseWebhookEvent sample_env checkout_text = Inr checkout_event"
  by (simp add: parseWebhookEvent_def sample_decode) (simp add: checkout_event_def parser_eval)

lemma sample_parse_override: "parseWebhookEvent sample_env override_text = Inr override_event"
  by (simp add: parseWebhookEvent_def sample_decode) (simp add: override_event_def parser_eval)

lemma sample_parse_reason: "parseWebhookEvent sample_env reason_text = Inr reason_event"
  by (simp add: parseWebhookEvent_def sample_decode) (simp add: reason_event_def parser_eval)

lemma sample_normalized:
  "normalizeWebhookData sample_env (get_prop checkout_event (str ''object'')) =
     Obj [(str ''object'', Str (str ''checkout'')), (str ''requestId'', Str (str ''req_1''))]"
  "normalizeWebhookData sample_env (get_prop override_event (str ''object'')) =
     Obj [(str ''object'', Str (str ''checkout'')), (str ''webhookEventType'', Str (str ''forged''))]"
  "normalizeWebhookData sample_env (get_prop reason_event (str ''object'')) =
     Obj [(str ''object'', Str (str ''subscription'')), (str ''reason'', Str (str ''forged''))]"
  by (simp_all add: normalizeWebhookData_def sample_env_def checkout_event_def
      override_event_def reason_event_def normalizer_eval)

lemma sample_deliveries:
  "handleEvents sample_env (Some sample_secret) (Text checkout_text)
     (generateSignature sample_env checkout_text sample_secret) all_handlers =
     ([Call OnCheckoutCompleted checkout_argument], Inr ())"
  "handleEvents sample_env (Some sample_secret) (Text override_text)
     (generateSignature sample_env override_text sample_secret) all_handlers =
     ([Call OnCheckoutCompleted override_argument], Inr ())"
  "handleEvents sample_env (Some sample_secret) (Text reason_text)
     (generateSignature sample_env reason_text sample_secret) all_handlers =
     ([Call OnGrantAccess reason_context, Call OnSubscriptionActive reason_argument], Inr ())"
proof -
  have rows: "dispatch_table (str ''checkout.completed'') = [(OnCheckoutCompleted, None)]"
    by (simp add: dispatch_table_def)
  have registered: "handler_of all_handlers h \<noteq> None" for h
    by (cases h) (simp_all add: all_handlers_def)
  have a: "handleEvents sample_env (Some sample_secret) (Text p)
      (generateSignature sample_env p sample_secret) all_handlers =
      (table_calls all_handlers event
         (normalizeWebhookData sample_env (get_prop event (str ''object''))) t @
       (if dispatch_table t = [] then [ConsoleWarn (Str t)] else []), Inr ())"
    if "parseWebhookEvent sample_env p = (Inr event :: string exn + jsval)"
      and "get_prop event (str ''eventType'') = Str t" for p event t
    using handleEvents_completing [of sample_secret sample_env "Text p" event t all_handlers]
      that all_handlers_complete
    by (simp add: payloadString_Text sample_secret_nonempty)
  show "handleEvents sample_env (Some sample_secret) (Text checkout_text)
     (generateSignature sample_env checkout_text sample_secret) all_handlers =
     ([Call OnCheckoutCompleted checkout_argument], Inr ())"
    using a [OF sample_parse_checkout, of "str ''checkout.completed''"]
    by (simp add: rows table_calls_def registered sample_normalized)
       (simp add: checkout_event_def checkout_argument_def object_literal_def event_fields_def)
  show "handleEvents sample_env (Some sample_secret) (Text override_text)
     (generateSignature sample_env override_text sample_secret) all_handlers =
     ([Call OnCheckoutCompleted override_argument], Inr ())"
    using a [OF sample_parse_override, of "str ''checkout.completed''"]
    by (simp add: rows table_calls_def registered sample_normalized)
       (simp add: override_event_def override_argument_def object_literal_def event_fields_def)
  show "handleEvents sample_env (Some sample_secret) (Text reason_text)
     (generateSignature sample_env reason_text sample_secret) all_handlers =
     ([Call OnGrantAccess reason_context, Call OnSubscriptionActive reason_argument], Inr ())"
    using a [OF sample_parse_reason, of "str ''subscription.active''"]
    by (simp add: sample_table_rows table_calls_def registered sample_normalized)
       (simp add: reason_event_def reason_context_def reason_argument_def object_literal_def
          event_fields_def reason_field_def)
qed

lemma sample_parse_rows:
  "parseWebhookEvent sample_env refund_text = Inr refund_event"
  "parseWebhookEvent sample_env dispute_text = Inr dispute_event"
  "parseWebhookEvent sample_env trialing_text = Inr trialing_event"
  "parseWebhookEvent sample_env paid_text = Inr paid_event"
  "parseWebhookEvent sample_env paused_text = Inr paused_event"
  "parseWebhookEvent sample_env expired_text = Inr expired_event"
  "parseWebhookEvent sample_env canceled_text = Inr canceled_event"
  "parseWebhookEvent sample_env unpaid_text = Inr unpaid_event"
  "parseWebhookEvent sample_env update_text = Inr update_event"
  "parseWebhookEvent sample_env past_due_text = Inr past_due_event"
  "parseWebhookEvent sample_env scheduled_cancel_text = Inr scheduled_cancel_event"
  by (simp_all add: parseWebhookEvent_def sample_decode)
     (simp_all add: parser_eval refund_event_def dispute_event_def trialing_event_def paid_event_def
       paused_event_def expired_event_def canceled_event_def unpaid_event_def update_event_def past_due_event_def scheduled_cancel_event_def)

lemma sample_normalized_rows:
  "normalizeWebhookData sample_env (get_prop refund_event (str ''object'')) =
     Obj [(str ''object'', Str (str ''refund''))]"
  "normalizeWebhookData sample_env (get_prop dispute_event (str ''object'')) =
     Obj [(str ''object'', Str (str ''dispute''))]"
  "normalizeWebhookData sample_env (get_prop trialing_event (str ''object'')) =
     Obj [(str ''object'', Str (str ''subscription''))]"
  "normalizeWebhookData sample_env (get_prop paid_event (str ''object'')) =
     Obj [(str ''object'', Str (str ''subscription''))]"
  "normalizeWebhookData sample_env (get_prop paused_event (str ''object'')) =
     Obj [(str ''object'', Str (str ''subscription''))]"
  "normalizeWebhookData sample_env (get_prop expired_event (str ''object'')) =
     Obj [(str ''object'', Str (str ''subscription''))]"
  "normalizeWebhookData sample_env (get_prop canceled_event (str ''object'')) =
     Obj [(str ''object'', Str (str ''subscription''))]"
  "normalizeWebhookData sample_env (get_prop unpaid_event (str ''object'')) =
     Obj [(str ''object'', Str (str ''subscription''))]"
  "normalizeWebhookData sample_env (get_prop update_event (str ''object'')) =
     Obj [(str ''object'', Str (str ''subscription''))]"
  "normalizeWebhookData sample_env (get_prop past_due_event (str ''object'')) =
     Obj [(str ''object'', Str (str ''subscription''))]"
  "normalizeWebhookData sample_env (get_prop scheduled_cancel_event (str ''object'')) =
     Obj [(str ''object'', Str (str ''subscription''))]"
  by (simp_all add: normalizeWebhookData_def sample_env_def normalizer_eval
      refund_event_def dispute_event_def trialing_event_def paid_event_def paused_event_def
      expired_event_def canceled_event_def unpaid_event_def update_event_def past_due_event_def scheduled_cancel_event_def)

lemma sample_row_types:
  "get_prop refund_event (str ''eventType'') = Str (str ''refund.created'')"
  "get_prop dispute_event (str ''eventType'') = Str (str ''dispute.created'')"
  "get_prop trialing_event (str ''eventType'') = Str (str ''subscription.trialing'')"
  "get_prop paid_event (str ''eventType'') = Str (str ''subscription.paid'')"
  "get_prop paused_event (str ''eventType'') = Str (str ''subscription.paused'')"
  "get_prop expired_event (str ''eventType'') = Str (str ''subscription.expired'')"
  "get_prop canceled_event (str ''eventType'') = Str (str ''subscription.canceled'')"
  "get_prop unpaid_event (str ''eventType'') = Str (str ''subscription.unpaid'')"
  "get_prop update_event (str ''eventType'') = Str (str ''subscription.update'')"
  "get_prop past_due_event (str ''eventType'') = Str (str ''subscription.past_due'')"
  "get_prop scheduled_cancel_event (str ''eventType'') = Str (str ''subscription.scheduled_cancel'')"
  by (simp_all add: refund_event_def dispute_event_def trialing_event_def paid_event_def paused_event_def
      expired_event_def canceled_event_def unpaid_event_def update_event_def past_due_event_def scheduled_cancel_event_def)

lemma fold_obj_set_absent:
  "k \<notin> fst ` set es \<Longrightarrow>
   map_of (fold (\<lambda>(k, v) a. obj_set k v a) es acc) k = map_of acc k"
proof (induction es arbitrary: acc)
  case Nil
  then show ?case by simp
next
  case (Cons e es)
  obtain k0 v0 where e: "e = (k0, v0)" by (cases e)
  from Cons.prems e have "k \<noteq> k0" "k \<notin> fst ` set es" by auto
  with Cons.IH [of "obj_set k0 v0 acc"] e show ?case by (simp add: map_of_obj_set)
qed

lemma get_prop_object_literal_absent:
  assumes "\<not> has_prop (Obj entity) k"
  shows "get_prop (object_literal base (Obj entity)) k = get_prop (Obj (from_entries base)) k"
proof -
  from assms have "k \<notin> fst ` set entity" by (simp add: map_of_eq_None_iff)
  from fold_obj_set_absent [OF this, of "from_entries base"] show ?thesis
    by (simp add: object_literal_def from_entries_def)
qed

lemma access_rows:
  assumes "(h, r) \<in> set (dispatch_table t)" and "h \<in> {OnGrantAccess, OnRevokeAccess}"
  shows "(t = str ''subscription.active'' \<and> h = OnGrantAccess \<and> r = Some ''subscription_active'')
    \<or> (t = str ''subscription.trialing'' \<and> h = OnGrantAccess \<and> r = Some ''subscription_trialing'')
    \<or> (t = str ''subscription.paid'' \<and> h = OnGrantAccess \<and> r = Some ''subscription_paid'')
    \<or> (t = str ''subscription.paused'' \<and> h = OnRevokeAccess \<and> r = Some ''subscription_paused'')
    \<or> (t = str ''subscription.expired'' \<and> h = OnRevokeAccess \<and> r = Some ''subscription_expired'')"
  using assms by (auto simp: dispatch_table_def split: if_splits)

lemma sample_parse_stamped: "parseWebhookEvent sample_env stamped_text = Inr stamped_event"
  by (simp add: parseWebhookEvent_def sample_decode) (simp add: stamped_event_def parser_eval)

lemma sample_delivery_stamped:
  "handleEvents sample_env (Some sample_secret) (Text stamped_text)
     (generateSignature sample_env stamped_text sample_secret) all_handlers =
     ([Call OnRefundCreated stamped_argument], Inr ())"
proof -
  have n: "normalizeWebhookData sample_env (get_prop stamped_event (str ''object'')) =
      Obj [(str ''object'', Str (str ''refund'')), (str ''webhookCreatedAt'', Num (Finite 1))]"
    by (simp add: normalizeWebhookData_def sample_env_def stamped_event_def normalizer_eval)
  have t: "get_prop stamped_event (str ''eventType'') = Str (str ''refund.created'')"
    by (simp add: stamped_event_def)
  have rows: "dispatch_table (str ''refund.created'') = [(OnRefundCreated, None)]"
    by (simp add: dispatch_table_def)
  have registered: "handler_of all_handlers OnRefundCreated \<noteq> None"
    by (simp add: all_handlers_def)
  from handleEvents_completing [of sample_secret sample_env "Text stamped_text" stamped_event
      "str ''refund.created''" all_handlers] all_handlers_complete
  have "handleEvents sample_env (Some sample_secret) (Text stamped_text)
     (generateSignature sample_env stamped_text sample_secret) all_handlers =
     (table_calls all_handlers stamped_event
        (normalizeWebhookData sample_env (get_prop stamped_event (str ''object'')))
        (str ''refund.created''), Inr ())"
    by (simp add: payloadString_Text sample_secret_nonempty sample_parse_stamped t rows)
  then show ?thesis
    using registered
    by (simp add: rows table_calls_def n)
       (simp add: stamped_event_def stamped_argument_def object_literal_def event_fields_def)
qed

section \<open>Entry point: the claims\<close>

text \<open>
  Claim C2. The entry point checks the secret first, then the signature, then parses: a
  missing or empty secret fails with the configuration error whatever the signature and the
  payload are; with a secret, a signature that does not verify fails with the signature
  error whatever the payload is; with a verified signature, a payload that does not parse
  fails with the error of the parser. Whenever the call fails with one of these errors, it
  has invoked no handler and has had no other effect.
\<close>

theorem entry_failures_precede_handlers:
  "(secret = None \<or> secret = Some [] \<longrightarrow>
      handleEvents env secret payload signature handlers =
        ([], Inl (Error secret_missing_message)))
   \<and> (secret = Some s \<and> s \<noteq> [] \<and>
        verifySignature env (payloadString env payload) signature s = (Inr False :: 'x exn + bool) \<longrightarrow>
      handleEvents env secret payload signature handlers =
        ([], Inl (Error ''Invalid webhook signature'')))
   \<and> (secret = Some s \<and> s \<noteq> [] \<and>
        verifySignature env (payloadString env payload) signature s = (Inr True :: 'x exn + bool) \<and>
        parseWebhookEvent env (payloadString env payload) = Inl e \<longrightarrow>
      handleEvents env secret payload signature handlers = ([], Inl e))
   \<and> ((\<exists>m. snd (handleEvents env secret payload signature handlers) = Inl (Error m)) \<or>
       snd (handleEvents env secret payload signature handlers) = Inl SyntaxError \<or>
       snd (handleEvents env secret payload signature handlers) = Inl RangeError \<longrightarrow>
      fst (handleEvents env secret payload signature (handlers :: 'x WebhookOptions)) = [])"
proof (intro conjI impI)
  assume "secret = None \<or> secret = Some []"
  then show "handleEvents env secret payload signature handlers =
      ([], Inl (Error secret_missing_message))"
    by (rule handleEvents_no_secret)
next
  assume "secret = Some s \<and> s \<noteq> [] \<and>
    verifySignature env (payloadString env payload) signature s = (Inr False :: 'x exn + bool)"
  then show "handleEvents env secret payload signature handlers =
      ([], Inl (Error ''Invalid webhook signature''))"
    by (simp add: handleEvents_with_secret verifySignature_eq)
next
  assume "secret = Some s \<and> s \<noteq> [] \<and>
    verifySignature env (payloadString env payload) signature s = (Inr True :: 'x exn + bool) \<and>
    parseWebhookEvent env (payloadString env payload) = Inl e"
  then show "handleEvents env secret payload signature handlers = ([], Inl e)"
    by (simp add: handleEvents_with_secret verifySignature_eq)
next
  let ?out = "handleEvents env secret payload signature handlers"
  assume failed: "(\<exists>m. snd ?out = Inl (Error m)) \<or> snd ?out = Inl SyntaxError \<or>
    snd ?out = Inl RangeError"
  show "fst ?out = []"
  proof (cases env secret payload signature handlers rule: handleEvents_cases)
    case (dispatched s event t)
    with failed dispatch_spec_result
      [of handlers event "normalizeWebhookData env (get_prop event (str ''object''))" t]
    show ?thesis by auto
  qed simp_all
qed

theorem entry_failures_precede_handlers_witness:
  "handleEvents sample_env None (Text garbage_text) (str ''bad'') all_handlers =
     ([], Inl (Error secret_missing_message))
   \<and> handleEvents sample_env (Some []) (Text garbage_text) (str ''bad'') all_handlers =
     ([], Inl (Error secret_missing_message))
   \<and> handleEvents sample_env (Some sample_secret) (Text garbage_text) (str ''bad'') all_handlers =
     ([], Inl (Error ''Invalid webhook signature''))
   \<and> handleEvents sample_env (Some sample_secret) (Text garbage_text)
       (generateSignature sample_env garbage_text sample_secret) all_handlers =
     ([], Inl SyntaxError)"
proof -
  have ps: "payloadString sample_env (Text garbage_text) = garbage_text"
    by (simp add: payloadString_def)
  have bad: "verifySignature sample_env garbage_text (str ''bad'') sample_secret
      = (Inr False :: string exn + bool)"
    by (simp add: verifySignature_eq sample_signature_differs str_def)
  note c2 = entry_failures_precede_handlers
  from c2 [of None sample_env "Text garbage_text" "str ''bad''" all_handlers]
  have 1: "handleEvents sample_env None (Text garbage_text) (str ''bad'') all_handlers =
     ([], Inl (Error secret_missing_message))" by simp
  from c2 [of "Some []" sample_env "Text garbage_text" "str ''bad''" all_handlers]
  have 2: "handleEvents sample_env (Some []) (Text garbage_text) (str ''bad'') all_handlers =
     ([], Inl (Error secret_missing_message))" by simp
  from c2 [of "Some sample_secret" sample_env "Text garbage_text" "str ''bad''" all_handlers
      sample_secret] bad
  have 3: "handleEvents sample_env (Some sample_secret) (Text garbage_text) (str ''bad'')
      all_handlers = ([], Inl (Error ''Invalid webhook signature''))"
    by (simp add: ps sample_secret_nonempty)
  from c2 [of "Some sample_secret" sample_env "Text garbage_text"
      "generateSignature sample_env garbage_text sample_secret" all_handlers sample_secret
      SyntaxError]
  have 4: "handleEvents sample_env (Some sample_secret) (Text garbage_text)
       (generateSignature sample_env garbage_text sample_secret) all_handlers =
     ([], Inl SyntaxError)"
    by (simp add: ps sample_secret_nonempty sample_verified sample_parse_garbage)
  from 1 2 3 4 show ?thesis by simp
qed

text \<open>
  Claim C3, as stated: on \<open>subscription.active\<close> the \<open>onGrantAccess\<close> callback is invoked
  with reason \<open>subscription_active\<close>. It is not when the entity has a key \<open>reason\<close> of its
  own: for the verified, well-formed delivery below, whose subscription carries
  \<open>reason: forged\<close>, the context that \<open>onGrantAccess\<close> receives has the reason
  \<open>forged\<close>, because the fields of the entity are spread after the reason.
\<close>

theorem grant_context_takes_entity_reason:
  "verifySignature sample_env reason_text
     (generateSignature sample_env reason_text sample_secret) sample_secret
     = (Inr True :: string exn + bool)
   \<and> parseWebhookEvent sample_env reason_text = (Inr reason_event :: string exn + jsval)
   \<and> get_prop reason_event (str ''eventType'') = Str (str ''subscription.active'')
   \<and> handleEvents sample_env (Some sample_secret) (Text reason_text)
       (generateSignature sample_env reason_text sample_secret) all_handlers =
       ([Call OnGrantAccess reason_context, Call OnSubscriptionActive reason_argument], Inr ())
   \<and> get_prop reason_context (str ''reason'') = Str (str ''forged'')
   \<and> get_prop reason_context (str ''reason'') \<noteq> Str (str ''subscription_active'')"
  by (simp add: sample_verified sample_parse_reason sample_deliveries)
     (simp add: reason_event_def reason_context_def)

text \<open>
  Claim C3, amended. For every verified, well-formed envelope the event type is a string,
  and the entry point does what the dispatch table of the specification prescribes for it:
  the steps of the row in order, each awaited before the next begins, a step without a
  registered handler skipped. When every registered handler completes, the callbacks
  invoked are exactly those of the row that are registered, in table order, and the call
  completes. An access-control callback is invoked only for \<open>subscription.active\<close>,
  \<open>subscription.trialing\<close>, \<open>subscription.paid\<close> (\<open>onGrantAccess\<close>) and
  \<open>subscription.paused\<close>, \<open>subscription.expired\<close> (\<open>onRevokeAccess\<close>), and its context
  has the reason \<open>subscription_active\<close>, \<open>subscription_trialing\<close>, \<open>subscription_paid\<close>,
  \<open>subscription_paused\<close>, \<open>subscription_expired\<close> respectively whenever the normalized
  entity has no key \<open>reason\<close> of its own. For an event type that is not in the table no
  handler is invoked and the call completes.
\<close>

theorem dispatch_follows_table:
  assumes "s \<noteq> []"
    and "verifySignature env (payloadString env payload) signature s = (Inr True :: 'x exn + bool)"
    and "parseWebhookEvent env (payloadString env payload) = (Inr event :: 'x exn + jsval)"
    and "normalized = normalizeWebhookData env (get_prop event (str ''object''))"
  shows "\<exists>t. get_prop event (str ''eventType'') = Str t
    \<and> handleEvents env (Some s) payload signature handlers =
        dispatch_spec handlers event normalized t
    \<and> ((\<forall>h f a. handler_of handlers h = Some f \<longrightarrow> f a = None) \<longrightarrow>
        handleEvents env (Some s) payload signature handlers =
          (table_calls handlers event normalized t @
           (if dispatch_table t = [] then [ConsoleWarn (Str t)] else []), Inr ()))
    \<and> (dispatch_table t = [] \<longrightarrow>
        handleEvents env (Some s) payload signature handlers =
          ([ConsoleWarn (Str t)], Inr ()))
    \<and> (\<forall>entity h a.
         normalized = Obj entity \<and> \<not> has_prop (Obj entity) (str ''reason'') \<and>
         h \<in> {OnGrantAccess, OnRevokeAccess} \<and>
         Call h a \<in> set (fst (handleEvents env (Some s) payload signature
                               (handlers :: 'x WebhookOptions))) \<longrightarrow>
         (t = str ''subscription.active'' \<and> h = OnGrantAccess \<and>
           get_prop a (str ''reason'') = Str (str ''subscription_active'')) \<or>
         (t = str ''subscription.trialing'' \<and> h = OnGrantAccess \<and>
           get_prop a (str ''reason'') = Str (str ''subscription_trialing'')) \<or>
         (t = str ''subscription.paid'' \<and> h = OnGrantAccess \<and>
           get_prop a (str ''reason'') = Str (str ''subscription_paid'')) \<or>
         (t = str ''subscription.paused'' \<and> h = OnRevokeAccess \<and>
           get_prop a (str ''reason'') = Str (str ''subscription_paused'')) \<or>
         (t = str ''subscription.expired'' \<and> h = OnRevokeAccess \<and>
           get_prop a (str ''reason'') = Str (str ''subscription_expired'')))"
proof -
  from assms(3) have "isWebhookEvent event" by (simp add: parseWebhookEvent_Inr)
  then obtain t where t: "get_prop event (str ''eventType'') = Str t"
    using isWebhookEvent_fields by blast
  from assms(2) have sig: "signature = generateSignature env (payloadString env payload) s"
    by (simp add: verifySignature_eq)
  have run: "handleEvents env (Some s) payload signature handlers =
      dispatch_spec handlers event normalized t"
    using assms(1,3,4) sig t by (simp add: handleEvents_with_secret route_table)
  have complete: "handleEvents env (Some s) payload signature handlers =
      (table_calls handlers event normalized t @
       (if dispatch_table t = [] then [ConsoleWarn (Str t)] else []), Inr ())"
    if "\<forall>h f a. handler_of handlers h = Some f \<longrightarrow> f a = None"
    using run run_steps_complete [OF that, of event normalized "dispatch_table t" "[]"]
    by (simp add: dispatch_spec_def table_calls_def)
  have unknown: "handleEvents env (Some s) payload signature handlers =
      ([ConsoleWarn (Str t)], Inr ())"
    if "dispatch_table t = []"
    using run that by (simp add: dispatch_spec_def)
  have reason:
      "(t = str ''subscription.active'' \<and> h = OnGrantAccess \<and>
        get_prop a (str ''reason'') = Str (str ''subscription_active'')) \<or>
      (t = str ''subscription.trialing'' \<and> h = OnGrantAccess \<and>
        get_prop a (str ''reason'') = Str (str ''subscription_trialing'')) \<or>
      (t = str ''subscription.paid'' \<and> h = OnGrantAccess \<and>
        get_prop a (str ''reason'') = Str (str ''subscription_paid'')) \<or>
      (t = str ''subscription.paused'' \<and> h = OnRevokeAccess \<and>
        get_prop a (str ''reason'') = Str (str ''subscription_paused'')) \<or>
      (t = str ''subscription.expired'' \<and> h = OnRevokeAccess \<and>
        get_prop a (str ''reason'') = Str (str ''subscription_expired''))"
    if entity: "normalized = Obj entity" "\<not> has_prop (Obj entity) (str ''reason'')"
      and access: "h \<in> {OnGrantAccess, OnRevokeAccess}"
      and invoked: "Call h a \<in> set (fst (handleEvents env (Some s) payload signature handlers))"
    for entity h a
  proof -
    from handleEvents_calls [OF assms(1-3) invoked] t assms(4) entity(1)
    obtain r where row: "(h, r) \<in> set (dispatch_table t)"
      and arg: "a = step_argument event (Obj entity) r"
      by auto
    have "get_prop (step_argument event (Obj entity) (Some w)) (str ''reason'') = Str (str w)"
      for w
      using get_prop_object_literal_absent [OF entity(2), of "reason_field w"]
      by (simp add: wrapper_fields del: get_prop.simps has_prop.simps)
    note ctx = this
    from access_rows [OF row access] show ?thesis
      by (elim disjE conjE) (simp_all add: arg ctx del: step_argument.simps get_prop.simps)
  qed
  show ?thesis
  proof (intro exI [of _ t] conjI)
    show "get_prop event (str ''eventType'') = Str t" by (rule t)
    show "handleEvents env (Some s) payload signature handlers =
        dispatch_spec handlers event normalized t" by (rule run)
    show "(\<forall>h f a. handler_of handlers h = Some f \<longrightarrow> f a = None) \<longrightarrow>
        handleEvents env (Some s) payload signature handlers =
          (table_calls handlers event normalized t @
           (if dispatch_table t = [] then [ConsoleWarn (Str t)] else []), Inr ())"
      using complete by (rule impI)
    show "dispatch_table t = [] \<longrightarrow>
        handleEvents env (Some s) payload signature handlers =
          ([ConsoleWarn (Str t)], Inr ())"
      using unknown by (rule impI)
    show "\<forall>entity h a.
         normalized = Obj entity \<and> \<not> has_prop (Obj entity) (str ''reason'') \<and>
         h \<in> {OnGrantAccess, OnRevokeAccess} \<and>
         Call h a \<in> set (fst (handleEvents env (Some s) payload signature handlers)) \<longrightarrow>
         (t = str ''subscription.active'' \<and> h = OnGrantAccess \<and>
           get_prop a (str ''reason'') = Str (str ''subscription_active'')) \<or>
         (t = str ''subscription.trialing'' \<and> h = OnGrantAccess \<and>
           get_prop a (str ''reason'') = Str (str ''subscription_trialing'')) \<or>
         (t = str ''subscription.paid'' \<and> h = OnGrantAccess \<and>
           get_prop a (str ''reason'') = Str (str ''subscription_paid'')) \<or>
         (t = str ''subscription.paused'' \<and> h = OnRevokeAccess \<and>
           get_prop a (str ''reason'') = Str (str ''subscription_paused'')) \<or>
         (t = str ''subscription.expired'' \<and> h = OnRevokeAccess \<and>
           get_prop a (str ''reason'') = Str (str ''subscription_expired''))"
    proof (intro allI impI)
      fix entity h a
      assume "normalized = Obj entity \<and> \<not> has_prop (Obj entity) (str ''reason'') \<and>
         h \<in> {OnGrantAccess, OnRevokeAccess} \<and>
         Call h a \<in> set (fst (handleEvents env (Some s) payload signature handlers))"
      then have "normalized = Obj entity" "\<not> has_prop (Obj entity) (str ''reason'')"
        "h \<in> {OnGrantAccess, OnRevokeAccess}"
        "Call h a \<in> set (fst (handleEvents env (Some s) payload signature handlers))"
        by blast+
      then show
          "(t = str ''subscription.active'' \<and> h = OnGrantAccess \<and>
            get_prop a (str ''reason'') = Str (str ''subscription_active'')) \<or>
          (t = str ''subscription.trialing'' \<and> h = OnGrantAccess \<and>
            get_prop a (str ''reason'') = Str (str ''subscription_trialing'')) \<or>
          (t = str ''subscription.paid'' \<and> h = OnGrantAccess \<and>
            get_prop a (str ''reason'') = Str (str ''subscription_paid'')) \<or>
          (t = str ''subscription.paused'' \<and> h = OnRevokeAccess \<and>
            get_prop a (str ''reason'') = Str (str ''subscription_paused'')) \<or>
          (t = str ''subscription.expired'' \<and> h = OnRevokeAccess \<and>
            get_prop a (str ''reason'') = Str (str ''subscription_expired''))"
        by (rule reason)
    qed
  qed
qed

theorem dispatch_follows_table_witness:
  "handleEvents sample_env (Some sample_secret) (Text active_text)
     (generateSignature sample_env active_text sample_secret) all_handlers =
     ([Call OnGrantAccess active_context, Call OnSubscriptionActive active_argument], Inr ())
   \<and> get_prop active_context (str ''reason'') = Str (str ''subscription_active'')
   \<and> handleEvents sample_env (Some sample_secret) (Text active_text)
     (generateSignature sample_env active_text sample_secret) only_active =
     ([Call OnSubscriptionActive active_argument], Inr ())
   \<and> handleEvents sample_env (Some sample_secret) (Text future_text)
     (generateSignature sample_env future_text sample_secret) all_handlers =
     ([ConsoleWarn (Str (str ''future.event''))], Inr ())
   \<and> handleEvents sample_env (Some sample_secret) (Text checkout_text)
       (generateSignature sample_env checkout_text sample_secret) named_handlers =
     ([Call OnCheckoutCompleted checkout_argument],
      Inl (HandlerError ''onCheckoutCompleted''))
   \<and> handleEvents sample_env (Some sample_secret) (Text refund_text)
       (generateSignature sample_env refund_text sample_secret) named_handlers =
     ([Call OnRefundCreated (Obj [(str ''webhookEventType'', Str (str ''refund.created'')), (str ''webhookId'', Str (str ''evt_20'')),
                 (str ''webhookCreatedAt'', Num (Finite 1700000020)), (str ''object'', Str (str ''refund''))])],
      Inl (HandlerError ''onRefundCreated''))
   \<and> handleEvents sample_env (Some sample_secret) (Text dispute_text)
       (generateSignature sample_env dispute_text sample_secret) named_handlers =
     ([Call OnDisputeCreated (Obj [(str ''webhookEventType'', Str (str ''dispute.created'')), (str ''webhookId'', Str (str ''evt_21'')),
                 (str ''webhookCreatedAt'', Num (Finite 1700000021)), (str ''object'', Str (str ''dispute''))])],
      Inl (HandlerError ''onDisputeCreated''))
   \<and> handleEvents sample_env (Some sample_secret) (Text active_text)
       (generateSignature sample_env active_text sample_secret) named_handlers =
     ([Call OnGrantAccess active_context],
      Inl (HandlerError ''onGrantAccess''))
   \<and> handleEvents sample_env (Some sample_secret) (Text active_text)
       (generateSignature sample_env active_text sample_secret) named_specific =
     ([Call OnGrantAccess active_context,
       Call OnSubscriptionActive active_argument],
      Inl (HandlerError ''onSubscriptionActive''))
   \<and> handleEvents sample_env (Some sample_secret) (Text trialing_text)
       (generateSignature sample_env trialing_text sample_secret) named_handlers =
     ([Call OnGrantAccess (Obj [(str ''reason'', Str (str ''subscription_trialing'')), (str ''object'', Str (str ''subscription''))])],
      Inl (HandlerError ''onGrantAccess''))
   \<and> handleEvents sample_env (Some sample_secret) (Text trialing_text)
       (generateSignature sample_env trialing_text sample_secret) named_specific =
     ([Call OnGrantAccess (Obj [(str ''reason'', Str (str ''subscription_trialing'')), (str ''object'', Str (str ''subscription''))]),
       Call OnSubscriptionTrialing (Obj [(str ''webhookEventType'', Str (str ''subscription.trialing'')), (str ''webhookId'', Str (str ''evt_22'')),
                 (str ''webhookCreatedAt'', Num (Finite 1700000022)), (str ''object'', Str (str ''subscription''))])],
      Inl (HandlerError ''onSubscriptionTrialing''))
   \<and> handleEvents sample_env (Some sample_secret) (Text paid_text)
       (generateSignature sample_env paid_text sample_secret) named_handlers =
     ([Call OnGrantAccess (Obj [(str ''reason'', Str (str ''subscription_paid'')), (str ''object'', Str (str ''subscription''))])],
      Inl (HandlerError ''onGrantAccess''))
   \<and> handleEvents sample_env (Some sample_secret) (Text paid_text)
       (generateSignature sample_env paid_text sample_secret) named_specific =
     ([Call OnGrantAccess (Obj [(str ''reason'', Str (str ''subscription_paid'')), (str ''object'', Str (str ''subscription''))]),
       Call OnSubscriptionPaid (Obj [(str ''webhookEventType'', Str (str ''subscription.paid'')), (str ''webhookId'', Str (str ''evt_23'')),
                 (str ''webhookCreatedAt'', Num (Finite 1700000023)), (str ''object'', Str (str ''subscription''))])],
      Inl (HandlerError ''onSubscriptionPaid''))
   \<and> handleEvents sample_env (Some sample_secret) (Text paused_text)
       (generateSignature sample_env paused_text sample_secret) named_handlers =
     ([Call OnRevokeAccess (Obj [(str ''reason'', Str (str ''subscription_paused'')), (str ''object'', Str (str ''subscription''))])],
      Inl (HandlerError ''onRevokeAccess''))
   \<and> handleEvents sample_env (Some sample_secret) (Text paused_text)
       (generateSignature sample_env paused_text sample_secret) named_specific =
     ([Call OnRevokeAccess (Obj [(str ''reason'', Str (str ''subscription_paused'')), (str ''object'', Str (str ''subscription''))]),
       Call OnSubscriptionPaused (Obj [(str ''webhookEventType'', Str (str ''subscription.paused'')), (str ''webhookId'', Str (str ''evt_24'')),
                 (str ''webhookCreatedAt'', Num (Finite 1700000024)), (str ''object'', Str (str ''subscription''))])],
      Inl (HandlerError ''onSubscriptionPaused''))
   \<and> handleEvents sample_env (Some sample_secret) (Text expired_text)
       (generateSignature sample_env expired_text sample_secret) named_handlers =
     ([Call OnRevokeAccess (Obj [(str ''reason'', Str (str ''subscription_expired'')), (str ''object'', Str (str ''subscription''))])],
      Inl (HandlerError ''onRevokeAccess''))
   \<and> handleEvents sample_env (Some sample_secret) (Text expired_text)
       (generateSignature sample_env expired_text sample_secret) named_specific =
     ([Call OnRevokeAccess (Obj [(str ''reason'', Str (str ''subscription_expired'')), (str ''object'', Str (str ''subscription''))]),
       Call OnSubscriptionExpired (Obj [(str ''webhookEventType'', Str (str ''subscription.expired'')), (str ''webhookId'', Str (str ''evt_25'')),
                 (str ''webhookCreatedAt'', Num (Finite 1700000025)), (str ''object'', Str (str ''subscription''))])],
      Inl (HandlerError ''onSubscriptionExpired''))
   \<and> handleEvents sample_env (Some sample_secret) (Text canceled_text)
       (generateSignature sample_env canceled_text sample_secret) named_handlers =
     ([Call OnSubscriptionCanceled (Obj [(str ''webhookEventType'', Str (str ''subscription.canceled'')), (str ''webhookId'', Str (str ''evt_26'')),
                 (str ''webhookCreatedAt'', Num (Finite 1700000026)), (str ''object'', Str (str ''subscription''))])],
      Inl (HandlerError ''onSubscriptionCanceled''))
   \<and> handleEvents sample_env (Some sample_secret) (Text unpaid_text)
       (generateSignature sample_env unpaid_text sample_secret) named_handlers =
     ([Call OnSubscriptionUnpaid (Obj [(str ''webhookEventType'', Str (str ''subscription.unpaid'')), (str ''webhookId'', Str (str ''evt_27'')),
                 (str ''webhookCreatedAt'', Num (Finite 1700000027)), (str ''object'', Str (str ''subscription''))])],
      Inl (HandlerError ''onSubscriptionUnpaid''))
   \<and> handleEvents sample_env (Some sample_secret) (Text update_text)
       (generateSignature sample_env update_text sample_secret) named_handlers =
     ([Call OnSubscriptionUpdate (Obj [(str ''webhookEventType'', Str (str ''subscription.update'')), (str ''webhookId'', Str (str ''evt_28'')),
                 (str ''webhookCreatedAt'', Num (Finite 1700000028)), (str ''object'', Str (str ''subscription''))])],
      Inl (HandlerError ''onSubscriptionUpdate''))
   \<and> handleEvents sample_env (Some sample_secret) (Text past_due_text)
       (generateSignature sample_env past_due_text sample_secret) named_handlers =
     ([Call OnSubscriptionPastDue (Obj [(str ''webhookEventType'', Str (str ''subscription.past_due'')), (str ''webhookId'', Str (str ''evt_29'')),
                 (str ''webhookCreatedAt'', Num (Finite 1700000029)), (str ''object'', Str (str ''subscription''))])],
      Inl (HandlerError ''onSubscriptionPastDue''))
   \<and> handleEvents sample_env (Some sample_secret) (Text scheduled_cancel_text)
       (generateSignature sample_env scheduled_cancel_text sample_secret) named_handlers =
     ([Call OnSubscriptionScheduledCancel (Obj [(str ''webhookEventType'', Str (str ''subscription.scheduled_cancel'')), (str ''webhookId'', Str (str ''evt_30'')),
                 (str ''webhookCreatedAt'', Num (Finite 1700000030)), (str ''object'', Str (str ''subscription''))])],
      Inl (HandlerError ''onSubscriptionScheduledCancel''))"
proof -
  let ?n = "Obj [(str ''object'', Str (str ''subscription'')), (str ''status'', Str (str ''active''))]"
  have verified: "verifySignature sample_env (payloadString sample_env (Text p))
      (generateSignature sample_env p sample_secret) sample_secret
      = (Inr True :: string exn + bool)" for p
    by (simp add: payloadString_Text sample_verified)
  note c3 = dispatch_follows_table [OF sample_secret_nonempty verified]
  have parsed: "parseWebhookEvent sample_env (payloadString sample_env (Text active_text)) =
      (Inr active_event :: string exn + jsval)"
    "parseWebhookEvent sample_env (payloadString sample_env (Text future_text)) =
      (Inr future_event :: string exn + jsval)"
    by (simp_all add: payloadString_Text sample_parse_active sample_parse_future)
  have a: "handleEvents sample_env (Some sample_secret) (Text active_text)
      (generateSignature sample_env active_text sample_secret) handlers =
      (table_calls handlers active_event ?n (str ''subscription.active''), Inr ())"
    if complete: "\<forall>h f a. handler_of handlers h = Some f \<longrightarrow> f a = None"
    for handlers :: "string WebhookOptions"
  proof -
    from c3 [OF parsed(1) sample_normalize_active [symmetric], of handlers]
    obtain t where t: "get_prop active_event (str ''eventType'') = Str t"
      and run: "(\<forall>h f a. handler_of handlers h = Some f \<longrightarrow> f a = None) \<longrightarrow>
        handleEvents sample_env (Some sample_secret) (Text active_text)
          (generateSignature sample_env active_text sample_secret) handlers =
          (table_calls handlers active_event ?n t @
           (if dispatch_table t = [] then [ConsoleWarn (Str t)] else []), Inr ())"
      by blast
    from t have "t = str ''subscription.active''" by (simp add: sample_event_types)
    with run complete show ?thesis by (simp add: sample_table_rows)
  qed
  have 1: "handleEvents sample_env (Some sample_secret) (Text active_text)
     (generateSignature sample_env active_text sample_secret) all_handlers =
     ([Call OnGrantAccess active_context, Call OnSubscriptionActive active_argument], Inr ())"
  proof -
    have "table_calls all_handlers active_event ?n (str ''subscription.active'') =
        [Call OnGrantAccess active_context, Call OnSubscriptionActive active_argument]"
      by (simp add: table_calls_def sample_table_rows sample_active_arguments all_handlers_def
          del: step_argument.simps)
    moreover have "\<forall>h f a. handler_of all_handlers h = Some f \<longrightarrow> f a = None"
      using all_handlers_complete by blast
    ultimately show ?thesis using a [of all_handlers] by simp
  qed
  have 2: "get_prop active_context (str ''reason'') = Str (str ''subscription_active'')"
  proof -
    from c3 [OF parsed(1) sample_normalize_active [symmetric], of all_handlers]
    obtain t where t: "get_prop active_event (str ''eventType'') = Str t"
      and reason: "\<forall>entity h a.
         ?n = Obj entity \<and> \<not> has_prop (Obj entity) (str ''reason'') \<and>
         h \<in> {OnGrantAccess, OnRevokeAccess} \<and>
         Call h a \<in> set (fst (handleEvents sample_env (Some sample_secret) (Text active_text)
                               (generateSignature sample_env active_text sample_secret)
                               all_handlers)) \<longrightarrow>
         (t = str ''subscription.active'' \<and> h = OnGrantAccess \<and>
           get_prop a (str ''reason'') = Str (str ''subscription_active'')) \<or>
         (t = str ''subscription.trialing'' \<and> h = OnGrantAccess \<and>
           get_prop a (str ''reason'') = Str (str ''subscription_trialing'')) \<or>
         (t = str ''subscription.paid'' \<and> h = OnGrantAccess \<and>
           get_prop a (str ''reason'') = Str (str ''subscription_paid'')) \<or>
         (t = str ''subscription.paused'' \<and> h = OnRevokeAccess \<and>
           get_prop a (str ''reason'') = Str (str ''subscription_paused'')) \<or>
         (t = str ''subscription.expired'' \<and> h = OnRevokeAccess \<and>
           get_prop a (str ''reason'') = Str (str ''subscription_expired''))"
      by blast
    from t have t': "t = str ''subscription.active''" by (simp add: sample_event_types)
    have "\<not> has_prop ?n (str ''reason'')" by simp
    with reason [rule_format, of "[(str ''object'', Str (str ''subscription'')),
        (str ''status'', Str (str ''active''))]" OnGrantAccess active_context] 1 t'
    show ?thesis by simp
  qed
  have 3: "handleEvents sample_env (Some sample_secret) (Text active_text)
     (generateSignature sample_env active_text sample_secret) only_active =
     ([Call OnSubscriptionActive active_argument], Inr ())"
  proof -
    have "table_calls only_active active_event ?n (str ''subscription.active'') =
        [Call OnSubscriptionActive active_argument]"
      by (simp add: table_calls_def sample_table_rows sample_active_arguments only_active_def
          no_handlers_def del: step_argument.simps)
    moreover have "\<forall>h f a. handler_of only_active h = Some f \<longrightarrow> f a = None"
      using only_active_complete by blast
    ultimately show ?thesis using a [of only_active] by simp
  qed
  have 4: "handleEvents sample_env (Some sample_secret) (Text future_text)
     (generateSignature sample_env future_text sample_secret) all_handlers =
     ([ConsoleWarn (Str (str ''future.event''))], Inr ())"
  proof -
    from c3 [OF parsed(2) sample_normalize_future [symmetric], of all_handlers]
    obtain t where t: "get_prop future_event (str ''eventType'') = Str t"
      and run: "dispatch_table t = [] \<longrightarrow>
        handleEvents sample_env (Some sample_secret) (Text future_text)
          (generateSignature sample_env future_text sample_secret) all_handlers =
          ([ConsoleWarn (Str t)], Inr ())"
      by blast
    from t have "t = str ''future.event''" by (simp add: sample_event_types)
    with run show ?thesis by (simp add: sample_table_rows)
  qed
  have run: "handleEvents sample_env (Some sample_secret) (Text p)
      (generateSignature sample_env p sample_secret) hs = dispatch_spec hs ev n t"
    if "parseWebhookEvent sample_env p = (Inr ev :: string exn + jsval)"
      and "n = normalizeWebhookData sample_env (get_prop ev (str ''object''))"
      and "get_prop ev (str ''eventType'') = Str t"
    for p ev n t and hs :: "string WebhookOptions"
  proof -
    from that(1) have "parseWebhookEvent sample_env (payloadString sample_env (Text p)) =
        (Inr ev :: string exn + jsval)"
      by (simp add: payloadString_Text)
    from c3 [OF this that(2), of hs]
    obtain t' where "get_prop ev (str ''eventType'') = Str t'"
      and "handleEvents sample_env (Some sample_secret) (Text p)
        (generateSignature sample_env p sample_secret) hs = dispatch_spec hs ev n t'"
      by blast
    with that(3) show ?thesis by simp
  qed
  have checkout_type:
    "get_prop checkout_event (str ''eventType'') = Str (str ''checkout.completed'')"
    by (simp add: checkout_event_def)
  note row_eval = dispatch_spec_def dispatch_table_def named_handlers_def named_specific_def
    completes_def invoke_def and_then_def object_literal_def event_fields_def reason_field_def

  have r1: "handleEvents sample_env (Some sample_secret) (Text checkout_text)
       (generateSignature sample_env checkout_text sample_secret) named_handlers =
     ([Call OnCheckoutCompleted checkout_argument],
      Inl (HandlerError ''onCheckoutCompleted''))"
    unfolding run [OF sample_parse_checkout sample_normalized(1) [symmetric] checkout_type, of named_handlers]
    by (simp add: row_eval checkout_event_def checkout_argument_def)
  have r2: "handleEvents sample_env (Some sample_secret) (Text refund_text)
       (generateSignature sample_env refund_text sample_secret) named_handlers =
     ([Call OnRefundCreated (Obj [(str ''webhookEventType'', Str (str ''refund.created'')), (str ''webhookId'', Str (str ''evt_20'')),
                 (str ''webhookCreatedAt'', Num (Finite 1700000020)), (str ''object'', Str (str ''refund''))])],
      Inl (HandlerError ''onRefundCreated''))"
    unfolding run [OF sample_parse_rows(1) sample_normalized_rows(1) [symmetric] sample_row_types(1), of named_handlers]
    by (simp add: row_eval refund_event_def)
  have r3: "handleEvents sample_env (Some sample_secret) (Text dispute_text)
       (generateSignature sample_env dispute_text sample_secret) named_handlers =
     ([Call OnDisputeCreated (Obj [(str ''webhookEventType'', Str (str ''dispute.created'')), (str ''webhookId'', Str (str ''evt_21'')),
                 (str ''webhookCreatedAt'', Num (Finite 1700000021)), (str ''object'', Str (str ''dispute''))])],
      Inl (HandlerError ''onDisputeCreated''))"
    unfolding run [OF sample_parse_rows(2) sample_normalized_rows(2) [symmetric] sample_row_types(2), of named_handlers]
    by (simp add: row_eval dispute_event_def)
  have r4: "handleEvents sample_env (Some sample_secret) (Text active_text)
       (generateSignature sample_env active_text sample_secret) named_handlers =
     ([Call OnGrantAccess active_context],
      Inl (HandlerError ''onGrantAccess''))"
    unfolding run [OF sample_parse_active sample_normalize_active [symmetric] sample_event_types(1), of named_handlers]
    by (simp add: row_eval active_event_def active_context_def active_argument_def)
  have r5: "handleEvents sample_env (Some sample_secret) (Text active_text)
       (generateSignature sample_env active_text sample_secret) named_specific =
     ([Call OnGrantAccess active_context,
       Call OnSubscriptionActive active_argument],
      Inl (HandlerError ''onSubscriptionActive''))"
    unfolding run [OF sample_parse_active sample_normalize_active [symmetric] sample_event_types(1), of named_specific]
    by (simp add: row_eval active_event_def active_context_def active_argument_def)
  have r6: "handleEvents sample_env (Some sample_secret) (Text trialing_text)
       (generateSignature sample_env trialing_text sample_secret) named_handlers =
     ([Call OnGrantAccess (Obj [(str ''reason'', Str (str ''subscription_trialing'')), (str ''object'', Str (str ''subscription''))])],
      Inl (HandlerError ''onGrantAccess''))"
    unfolding run [OF sample_parse_rows(3) sample_normalized_rows(3) [symmetric] sample_row_types(3), of named_handlers]
    by (simp add: row_eval trialing_event_def)
  have r7: "handleEvents sample_env (Some sample_secret) (Text trialing_text)
       (generateSignature sample_env trialing_text sample_secret) named_specific =
     ([Call OnGrantAccess (Obj [(str ''reason'', Str (str ''subscription_trialing'')), (str ''object'', Str (str ''subscription''))]),
       Call OnSubscriptionTrialing (Obj [(str ''webhookEventType'', Str (str ''subscription.trialing'')), (str ''webhookId'', Str (str ''evt_22'')),
                 (str ''webhookCreatedAt'', Num (Finite 1700000022)), (str ''object'', Str (str ''subscription''))])],
      Inl (HandlerError ''onSubscriptionTrialing''))"
    unfolding run [OF sample_parse_rows(3) sample_normalized_rows(3) [symmetric] sample_row_types(3), of named_specific]
    by (simp add: row_eval trialing_event_def)
  have r8: "handleEvents sample_env (Some sample_secret) (Text paid_text)
       (generateSignature sample_env paid_text sample_secret) named_handlers =
     ([Call OnGrantAccess (Obj [(str ''reason'', Str (str ''subscription_paid'')), (str ''object'', Str (str ''subscription''))])],
      Inl (HandlerError ''onGrantAccess''))"
    unfolding run [OF sample_parse_rows(4) sample_normalized_rows(4) [symmetric] sample_row_types(4), of named_handlers]
    by (simp add: row_eval paid_event_def)
  have r9: "handleEvents sample_env (Some sample_secret) (Text paid_text)
       (generateSignature sample_env paid_text sample_secret) named_specific =
     ([Call OnGrantAccess (Obj [(str ''reason'', Str (str ''subscription_paid'')), (str ''object'', Str (str ''subscription''))]),
       Call OnSubscriptionPaid (Obj [(str ''webhookEventType'', Str (str ''subscription.paid'')), (str ''webhookId'', Str (str ''evt_23'')),
                 (str ''webhookCreatedAt'', Num (Finite 1700000023)), (str ''object'', Str (str ''subscription''))])],
      Inl (HandlerError ''onSubscriptionPaid''))"
    unfolding run [OF sample_parse_rows(4) sample_normalized_rows(4) [symmetric] sample_row_types(4), of named_specific]
    by (simp add: row_eval paid_event_def)
  have r10: "handleEvents sample_env (Some sample_secret) (Text paused_text)
       (generateSignature sample_env paused_text sample_secret) named_handlers =
     ([Call OnRevokeAccess (Obj [(str ''reason'', Str (str ''subscription_paused'')), (str ''object'', Str (str ''subscription''))])],
      Inl (HandlerError ''onRevokeAccess''))"
    unfolding run [OF sample_parse_rows(5) sample_normalized_rows(5) [symmetric] sample_row_types(5), of named_handlers]
    by (simp add: row_eval paused_event_def)
  have r11: "handleEvents sample_env (Some sample_secret) (Text paused_text)
       (generateSignature sample_env paused_text sample_secret) named_specific =
     ([Call OnRevokeAccess (Obj [(str ''reason'', Str (str ''subscription_paused'')), (str ''object'', Str (str ''subscription''))]),
       Call OnSubscriptionPaused (Obj [(str ''webhookEventType'', Str (str ''subscription.paused'')), (str ''webhookId'', Str (str ''evt_24'')),
                 (str ''webhookCreatedAt'', Num (Finite 1700000024)), (str ''object'', Str (str ''subscription''))])],
      Inl (HandlerError ''onSubscriptionPaused''))"
    unfolding run [OF sample_parse_rows(5) sample_normalized_rows(5) [symmetric] sample_row_types(5), of named_specific]
    by (simp add: row_eval paused_event_def)
  have r12: "handleEvents sample_env (Some sample_secret) (Text expired_text)
       (generateSignature sample_env expired_text sample_secret) named_handlers =
     ([Call OnRevokeAccess (Obj [(str ''reason'', Str (str ''subscription_expired'')), (str ''object'', Str (str ''subscription''))])],
      Inl (HandlerError ''onRevokeAccess''))"
    unfolding run [OF sample_parse_rows(6) sample_normalized_rows(6) [symmetric] sample_row_types(6), of named_handlers]
    by (simp add: row_eval expired_event_def)
  have r13: "handleEvents sample_env (Some sample_secret) (Text expired_text)
       (generateSignature sample_env expired_text sample_secret) named_specific =
     ([Call OnRevokeAccess (Obj [(str ''reason'', Str (str ''subscription_expired'')), (str ''object'', Str (str ''subscription''))]),
       Call OnSubscriptionExpired (Obj [(str ''webhookEventType'', Str (str ''subscription.expired'')), (str ''webhookId'', Str (str ''evt_25'')),
                 (str ''webhookCreatedAt'', Num (Finite 1700000025)), (str ''object'', Str (str ''subscription''))])],
      Inl (HandlerError ''onSubscriptionExpired''))"
    unfolding run [OF sample_parse_rows(6) sample_normalized_rows(6) [symmetric] sample_row_types(6), of named_specific]
    by (simp add: row_eval expired_event_def)
  have r14: "handleEvents sample_env (Some sample_secret) (Text canceled_text)
       (generateSignature sample_env canceled_text sample_secret) named_handlers =
     ([Call OnSubscriptionCanceled (Obj [(str ''webhookEventType'', Str (str ''subscription.canceled'')), (str ''webhookId'', Str (str ''evt_26'')),
                 (str ''webhookCreatedAt'', Num (Finite 1700000026)), (str ''object'', Str (str ''subscription''))])],
      Inl (HandlerError ''onSubscriptionCanceled''))"
    unfolding run [OF sample_parse_rows(7) sample_normalized_rows(7) [symmetric] sample_row_types(7), of named_handlers]
    by (simp add: row_eval canceled_event_def)
  have r15: "handleEvents sample_env (Some sample_secret) (Text unpaid_text)
       (generateSignature sample_env unpaid_text sample_secret) named_handlers =
     ([Call OnSubscriptionUnpaid (Obj [(str ''webhookEventType'', Str (str ''subscription.unpaid'')), (str ''webhookId'', Str (str ''evt_27'')),
                 (str ''webhookCreatedAt'', Num (Finite 1700000027)), (str ''object'', Str (str ''subscription''))])],
      Inl (HandlerError ''onSubscriptionUnpaid''))"
    unfolding run [OF sample_parse_rows(8) sample_normalized_rows(8) [symmetric] sample_row_types(8), of named_handlers]
    by (simp add: row_eval unpaid_event_def)
  have r16: "handleEvents sample_env (Some sample_secret) (Text update_text)
       (generateSignature sample_env update_text sample_secret) named_handlers =
     ([Call OnSubscriptionUpdate (Obj [(str ''webhookEventType'', Str (str ''subscription.update'')), (str ''webhookId'', Str (str ''evt_28'')),
                 (str ''webhookCreatedAt'', Num (Finite 1700000028)), (str ''object'', Str (str ''subscription''))])],
      Inl (HandlerError ''onSubscriptionUpdate''))"
    unfolding run [OF sample_parse_rows(9) sample_normalized_rows(9) [symmetric] sample_row_types(9), of named_handlers]
    by (simp add: row_eval update_event_def)
  have r17: "handleEvents sample_env (Some sample_secret) (Text past_due_text)
       (generateSignature sample_env past_due_text sample_secret) named_handlers =
     ([Call OnSubscriptionPastDue (Obj [(str ''webhookEventType'', Str (str ''subscription.past_due'')), (str ''webhookId'', Str (str ''evt_29'')),
                 (str ''webhookCreatedAt'', Num (Finite 1700000029)), (str ''object'', Str (str ''subscription''))])],
      Inl (HandlerError ''onSubscriptionPastDue''))"
    unfolding run [OF sample_parse_rows(10) sample_normalized_rows(10) [symmetric] sample_row_types(10), of named_handlers]
    by (simp add: row_eval past_due_event_def)
  have r18: "handleEvents sample_env (Some sample_secret) (Text scheduled_cancel_text)
       (generateSignature sample_env scheduled_cancel_text sample_secret) named_handlers =
     ([Call OnSubscriptionScheduledCancel (Obj [(str ''webhookEventType'', Str (str ''subscription.scheduled_cancel'')), (str ''webhookId'', Str (str ''evt_30'')),
                 (str ''webhookCreatedAt'', Num (Finite 1700000030)), (str ''object'', Str (str ''subscription''))])],
      Inl (HandlerError ''onSubscriptionScheduledCancel''))"
    unfolding run [OF sample_parse_rows(11) sample_normalized_rows(11) [symmetric] sample_row_types(11), of named_handlers]
    by (simp add: row_eval scheduled_cancel_event_def)
  from 1 2 3 4 r1 r2 r3 r4 r5 r6 r7 r8 r9 r10 r11 r12 r13 r14 r15 r16 r17 r18 show ?thesis by simp
qed


text \<open>
  Claim C4. A handler that throws is the last thing a call of \<open>handleEvents\<close> does: no
  effect follows its invocation, and the call fails with exactly what the handler threw,
  unwrapped. In particular, when the first step of a row throws (the \<open>onGrantAccess\<close> of
  \<open>subscription.active\<close>, say), its invocation is the only one: the specific-event
  handler that follows it in the row is never invoked.
\<close>

theorem handler_failure_stops_dispatch:
  "(fst (handleEvents env secret payload signature handlers) = pre @ Call h a # post \<and>
    raises handlers h a e \<longrightarrow>
      post = [] \<and> snd (handleEvents env secret payload signature handlers) = Inl (HandlerError e))
   \<and> (s \<noteq> [] \<and>
        verifySignature env (payloadString env payload) signature s = (Inr True :: 'x exn + bool) \<and>
        parseWebhookEvent env (payloadString env payload) = (Inr event :: 'x exn + jsval) \<and>
        get_prop event (str ''eventType'') = Str t \<and>
        dispatch_table t = (g, r) # rest \<and>
        raises handlers g
          (step_argument event (normalizeWebhookData env (get_prop event (str ''object''))) r) e
      \<longrightarrow>
      handleEvents env (Some s) payload signature (handlers :: 'x WebhookOptions) =
        ([Call g (step_argument event
                   (normalizeWebhookData env (get_prop event (str ''object''))) r)],
         Inl (HandlerError e)))"
proof (rule conjI; rule impI)
  let ?out = "handleEvents env secret payload signature handlers"
  assume a: "fst ?out = pre @ Call h a # post \<and> raises handlers h a e"
  show "post = [] \<and> snd ?out = Inl (HandlerError e)"
  proof (cases env secret payload signature handlers rule: handleEvents_cases)
    case (dispatched s' ev t')
    let ?n = "normalizeWebhookData env (get_prop ev (str ''object''))"
    show ?thesis
    proof (cases "dispatch_table t' = []")
      case True
      with dispatched(6) a show ?thesis by (simp add: dispatch_spec_def Cons_eq_append_conv)
    next
      case False
      with dispatched(6) a
      have run: "run_steps handlers ev ?n (dispatch_table t') [] =
          (pre @ Call h a # post, snd ?out)"
        by (simp add: dispatch_spec_def prod_eq_iff)
      have none: "\<forall>h a e. Call h a \<in> set [] \<longrightarrow> \<not> raises handlers h a e" by simp
      from a have "raises handlers h a e" by simp
      from run_steps_stops [OF none run this] show ?thesis .
    qed
  qed (use a in simp_all)
next
  let ?n = "normalizeWebhookData env (get_prop event (str ''object''))"
  assume a: "s \<noteq> [] \<and>
    verifySignature env (payloadString env payload) signature s = (Inr True :: 'x exn + bool) \<and>
    parseWebhookEvent env (payloadString env payload) = (Inr event :: 'x exn + jsval) \<and>
    get_prop event (str ''eventType'') = Str t \<and>
    dispatch_table t = (g, r) # rest \<and>
    raises handlers g (step_argument event ?n r) e"
  then have "handleEvents env (Some s) payload signature handlers =
      dispatch_spec handlers event ?n t"
    by (simp add: handleEvents_with_secret verifySignature_eq route_table)
  moreover from a have "invoke g (handler_of handlers g) (step_argument event ?n r) [] =
      ([Call g (step_argument event ?n r)], Inl (HandlerError e))"
    by (auto simp: raises_def invoke_def split: option.splits)
  ultimately show "handleEvents env (Some s) payload signature handlers =
      ([Call g (step_argument event ?n r)], Inl (HandlerError e))"
    using a by (simp add: dispatch_spec_def and_then_def)
qed

theorem handler_failure_stops_dispatch_witness:
  "raises failing_grant OnGrantAccess active_context ''boom''
   \<and> handleEvents sample_env (Some sample_secret) (Text active_text)
       (generateSignature sample_env active_text sample_secret) failing_grant =
     ([Call OnGrantAccess active_context], Inl (HandlerError ''boom''))"
proof -
  let ?n = "Obj [(str ''object'', Str (str ''subscription'')), (str ''status'', Str (str ''active''))]"
  have ps: "payloadString sample_env (Text p) = p" for p
    by (simp add: payloadString_def)
  have r: "raises failing_grant OnGrantAccess active_context ''boom''"
    by (simp add: raises_def failing_grant_def all_handlers_def throws_def)
  have "s \<noteq> [] \<and>
      verifySignature sample_env (payloadString sample_env (Text active_text))
        (generateSignature sample_env active_text sample_secret) s = (Inr True :: string exn + bool) \<and>
      parseWebhookEvent sample_env (payloadString sample_env (Text active_text)) =
        (Inr active_event :: string exn + jsval) \<and>
      get_prop active_event (str ''eventType'') = Str (str ''subscription.active'') \<and>
      dispatch_table (str ''subscription.active'') =
        (OnGrantAccess, Some ''subscription_active'') # [(OnSubscriptionActive, None)] \<and>
      raises failing_grant OnGrantAccess
        (step_argument active_event
          (normalizeWebhookData sample_env (get_prop active_event (str ''object'')))
          (Some ''subscription_active'')) ''boom''"
    if "s = sample_secret" for s
    using that r
    by (simp add: ps sample_secret_nonempty sample_verified sample_parse_active
        sample_event_types sample_table_rows sample_normalize_active sample_active_arguments
        del: step_argument.simps)
  with handler_failure_stops_dispatch [THEN conjunct2, rule_format,
      of sample_secret sample_env "Text active_text"
        "generateSignature sample_env active_text sample_secret" active_event
        "str ''subscription.active''" OnGrantAccess "Some ''subscription_active''"
        "[(OnSubscriptionActive, None)]" failing_grant "''boom''"]
  have "handleEvents sample_env (Some sample_secret) (Text active_text)
       (generateSignature sample_env active_text sample_secret) failing_grant =
     ([Call OnGrantAccess (step_argument active_event
          (normalizeWebhookData sample_env (get_prop active_event (str ''object'')))
          (Some ''subscription_active''))], Inl (HandlerError ''boom''))"
    by blast
  then have run: "handleEvents sample_env (Some sample_secret) (Text active_text)
       (generateSignature sample_env active_text sample_secret) failing_grant =
     ([Call OnGrantAccess active_context], Inl (HandlerError ''boom''))"
    by (simp add: sample_normalize_active sample_active_arguments del: step_argument.simps)
  then have "fst (handleEvents sample_env (Some sample_secret) (Text active_text)
       (generateSignature sample_env active_text sample_secret) failing_grant) =
     [] @ Call OnGrantAccess active_context # [] \<and>
     raises failing_grant OnGrantAccess active_context ''boom''"
    using r by simp
  from handler_failure_stops_dispatch [THEN conjunct1, rule_format, OF this]
  have "snd (handleEvents sample_env (Some sample_secret) (Text active_text)
       (generateSignature sample_env active_text sample_secret) failing_grant) =
     Inl (HandlerError ''boom'')"
    by simp
  with run r show ?thesis by simp
qed

section \<open>Parse failures: the claims\<close>

text \<open>
  Claim C5, as stated: the parser rejects a decoded object that lacks the key
  \<open>createdAt\<close>. It does not: the key the parser requires is \<open>created_at\<close>, and the
  sample checkout delivery, which has \<open>created_at\<close> and no \<open>createdAt\<close>, is accepted.
\<close>

theorem parse_accepts_without_createdAt:
  "JSON_parse sample_env checkout_text = Some checkout_event
   \<and> \<not> has_prop checkout_event (str ''createdAt'')
   \<and> parseWebhookEvent sample_env checkout_text = (Inr checkout_event :: string exn + jsval)"
  by (simp add: sample_decode parseWebhookEvent_def) (simp add: checkout_event_def parser_eval)

text \<open>
  Claim C5, amended: the parser rejects, with no partial success, a text that \<open>JSON.parse\<close>
  rejects (with the SyntaxError of \<open>JSON.parse\<close>), and, with the error "Invalid webhook
  event structure", a decoded value whose \<open>id\<close> is not a string, whose \<open>eventType\<close> is
  not a string, whose \<open>created_at\<close> is not a number (a missing key is neither), whose
  \<open>object\<close> is absent or not a mapping, or whose type discriminator \<open>object.object\<close> is
  absent, not a string, or not one of checkout, customer, order, product, subscription,
  refund, dispute, transaction. What it accepts is the decoded value itself, which then has
  all of these.
\<close>

theorem parse_rejects_malformed:
  "(JSON_parse env payload = None \<longrightarrow>
      parseWebhookEvent env payload = (Inl SyntaxError :: 'x exn + jsval))
   \<and> (JSON_parse env payload = Some v \<and>
        (js_typeof (get_prop v (str ''id'')) \<noteq> ''string'' \<or>
         js_typeof (get_prop v (str ''eventType'')) \<noteq> ''string'' \<or>
         js_typeof (get_prop v (str ''created_at'')) \<noteq> ''number'' \<or>
         \<not> has_prop v (str ''object'') \<or>
         (\<forall>entity. get_prop v (str ''object'') \<noteq> Obj entity) \<or>
         (\<forall>d. get_prop (get_prop v (str ''object'')) (str ''object'') \<noteq> Str d) \<or>
         (\<exists>d. get_prop (get_prop v (str ''object'')) (str ''object'') = Str d \<and>
              d \<notin> {str ''checkout'', str ''customer'', str ''order'', str ''product'',
                    str ''subscription'', str ''refund'', str ''dispute'', str ''transaction''}))
      \<longrightarrow> parseWebhookEvent env payload =
            (Inl (Error ''Invalid webhook event structure'') :: 'x exn + jsval))
   \<and> (parseWebhookEvent env payload = (Inr event :: 'x exn + jsval) \<longrightarrow>
        JSON_parse env payload = Some event \<and> isWebhookEvent event)"
proof (intro conjI impI)
  assume "JSON_parse env payload = None"
  then show "parseWebhookEvent env payload = (Inl SyntaxError :: 'x exn + jsval)"
    by (simp add: parseWebhookEvent_def)
next
  assume a: "JSON_parse env payload = Some v \<and>
        (js_typeof (get_prop v (str ''id'')) \<noteq> ''string'' \<or>
         js_typeof (get_prop v (str ''eventType'')) \<noteq> ''string'' \<or>
         js_typeof (get_prop v (str ''created_at'')) \<noteq> ''number'' \<or>
         \<not> has_prop v (str ''object'') \<or>
         (\<forall>entity. get_prop v (str ''object'') \<noteq> Obj entity) \<or>
         (\<forall>d. get_prop (get_prop v (str ''object'')) (str ''object'') \<noteq> Str d) \<or>
         (\<exists>d. get_prop (get_prop v (str ''object'')) (str ''object'') = Str d \<and>
              d \<notin> {str ''checkout'', str ''customer'', str ''order'', str ''product'',
                    str ''subscription'', str ''refund'', str ''dispute'', str ''transaction''}))"
  have "\<not> isWebhookEvent v"
  proof
    assume "isWebhookEvent v"
    from isWebhookEvent_fields [OF this] a show False
      by (auto simp: isWebhookEvent_def entity_types_def split: if_splits)
  qed
  with a show "parseWebhookEvent env payload =
      (Inl (Error ''Invalid webhook event structure'') :: 'x exn + jsval)"
    by (simp add: parse_rejects_structure)
next
  assume "parseWebhookEvent env payload = (Inr event :: 'x exn + jsval)"
  then show "JSON_parse env payload = Some event" "isWebhookEvent event"
    by (simp_all add: parseWebhookEvent_Inr)
qed

theorem parse_rejects_malformed_witness:
  "parseWebhookEvent sample_env garbage_text = (Inl SyntaxError :: string exn + jsval)
   \<and> parseWebhookEvent sample_env snake_text =
       (Inl (Error ''Invalid webhook event structure'') :: string exn + jsval)
   \<and> parseWebhookEvent sample_env camel_text =
       (Inl (Error ''Invalid webhook event structure'') :: string exn + jsval)
   \<and> parseWebhookEvent sample_env untyped_text =
       (Inl (Error ''Invalid webhook event structure'') :: string exn + jsval)
   \<and> parseWebhookEvent sample_env active_text = (Inr active_event :: string exn + jsval)
   \<and> isWebhookEvent active_event"
proof -
  note c5 = parse_rejects_malformed [where ?'x = string]
  have 1: "parseWebhookEvent sample_env garbage_text = (Inl SyntaxError :: string exn + jsval)"
    using c5 [of sample_env garbage_text] by (simp add: sample_decode)
  have "js_typeof (get_prop snake_event (str ''eventType'')) \<noteq> ''string''"
    by (simp add: snake_event_def)
  then have 2: "parseWebhookEvent sample_env snake_text =
       (Inl (Error ''Invalid webhook event structure'') :: string exn + jsval)"
    using c5 [of sample_env snake_text snake_event] by (simp add: sample_decode)
  have "js_typeof (get_prop camel_event (str ''created_at'')) \<noteq> ''number''"
    by (simp add: camel_event_def)
  then have 3: "parseWebhookEvent sample_env camel_text =
       (Inl (Error ''Invalid webhook event structure'') :: string exn + jsval)"
    using c5 [of sample_env camel_text camel_event] by (simp add: sample_decode)
  have "\<forall>d. get_prop (get_prop untyped_event (str ''object'')) (str ''object'') \<noteq> Str d"
    by (simp add: untyped_event_def)
  then have 4: "parseWebhookEvent sample_env untyped_text =
       (Inl (Error ''Invalid webhook event structure'') :: string exn + jsval)"
    using c5 [of sample_env untyped_text untyped_event] by (simp add: sample_decode)
  have 5: "parseWebhookEvent sample_env active_text = (Inr active_event :: string exn + jsval)"
    by (rule sample_parse_active)
  with c5 [of sample_env active_text _ active_event] have 6: "isWebhookEvent active_event"
    by simp
  from 1 2 3 4 5 6 show ?thesis by simp
qed

text \<open>
  Claim C6, as stated: every payload whose signature verifies and whose parsing fails makes
  \<open>handleEvents\<close> fail with the error "Invalid webhook event structure". It does not when
  the text is not well-formed: for the text \<open>not json\<close> under its correct signature the
  call fails with the SyntaxError that \<open>JSON.parse\<close> throws, which nothing catches.
\<close>

theorem unparseable_text_raises_SyntaxError:
  "verifySignature sample_env garbage_text
     (generateSignature sample_env garbage_text sample_secret) sample_secret
     = (Inr True :: string exn + bool)
   \<and> JSON_parse sample_env garbage_text = None
   \<and> handleEvents sample_env (Some sample_secret) (Text garbage_text)
       (generateSignature sample_env garbage_text sample_secret) no_handlers
     = ([], Inl SyntaxError)
   \<and> snd (handleEvents sample_env (Some sample_secret) (Text garbage_text)
       (generateSignature sample_env garbage_text sample_secret) no_handlers)
     \<noteq> Inl (Error ''Invalid webhook event structure'')"
  by (simp add: sample_verified sample_decode handleEvents_with_secret sample_secret_nonempty
      payloadString_Text sample_parse_garbage)

text \<open>
  Claim C6, amended: for every payload whose signature verifies, \<open>handleEvents\<close> fails
  with the SyntaxError of \<open>JSON.parse\<close> when the text is not well-formed structured data,
  and with the error "Invalid webhook event structure" when the text decodes to a value
  that fails the structure check; every signature-verification failure raises the error
  "Invalid webhook signature".
\<close>

theorem parse_and_signature_failures:
  "s \<noteq> [] \<Longrightarrow>
   (verifySignature env (payloadString env payload) signature s = (Inr True :: 'x exn + bool) \<and>
    JSON_parse env (payloadString env payload) = None \<longrightarrow>
      handleEvents env (Some s) payload signature handlers = ([], Inl SyntaxError))
   \<and> (verifySignature env (payloadString env payload) signature s = (Inr True :: 'x exn + bool) \<and>
      JSON_parse env (payloadString env payload) = Some v \<and> \<not> isWebhookEvent v \<longrightarrow>
      handleEvents env (Some s) payload signature handlers =
        ([], Inl (Error ''Invalid webhook event structure'')))
   \<and> (verifySignature env (payloadString env payload) signature s = (Inr False :: 'x exn + bool) \<longrightarrow>
      handleEvents env (Some s) payload signature (handlers :: 'x WebhookOptions) =
        ([], Inl (Error ''Invalid webhook signature'')))"
proof -
  assume s: "s \<noteq> []"
  let ?text = "payloadString env payload"
  note unfold = handleEvents_with_secret [OF s, of env payload signature handlers]
  have unparsed: "handleEvents env (Some s) payload signature handlers = ([], Inl SyntaxError)"
    if "verifySignature env ?text signature s = (Inr True :: 'x exn + bool)"
      and "JSON_parse env ?text = None"
  proof -
    from that(1) have "signature = generateSignature env ?text s"
      by (simp add: verifySignature_eq)
    moreover from that(2) have "parseWebhookEvent env ?text = (Inl SyntaxError :: 'x exn + jsval)"
      by (simp add: parseWebhookEvent_def)
    ultimately show ?thesis using unfold by simp
  qed
  have misshaped: "handleEvents env (Some s) payload signature handlers =
      ([], Inl (Error ''Invalid webhook event structure''))"
    if "verifySignature env ?text signature s = (Inr True :: 'x exn + bool)"
      and "JSON_parse env ?text = Some v" and "\<not> isWebhookEvent v"
  proof -
    from that(1) have "signature = generateSignature env ?text s"
      by (simp add: verifySignature_eq)
    moreover from that(2,3) have "parseWebhookEvent env ?text =
        (Inl (Error ''Invalid webhook event structure'') :: 'x exn + jsval)"
      by (rule parse_rejects_structure)
    ultimately show ?thesis using unfold by simp
  qed
  have unverified: "handleEvents env (Some s) payload signature handlers =
      ([], Inl (Error ''Invalid webhook signature''))"
    if "verifySignature env ?text signature s = (Inr False :: 'x exn + bool)"
  proof -
    from that have "signature \<noteq> generateSignature env ?text s"
      by (simp add: verifySignature_eq)
    then show ?thesis using unfold by simp
  qed
  from unparsed misshaped unverified show ?thesis by blast
qed

theorem parse_and_signature_failures_witness:
  "sample_secret \<noteq> []
   \<and> handleEvents sample_env (Some sample_secret) (Text garbage_text)
       (generateSignature sample_env garbage_text sample_secret) all_handlers
     = ([], Inl SyntaxError)
   \<and> handleEvents sample_env (Some sample_secret) (Text untyped_text)
       (generateSignature sample_env untyped_text sample_secret) all_handlers
     = ([], Inl (Error ''Invalid webhook event structure''))
   \<and> handleEvents sample_env (Some sample_secret) (Text active_text) (str ''00ff'') all_handlers
     = ([], Inl (Error ''Invalid webhook signature''))"
proof -
  note c6 = parse_and_signature_failures [OF sample_secret_nonempty, where ?'x = string]
  have bad: "verifySignature sample_env active_text (str ''00ff'') sample_secret
      = (Inr False :: string exn + bool)"
    by (simp add: verifySignature_eq sample_signature_differs str_def)
  have u: "\<not> isWebhookEvent untyped_event"
    by (simp add: untyped_event_def parser_eval)
  have 1: "handleEvents sample_env (Some sample_secret) (Text garbage_text)
       (generateSignature sample_env garbage_text sample_secret) all_handlers
     = ([], Inl SyntaxError)"
    using c6 [where env = sample_env and payload = "Text garbage_text"
        and signature = "generateSignature sample_env garbage_text sample_secret"
        and handlers = all_handlers]
    by (simp add: payloadString_Text sample_verified sample_decode)
  have 2: "handleEvents sample_env (Some sample_secret) (Text untyped_text)
       (generateSignature sample_env untyped_text sample_secret) all_handlers
     = ([], Inl (Error ''Invalid webhook event structure''))"
    using u c6 [where env = sample_env and payload = "Text untyped_text"
        and signature = "generateSignature sample_env untyped_text sample_secret"
        and v = untyped_event and handlers = all_handlers]
    by (simp add: payloadString_Text sample_verified sample_decode)
  have 3: "handleEvents sample_env (Some sample_secret) (Text active_text) (str ''00ff'')
      all_handlers = ([], Inl (Error ''Invalid webhook signature''))"
    using bad c6 [where env = sample_env and payload = "Text active_text"
        and signature = "str ''00ff''" and handlers = all_handlers]
    by (simp add: payloadString_Text)
  from 1 2 3 sample_secret_nonempty show ?thesis by simp
qed

section \<open>Callback arguments and required keys: the claims\<close>

text \<open>
  Claim C9. The argument of every callback is the wrapper fields with the fields of the
  normalized entity spread over them: a key of the entity takes the entity's value in the
  argument, also when it is one of \<open>webhookEventType\<close>, \<open>webhookId\<close>, \<open>webhookCreatedAt\<close>
  or \<open>reason\<close>; a wrapper key that the entity does not have keeps the wrapper's value.
  Hence there is a delivery whose handler sees a \<open>webhookEventType\<close> different from the
  event type of the envelope, and one whose access-control context has a \<open>reason\<close>
  different from the reason the dispatcher assigned.
\<close>

theorem entity_fields_replace_wrapper_fields:
  "(s \<noteq> [] \<and>
    verifySignature env (payloadString env payload) signature s = (Inr True :: 'x exn + bool) \<and>
    parseWebhookEvent env (payloadString env payload) = (Inr event :: 'x exn + jsval) \<and>
    normalizeWebhookData env (get_prop event (str ''object'')) = Obj entity \<and>
    distinct (map fst entity) \<and>
    Call h a \<in> set (fst (handleEvents env (Some s) payload signature
                          (handlers :: 'x WebhookOptions)))
    \<longrightarrow>
      (has_prop (Obj entity) k \<longrightarrow> get_prop a k = get_prop (Obj entity) k)
      \<and> (h \<notin> {OnGrantAccess, OnRevokeAccess} \<and> \<not> has_prop (Obj entity) k \<longrightarrow>
           (k = str ''webhookEventType'' \<longrightarrow> get_prop a k = get_prop event (str ''eventType'')) \<and>
           (k = str ''webhookId'' \<longrightarrow> get_prop a k = get_prop event (str ''id'')) \<and>
           (k = str ''webhookCreatedAt'' \<longrightarrow> get_prop a k = get_prop event (str ''created_at'')))
      \<and> (h \<in> {OnGrantAccess, OnRevokeAccess} \<and> \<not> has_prop (Obj entity) (str ''reason'') \<longrightarrow>
           (\<exists>t r. get_prop event (str ''eventType'') = Str t \<and>
                  (h, Some r) \<in> set (dispatch_table t) \<and>
                  get_prop a (str ''reason'') = Str (str r))))
   \<and> (\<exists>a. handleEvents sample_env (Some sample_secret) (Text override_text)
              (generateSignature sample_env override_text sample_secret) all_handlers =
              ([Call OnCheckoutCompleted a], Inr ()) \<and>
            get_prop override_event (str ''eventType'') = Str (str ''checkout.completed'') \<and>
            get_prop a (str ''webhookEventType'') = Str (str ''forged''))
   \<and> (\<exists>c a. handleEvents sample_env (Some sample_secret) (Text reason_text)
              (generateSignature sample_env reason_text sample_secret) all_handlers =
              ([Call OnGrantAccess c, Call OnSubscriptionActive a], Inr ()) \<and>
            (OnGrantAccess, Some ''subscription_active'')
              \<in> set (dispatch_table (str ''subscription.active'')) \<and>
            get_prop c (str ''reason'') = Str (str ''forged''))"
proof (intro conjI)
  show "s \<noteq> [] \<and>
    verifySignature env (payloadString env payload) signature s = (Inr True :: 'x exn + bool) \<and>
    parseWebhookEvent env (payloadString env payload) = (Inr event :: 'x exn + jsval) \<and>
    normalizeWebhookData env (get_prop event (str ''object'')) = Obj entity \<and>
    distinct (map fst entity) \<and>
    Call h a \<in> set (fst (handleEvents env (Some s) payload signature handlers))
    \<longrightarrow>
      (has_prop (Obj entity) k \<longrightarrow> get_prop a k = get_prop (Obj entity) k)
      \<and> (h \<notin> {OnGrantAccess, OnRevokeAccess} \<and> \<not> has_prop (Obj entity) k \<longrightarrow>
           (k = str ''webhookEventType'' \<longrightarrow> get_prop a k = get_prop event (str ''eventType'')) \<and>
           (k = str ''webhookId'' \<longrightarrow> get_prop a k = get_prop event (str ''id'')) \<and>
           (k = str ''webhookCreatedAt'' \<longrightarrow> get_prop a k = get_prop event (str ''created_at'')))
      \<and> (h \<in> {OnGrantAccess, OnRevokeAccess} \<and> \<not> has_prop (Obj entity) (str ''reason'') \<longrightarrow>
           (\<exists>t r. get_prop event (str ''eventType'') = Str t \<and>
                  (h, Some r) \<in> set (dispatch_table t) \<and>
                  get_prop a (str ''reason'') = Str (str r)))"
  proof (rule impI)
    assume asm: "s \<noteq> [] \<and>
      verifySignature env (payloadString env payload) signature s = (Inr True :: 'x exn + bool) \<and>
      parseWebhookEvent env (payloadString env payload) = (Inr event :: 'x exn + jsval) \<and>
      normalizeWebhookData env (get_prop event (str ''object'')) = Obj entity \<and>
      distinct (map fst entity) \<and>
      Call h a \<in> set (fst (handleEvents env (Some s) payload signature handlers))"
    then have d: "distinct (map fst entity)" by simp
    from asm handleEvents_calls [of s env payload signature event h a handlers]
    obtain t r where t: "get_prop event (str ''eventType'') = Str t"
      and row: "(h, r) \<in> set (dispatch_table t)"
      and a: "a = step_argument event (Obj entity) r"
      by auto
    note kind = dispatch_table_reasons [OF row]
    have 1: "has_prop (Obj entity) k \<longrightarrow> get_prop a k = get_prop (Obj entity) k"
      using a step_argument_props(1) [OF d] by simp
    have 2: "h \<notin> {OnGrantAccess, OnRevokeAccess} \<and> \<not> has_prop (Obj entity) k \<longrightarrow>
           (k = str ''webhookEventType'' \<longrightarrow> get_prop a k = get_prop event (str ''eventType'')) \<and>
           (k = str ''webhookId'' \<longrightarrow> get_prop a k = get_prop event (str ''id'')) \<and>
           (k = str ''webhookCreatedAt'' \<longrightarrow> get_prop a k = get_prop event (str ''created_at''))"
    proof (intro impI)
      assume "h \<notin> {OnGrantAccess, OnRevokeAccess} \<and> \<not> has_prop (Obj entity) k"
      with kind have "r = None" "\<not> has_prop (Obj entity) k" by simp_all
      with a step_argument_props(2) [OF d, of k event]
      have "get_prop a k = get_prop (Obj (from_entries (event_fields event))) k" by simp
      then show "(k = str ''webhookEventType'' \<longrightarrow> get_prop a k = get_prop event (str ''eventType'')) \<and>
           (k = str ''webhookId'' \<longrightarrow> get_prop a k = get_prop event (str ''id'')) \<and>
           (k = str ''webhookCreatedAt'' \<longrightarrow> get_prop a k = get_prop event (str ''created_at''))"
        by (auto simp: wrapper_fields simp del: get_prop.simps)
    qed
    have 3: "h \<in> {OnGrantAccess, OnRevokeAccess} \<and> \<not> has_prop (Obj entity) (str ''reason'') \<longrightarrow>
           (\<exists>t r. get_prop event (str ''eventType'') = Str t \<and>
                  (h, Some r) \<in> set (dispatch_table t) \<and>
                  get_prop a (str ''reason'') = Str (str r))"
    proof (intro impI)
      assume b: "h \<in> {OnGrantAccess, OnRevokeAccess} \<and> \<not> has_prop (Obj entity) (str ''reason'')"
      with kind obtain w where w: "r = Some w" by auto
      with a b step_argument_props(3) [OF d, of "str ''reason''" event w]
      have "get_prop a (str ''reason'') = Str (str w)"
        by (simp add: wrapper_fields del: get_prop.simps has_prop.simps step_argument.simps)
      with t row w show "\<exists>t r. get_prop event (str ''eventType'') = Str t \<and>
                  (h, Some r) \<in> set (dispatch_table t) \<and>
                  get_prop a (str ''reason'') = Str (str r)" by blast
    qed
    from 1 2 3 show "(has_prop (Obj entity) k \<longrightarrow> get_prop a k = get_prop (Obj entity) k)
      \<and> (h \<notin> {OnGrantAccess, OnRevokeAccess} \<and> \<not> has_prop (Obj entity) k \<longrightarrow>
           (k = str ''webhookEventType'' \<longrightarrow> get_prop a k = get_prop event (str ''eventType'')) \<and>
           (k = str ''webhookId'' \<longrightarrow> get_prop a k = get_prop event (str ''id'')) \<and>
           (k = str ''webhookCreatedAt'' \<longrightarrow> get_prop a k = get_prop event (str ''created_at'')))
      \<and> (h \<in> {OnGrantAccess, OnRevokeAccess} \<and> \<not> has_prop (Obj entity) (str ''reason'') \<longrightarrow>
           (\<exists>t r. get_prop event (str ''eventType'') = Str t \<and>
                  (h, Some r) \<in> set (dispatch_table t) \<and>
                  get_prop a (str ''reason'') = Str (str r)))"
      by blast
  qed
next
  show "\<exists>a. handleEvents sample_env (Some sample_secret) (Text override_text)
              (generateSignature sample_env override_text sample_secret) all_handlers =
              ([Call OnCheckoutCompleted a], Inr ()) \<and>
            get_prop override_event (str ''eventType'') = Str (str ''checkout.completed'') \<and>
            get_prop a (str ''webhookEventType'') = Str (str ''forged'')"
    by (rule exI [of _ override_argument])
       (simp add: sample_deliveries override_event_def override_argument_def)
next
  show "\<exists>c a. handleEvents sample_env (Some sample_secret) (Text reason_text)
              (generateSignature sample_env reason_text sample_secret) all_handlers =
              ([Call OnGrantAccess c, Call OnSubscriptionActive a], Inr ()) \<and>
            (OnGrantAccess, Some ''subscription_active'')
              \<in> set (dispatch_table (str ''subscription.active'')) \<and>
            get_prop c (str ''reason'') = Str (str ''forged'')"
    by (rule exI [of _ reason_context], rule exI [of _ reason_argument])
       (simp add: sample_deliveries sample_table_rows reason_context_def)
qed

theorem entity_fields_replace_wrapper_fields_witness:
  "Call OnCheckoutCompleted override_argument
     \<in> set (fst (handleEvents sample_env (Some sample_secret) (Text override_text)
                   (generateSignature sample_env override_text sample_secret) all_handlers))
   \<and> has_prop (normalizeWebhookData sample_env (get_prop override_event (str ''object'')))
         (str ''webhookEventType'')
   \<and> get_prop override_argument (str ''webhookEventType'') = Str (str ''forged'')
   \<and> get_prop override_argument (str ''webhookId'') = get_prop override_event (str ''id'')"
proof -
  let ?entity = "[(str ''object'', Str (str ''checkout'')),
                  (str ''webhookEventType'', Str (str ''forged''))]"
  let ?sig = "generateSignature sample_env override_text sample_secret"
  have call: "Call OnCheckoutCompleted override_argument
     \<in> set (fst (handleEvents sample_env (Some sample_secret) (Text override_text) ?sig
                   all_handlers))"
    by (simp add: sample_deliveries)
  have hyps: "sample_secret \<noteq> [] \<and>
    verifySignature sample_env (payloadString sample_env (Text override_text)) ?sig sample_secret
      = (Inr True :: string exn + bool) \<and>
    parseWebhookEvent sample_env (payloadString sample_env (Text override_text)) =
      (Inr override_event :: string exn + jsval) \<and>
    normalizeWebhookData sample_env (get_prop override_event (str ''object'')) = Obj ?entity \<and>
    distinct (map fst ?entity) \<and>
    Call OnCheckoutCompleted override_argument
      \<in> set (fst (handleEvents sample_env (Some sample_secret) (Text override_text) ?sig
                    all_handlers))"
    using call
    by (simp add: sample_secret_nonempty payloadString_Text sample_verified
        sample_parse_override sample_normalized)
  note c9 = entity_fields_replace_wrapper_fields [THEN conjunct1, rule_format, OF hyps]
  have has: "has_prop (Obj ?entity) (str ''webhookEventType'')"
    and lacks: "\<not> has_prop (Obj ?entity) (str ''webhookId'')"
    by simp_all
  from c9 [THEN conjunct1, rule_format, OF has]
  have 1: "get_prop override_argument (str ''webhookEventType'') = Str (str ''forged'')"
    by simp
  have "OnCheckoutCompleted \<notin> {OnGrantAccess, OnRevokeAccess} \<and>
      \<not> has_prop (Obj ?entity) (str ''webhookId'')"
    by simp
  from c9 [THEN conjunct2, THEN conjunct1, rule_format, OF this]
  have 2: "get_prop override_argument (str ''webhookId'') = get_prop override_event (str ''id'')"
    by simp
  from call has 1 2 show ?thesis by (simp add: sample_normalized)
qed

text \<open>
  Claim C10, as stated: the wrapper field \<open>webhookCreatedAt\<close> that is dispatched is the
  value of \<open>created_at\<close>. It is not when the entity has a key \<open>webhookCreatedAt\<close> of its
  own: for the verified, well-formed \<open>refund.created\<close> delivery below, whose refund carries
  \<open>webhookCreatedAt: 1\<close>, the handler receives 1 and not the \<open>created_at\<close> of the
  envelope.
\<close>

theorem entity_key_replaces_webhookCreatedAt:
  "verifySignature sample_env stamped_text
     (generateSignature sample_env stamped_text sample_secret) sample_secret
     = (Inr True :: string exn + bool)
   \<and> parseWebhookEvent sample_env stamped_text = (Inr stamped_event :: string exn + jsval)
   \<and> get_prop stamped_event (str ''created_at'') = Num (Finite 1700000010)
   \<and> handleEvents sample_env (Some sample_secret) (Text stamped_text)
       (generateSignature sample_env stamped_text sample_secret) all_handlers =
       ([Call OnRefundCreated stamped_argument], Inr ())
   \<and> get_prop stamped_argument (str ''webhookCreatedAt'') = Num (Finite 1)
   \<and> get_prop stamped_argument (str ''webhookCreatedAt'')
       \<noteq> get_prop stamped_event (str ''created_at'')"
  by (simp add: sample_verified sample_parse_stamped sample_delivery_stamped)
     (simp add: stamped_event_def stamped_argument_def)

text \<open>
  Claim C10, amended. The parser accepts a decoded payload only when its top level has the
  key \<open>eventType\<close> with a string and the key \<open>created_at\<close> with a number: a payload that
  lacks \<open>eventType\<close> (one that has \<open>event_type\<close> instead, say) or lacks \<open>created_at\<close>
  (one that has \<open>createdAt\<close> instead) is rejected as malformed. The field
  \<open>webhookCreatedAt\<close> that a specific-event handler receives is the value of
  \<open>created_at\<close>, unchanged, whenever the normalized entity has no key
  \<open>webhookCreatedAt\<close> of its own.
\<close>

theorem parser_requires_eventType_and_created_at:
  "(parseWebhookEvent env text = (Inr event :: 'x exn + jsval) \<longrightarrow>
      (\<exists>t. get_prop event (str ''eventType'') = Str t) \<and>
      (\<exists>n. get_prop event (str ''created_at'') = Num n))
   \<and> (JSON_parse env text = Some v \<and>
        (\<not> has_prop v (str ''eventType'') \<or> \<not> has_prop v (str ''created_at'')) \<longrightarrow>
      parseWebhookEvent env text =
        (Inl (Error ''Invalid webhook event structure'') :: 'x exn + jsval))
   \<and> (s \<noteq> [] \<and>
        verifySignature env (payloadString env payload) signature s = (Inr True :: 'x exn + bool) \<and>
        parseWebhookEvent env (payloadString env payload) = (Inr event' :: 'x exn + jsval) \<and>
        normalizeWebhookData env (get_prop event' (str ''object'')) = Obj entity \<and>
        \<not> has_prop (Obj entity) (str ''webhookCreatedAt'') \<and>
        h \<notin> {OnGrantAccess, OnRevokeAccess} \<and>
        Call h a \<in> set (fst (handleEvents env (Some s) payload signature
                              (handlers :: 'x WebhookOptions))) \<longrightarrow>
      get_prop a (str ''webhookCreatedAt'') = get_prop event' (str ''created_at''))"
proof (intro conjI impI)
  assume "parseWebhookEvent env text = (Inr event :: 'x exn + jsval)"
  then have "isWebhookEvent event" by (simp add: parseWebhookEvent_Inr)
  from isWebhookEvent_fields [OF this]
  show "\<exists>t. get_prop event (str ''eventType'') = Str t"
    and "\<exists>n. get_prop event (str ''created_at'') = Num n"
    by blast+
next
  assume a: "JSON_parse env text = Some v \<and>
    (\<not> has_prop v (str ''eventType'') \<or> \<not> has_prop v (str ''created_at''))"
  then have "get_prop v (str ''eventType'') = Undefined \<or>
      get_prop v (str ''created_at'') = Undefined"
    using missing_prop by blast
  then have "\<not> isWebhookEvent v"
    by (auto simp: isWebhookEvent_def)
  with a show "parseWebhookEvent env text =
      (Inl (Error ''Invalid webhook event structure'') :: 'x exn + jsval)"
    by (simp add: parse_rejects_structure)
next
  assume a: "s \<noteq> [] \<and>
    verifySignature env (payloadString env payload) signature s = (Inr True :: 'x exn + bool) \<and>
    parseWebhookEvent env (payloadString env payload) = (Inr event' :: 'x exn + jsval) \<and>
    normalizeWebhookData env (get_prop event' (str ''object'')) = Obj entity \<and>
    \<not> has_prop (Obj entity) (str ''webhookCreatedAt'') \<and>
    h \<notin> {OnGrantAccess, OnRevokeAccess} \<and>
    Call h a \<in> set (fst (handleEvents env (Some s) payload signature handlers))"
  then have lacks: "\<not> has_prop (Obj entity) (str ''webhookCreatedAt'')" by simp
  from a handleEvents_calls [of s env payload signature event' h a handlers]
  obtain t r where row: "(h, r) \<in> set (dispatch_table t)"
    and arg: "a = step_argument event' (Obj entity) r"
    by auto
  from dispatch_table_reasons [OF row] a have "r = None" by simp
  with arg get_prop_object_literal_absent [OF lacks, of "event_fields event'"]
  show "get_prop a (str ''webhookCreatedAt'') = get_prop event' (str ''created_at'')"
    by (simp add: wrapper_fields del: get_prop.simps has_prop.simps)
qed

theorem parser_requires_eventType_and_created_at_witness:
  "parseWebhookEvent sample_env checkout_text = (Inr checkout_event :: string exn + jsval)
   \<and> get_prop checkout_event (str ''eventType'') = Str (str ''checkout.completed'')
   \<and> get_prop checkout_event (str ''created_at'') = Num (Finite 1700000000)
   \<and> \<not> has_prop snake_event (str ''eventType'')
   \<and> parseWebhookEvent sample_env snake_text =
       (Inl (Error ''Invalid webhook event structure'') :: string exn + jsval)
   \<and> \<not> has_prop camel_event (str ''created_at'')
   \<and> parseWebhookEvent sample_env camel_text =
       (Inl (Error ''Invalid webhook event structure'') :: string exn + jsval)
   \<and> Call OnCheckoutCompleted checkout_argument
       \<in> set (fst (handleEvents sample_env (Some sample_secret) (Text checkout_text)
                     (generateSignature sample_env checkout_text sample_secret) all_handlers))
   \<and> get_prop checkout_argument (str ''webhookCreatedAt'') = Num (Finite 1700000000)"
proof -
  note c10 = parser_requires_eventType_and_created_at [where ?'x = string]
  let ?entity = "[(str ''object'', Str (str ''checkout'')), (str ''requestId'', Str (str ''req_1''))]"
  let ?sig = "generateSignature sample_env checkout_text sample_secret"
  have p: "parseWebhookEvent sample_env checkout_text = (Inr checkout_event :: string exn + jsval)"
    by (rule sample_parse_checkout)
  from c10 [THEN conjunct1, rule_format, OF p]
  have 1: "(\<exists>t. get_prop checkout_event (str ''eventType'') = Str t) \<and>
      (\<exists>n. get_prop checkout_event (str ''created_at'') = Num n)" .
  have fields: "get_prop checkout_event (str ''eventType'') = Str (str ''checkout.completed'')"
    "get_prop checkout_event (str ''created_at'') = Num (Finite 1700000000)"
    by (simp_all add: checkout_event_def)
  have snake: "\<not> has_prop snake_event (str ''eventType'')"
    and camel: "\<not> has_prop camel_event (str ''created_at'')"
    by (simp_all add: snake_event_def camel_event_def)
  from c10 [THEN conjunct2, THEN conjunct1, rule_format, of sample_env snake_text snake_event]
    snake
  have 2: "parseWebhookEvent sample_env snake_text =
       (Inl (Error ''Invalid webhook event structure'') :: string exn + jsval)"
    by (simp add: sample_decode)
  from c10 [THEN conjunct2, THEN conjunct1, rule_format, of sample_env camel_text camel_event]
    camel
  have 3: "parseWebhookEvent sample_env camel_text =
       (Inl (Error ''Invalid webhook event structure'') :: string exn + jsval)"
    by (simp add: sample_decode)
  have call: "Call OnCheckoutCompleted checkout_argument
       \<in> set (fst (handleEvents sample_env (Some sample_secret) (Text checkout_text) ?sig
                     all_handlers))"
    by (simp add: sample_deliveries)
  have hyps: "sample_secret \<noteq> [] \<and>
    verifySignature sample_env (payloadString sample_env (Text checkout_text)) ?sig sample_secret
      = (Inr True :: string exn + bool) \<and>
    parseWebhookEvent sample_env (payloadString sample_env (Text checkout_text)) =
      (Inr checkout_event :: string exn + jsval) \<and>
    normalizeWebhookData sample_env (get_prop checkout_event (str ''object'')) = Obj ?entity \<and>
    \<not> has_prop (Obj ?entity) (str ''webhookCreatedAt'') \<and>
    OnCheckoutCompleted \<notin> {OnGrantAccess, OnRevokeAccess} \<and>
    Call OnCheckoutCompleted checkout_argument
       \<in> set (fst (handleEvents sample_env (Some sample_secret) (Text checkout_text) ?sig
                     all_handlers))"
    using call
    by (simp add: sample_secret_nonempty payloadString_Text sample_verified
        sample_parse_checkout sample_normalized)
  from c10 [THEN conjunct2, THEN conjunct2, rule_format, OF hyps] fields
  have 4: "get_prop checkout_argument (str ''webhookCreatedAt'') = Num (Finite 1700000000)"
    by simp
  from p fields snake camel 2 3 call 4 show ?thesis by simp
qed

end
